theory Spec2Isabelle
  imports Complex_Main
begin

section \<open>Numbers held by tensors\<close>

text \<open>
  The notebooks compute on floating-point tensors of the default type, float32. The model
  keeps the special values the code itself produces and consumes (\<open>-torch.inf\<close> written by
  \<open>masked_fill_\<close>, and the not-a-number that arithmetic on infinities yields); the two
  signed zeros are one value. The operations of this section are exact on finite values.
  The attention classes are modelled with them: what is proved there is which tensors are
  masked and multiplied. The normalization layers subtract numbers that are nearly equal,
  where rounding decides the sign of the result, so their arithmetic rounds every result
  to float32 (the second part of this section).
\<close>

datatype fnum = Fin real | PInf | NInf | NaN

fun fneg :: "fnum \<Rightarrow> fnum" where
  "fneg (Fin a) = Fin (- a)"
| "fneg PInf = NInf"
| "fneg NInf = PInf"
| "fneg NaN = NaN"

fun fadd :: "fnum \<Rightarrow> fnum \<Rightarrow> fnum" where
  "fadd (Fin a) (Fin b) = Fin (a + b)"
| "fadd (Fin a) PInf = PInf"
| "fadd (Fin a) NInf = NInf"
| "fadd PInf (Fin b) = PInf"
| "fadd PInf PInf = PInf"
| "fadd PInf NInf = NaN"
| "fadd NInf (Fin b) = NInf"
| "fadd NInf PInf = NaN"
| "fadd NInf NInf = NInf"
| "fadd NaN y = NaN"
| "fadd x NaN = NaN"

definition fsub :: "fnum \<Rightarrow> fnum \<Rightarrow> fnum" where
  "fsub x y = fadd x (fneg y)"

fun fmul :: "fnum \<Rightarrow> fnum \<Rightarrow> fnum" where
  "fmul (Fin a) (Fin b) = Fin (a * b)"
| "fmul (Fin a) PInf = (if a = 0 then NaN else if 0 < a then PInf else NInf)"
| "fmul (Fin a) NInf = (if a = 0 then NaN else if 0 < a then NInf else PInf)"
| "fmul PInf (Fin b) = (if b = 0 then NaN else if 0 < b then PInf else NInf)"
| "fmul NInf (Fin b) = (if b = 0 then NaN else if 0 < b then NInf else PInf)"
| "fmul PInf PInf = PInf"
| "fmul PInf NInf = NInf"
| "fmul NInf PInf = NInf"
| "fmul NInf NInf = PInf"
| "fmul NaN y = NaN"
| "fmul x NaN = NaN"

fun fdiv :: "fnum \<Rightarrow> fnum \<Rightarrow> fnum" where
  "fdiv (Fin a) (Fin b) =
     (if b = 0 then (if a = 0 then NaN else if 0 < a then PInf else NInf) else Fin (a / b))"
| "fdiv (Fin a) PInf = Fin 0"
| "fdiv (Fin a) NInf = Fin 0"
| "fdiv PInf (Fin b) = (if 0 \<le> b then PInf else NInf)"
| "fdiv NInf (Fin b) = (if 0 \<le> b then NInf else PInf)"
| "fdiv PInf PInf = NaN"
| "fdiv PInf NInf = NaN"
| "fdiv NInf PInf = NaN"
| "fdiv NInf NInf = NaN"
| "fdiv NaN y = NaN"
| "fdiv x NaN = NaN"

fun fexp :: "fnum \<Rightarrow> fnum" where
  "fexp (Fin a) = Fin (exp a)"
| "fexp PInf = PInf"
| "fexp NInf = Fin 0"
| "fexp NaN = NaN"

fun fsqrt :: "fnum \<Rightarrow> fnum" where
  "fsqrt (Fin a) = (if a < 0 then NaN else Fin (sqrt a))"
| "fsqrt PInf = PInf"
| "fsqrt NInf = NaN"
| "fsqrt NaN = NaN"

fun is_fin :: "fnum \<Rightarrow> bool" where
  "is_fin (Fin a) = True"
| "is_fin x = False"

fun fin_val :: "fnum \<Rightarrow> real" where
  "fin_val (Fin a) = a"
| "fin_val x = 0"

subsection \<open>Rounding to float32\<close>

text \<open>
  A float32 number has 24 significant bits and a binary exponent from \<open>-126\<close> to \<open>127\<close>;
  below the smallest exponent the numbers keep the spacing of that exponent. A result is
  rounded to the nearest number of the format, a tie to the one whose last bit is even,
  and a result whose rounding passes the largest number of the format is infinite.
\<close>

definition round_even :: "real \<Rightarrow> int" where
  "round_even q =
     (let f = \<lfloor>q\<rfloor>; d = q - of_int f
      in if d < 1 / 2 then f else if 1 / 2 < d then f + 1 else if even f then f else f + 1)"

definition pow2 :: "int \<Rightarrow> real" where
  "pow2 k = (if 0 \<le> k then 2 ^ nat k else 1 / 2 ^ nat (- k))"

text \<open>The number of binary digits of \<open>n\<close>, and with it the exponent \<open>e\<close> of a positive
  real \<open>a\<close>: \<open>2\<^sup>e \<le> a < 2\<^sup>e\<^sup>+\<^sup>1\<close>.\<close>

fun bits :: "nat \<Rightarrow> nat" where
  "bits n = (if n = 0 then 0 else Suc (bits (n div 2)))"

declare bits.simps [simp del]

definition exponent :: "real \<Rightarrow> int" where
  "exponent a =
     (if 1 \<le> a then int (bits (nat \<lfloor>a\<rfloor>)) - 1 else - int (bits (nat \<lceil>1 / a\<rceil> - 1)))"

definition round32 :: "real \<Rightarrow> fnum" where
  "round32 r =
     (if r = 0 then Fin 0
      else let e = max (exponent \<bar>r\<bar>) (- 126);
               u = pow2 (e - 23);
               v = of_int (round_even (r / u)) * u
           in if pow2 128 \<le> \<bar>v\<bar> then (if 0 < r then PInf else NInf) else Fin v)"

fun fround :: "fnum \<Rightarrow> fnum" where
  "fround (Fin r) = round32 r"
| "fround x = x"

text \<open>The operations on float32 tensors: the exact result, rounded.\<close>

definition add32 :: "fnum \<Rightarrow> fnum \<Rightarrow> fnum" where
  "add32 x y = fround (fadd x y)"

definition sub32 :: "fnum \<Rightarrow> fnum \<Rightarrow> fnum" where
  "sub32 x y = fround (fsub x y)"

definition mul32 :: "fnum \<Rightarrow> fnum \<Rightarrow> fnum" where
  "mul32 x y = fround (fmul x y)"

definition div32 :: "fnum \<Rightarrow> fnum \<Rightarrow> fnum" where
  "div32 x y = fround (fdiv x y)"

definition sqrt32 :: "fnum \<Rightarrow> fnum" where
  "sqrt32 x = fround (fsqrt x)"

section \<open>Tensors and the library primitives the notebooks call\<close>

text \<open>
  The attention classes only touch tensors of three and four dimensions through matrix
  operations on the last two. A three-dimensional tensor \<open>(b, num_tokens, d)\<close> is the list
  of its \<open>b\<close> batch entries, each the list of its token rows. A tensor with a zero-sized
  dimension has no entry that records the sizes of the dimensions after it; where the code
  needs such a size (the number of columns of a matrix product) the model takes it from the
  layer that produced the tensor.
\<close>

type_synonym vec = "fnum list"
type_synonym mat = "fnum list list"
type_synonym tensor3 = "fnum list list list"

datatype error =
  AssertionError | ZeroDivisionError | ValueError | RuntimeError | AttributeError | IndexError

definition fsum :: "vec \<Rightarrow> fnum" where
  "fsum xs = foldr fadd xs (Fin 0)"

definition dot :: "vec \<Rightarrow> vec \<Rightarrow> fnum" where
  "dot a b = fsum (map2 fmul a b)"

text \<open>\<open>A @ B.transpose(-2, -1)\<close>: entry \<open>(i, j)\<close> is the dot product of row \<open>i\<close> of \<open>A\<close>
  and row \<open>j\<close> of \<open>B\<close>.\<close>

definition matmul_nt :: "mat \<Rightarrow> mat \<Rightarrow> mat" where
  "matmul_nt A B = map (\<lambda>a. map (dot a) B) A"

text \<open>\<open>A @ B\<close> for a matrix \<open>B\<close> of \<open>m\<close> columns.\<close>

definition columns :: "nat \<Rightarrow> mat \<Rightarrow> mat" where
  "columns m B = map (\<lambda>j. map (\<lambda>row. row ! j) B) [0..<m]"

definition matmul :: "nat \<Rightarrow> mat \<Rightarrow> mat \<Rightarrow> mat" where
  "matmul m A B = map (\<lambda>a. map (dot a) (columns m B)) A"

text \<open>\<open>torch.nn.Linear\<close>: \<open>y = x W\<^sup>T + b\<close> on the last dimension; a row whose length is
  not \<open>in_features\<close> makes the product raise.\<close>

record linear =
  in_features :: nat
  weight :: mat
  bias :: "vec option"

definition out_features :: "linear \<Rightarrow> nat" where
  "out_features L = length (weight L)"

definition linear_accepts :: "linear \<Rightarrow> tensor3 \<Rightarrow> bool" where
  "linear_accepts L x = list_all (list_all (\<lambda>row. length row = in_features L)) x"

definition Linear_row :: "linear \<Rightarrow> vec \<Rightarrow> vec" where
  "Linear_row L row =
     (case bias L of
        None \<Rightarrow> map (dot row) (weight L)
      | Some b \<Rightarrow> map2 fadd (map (dot row) (weight L)) b)"

definition Linear_forward :: "linear \<Rightarrow> mat \<Rightarrow> mat" where
  "Linear_forward L X = map (Linear_row L) X"

text \<open>\<open>torch.triu(torch.ones(n, n), diagonal=1)\<close>, \<open>.bool()\<close> and the slice
  \<open>[:n, :n]\<close>.\<close>

definition triu_ones :: "nat \<Rightarrow> mat" where
  "triu_ones n = map (\<lambda>i. map (\<lambda>j. if i < j then Fin 1 else Fin 0) [0..<n]) [0..<n]"

definition to_bool :: "mat \<Rightarrow> bool list list" where
  "to_bool M = map (map (\<lambda>v. v \<noteq> Fin 0)) M"

definition slice2 :: "nat \<Rightarrow> nat \<Rightarrow> 'a list list \<Rightarrow> 'a list list" where
  "slice2 r c M = map (take c) (take r M)"

text \<open>\<open>masked_fill_\<close>: the mask is broadcast to the shape of the tensor it fills (a
  dimension of size one is repeated); any other mismatch of sizes raises.\<close>

definition mask_broadcastable :: "mat \<Rightarrow> bool list list \<Rightarrow> bool" where
  "mask_broadcastable S M =
     ((length M = length S \<or> length M = 1) \<and>
      list_all (\<lambda>mrow. list_all (\<lambda>srow. length mrow = length srow \<or> length mrow = 1) S) M)"

definition mask_at :: "bool list list \<Rightarrow> nat \<Rightarrow> nat \<Rightarrow> bool" where
  "mask_at M i j =
     (let mrow = M ! (if length M = 1 then 0 else i)
      in mrow ! (if length mrow = 1 then 0 else j))"

definition masked_fill :: "mat \<Rightarrow> bool list list \<Rightarrow> fnum \<Rightarrow> error + mat" where
  "masked_fill S M v =
     (if mask_broadcastable S M
      then Inr (map (\<lambda>(i, srow). map (\<lambda>(j, s). if mask_at M i j then v else s)
                                    (enumerate 0 srow))
                    (enumerate 0 S))
      else Inl RuntimeError)"

definition div_scalar :: "mat \<Rightarrow> fnum \<Rightarrow> mat" where
  "div_scalar S c = map (map (\<lambda>s. fdiv s c)) S"

text \<open>\<open>torch.softmax(_, dim=-1)\<close> by its documented formula
  \<open>exp x\<^sub>i / \<Sum>\<^sub>j exp x\<^sub>j\<close>.\<close>

definition softmax :: "vec \<Rightarrow> vec" where
  "softmax xs = (let es = map fexp xs; s = fsum es in map (\<lambda>e. fdiv e s) es)"

text \<open>\<open>nn.Dropout(p)\<close>: the identity when \<open>p = 0\<close> or the module is in evaluation mode;
  otherwise every entry is multiplied by its noise, \<open>1 / (1 - p)\<close> where the random draw
  keeps the entry and \<open>0\<close> where it drops it. The draw is an argument of the model: it
  tells for the index of an entry whether the entry is kept.\<close>

type_synonym draw = "nat list \<Rightarrow> bool"

definition noise :: "real \<Rightarrow> bool \<Rightarrow> fnum" where
  "noise p kept = (if kept \<and> p < 1 then Fin (1 / (1 - p)) else Fin 0)"

definition Dropout_forward :: "real \<Rightarrow> bool \<Rightarrow> draw \<Rightarrow> nat list \<Rightarrow> mat \<Rightarrow> mat" where
  "Dropout_forward p training keep pre W =
     (if p = 0 \<or> \<not> training then W
      else map (\<lambda>(i, wrow). map (\<lambda>(j, w). fmul w (noise p (keep (pre @ [i, j]))))
                                 (enumerate 0 wrow))
               (enumerate 0 W))"

text \<open>Errors of a list of results: the first one raised.\<close>

fun collect :: "(error + 'a) list \<Rightarrow> error + 'a list" where
  "collect [] = Inr []"
| "collect (Inl e # rs) = Inl e"
| "collect (Inr v # rs) = (case collect rs of Inl e \<Rightarrow> Inl e | Inr vs \<Rightarrow> Inr (v # vs))"

text \<open>Sequencing: an error raised by a step ends the computation.\<close>

definition and_then :: "error + 'a \<Rightarrow> ('a \<Rightarrow> error + 'b) \<Rightarrow> error + 'b" where
  "and_then r f = (case r of Inl e \<Rightarrow> Inl e | Inr v \<Rightarrow> f v)"

text \<open>Python's \<open>n ** 0.5\<close> and \<open>n ** -0.5\<close> for a size \<open>n\<close>; the second raises
  ZeroDivisionError at \<open>n = 0\<close>.\<close>

definition pow_half :: "nat \<Rightarrow> fnum" where
  "pow_half n = Fin (sqrt (real n))"

definition pow_minus_half :: "nat \<Rightarrow> error + fnum" where
  "pow_minus_half n = (if n = 0 then Inl ZeroDivisionError else Inr (Fin (real n powr (- (1 / 2)))))"

section \<open>Comparing multi-head attention implementations (notebook of 4\_batchnorm)\<close>

subsection \<open>CasualAttention and MHA\_Wrapper\<close>

record CasualAttention =
  d_out :: int
  W_query :: linear
  W_key :: linear
  W_value :: linear
  dropout :: real
  mask :: mat
  training :: bool

text \<open>The forward pass on one batch entry \<open>X\<close> (the matrix of its token rows), at batch
  index \<open>bi\<close>.\<close>

definition CasualAttention_forward1 ::
  "CasualAttention \<Rightarrow> draw \<Rightarrow> nat \<Rightarrow> mat \<Rightarrow> error + mat" where
  "CasualAttention_forward1 self keep bi X =
     (let num_tokens = length X;
          keys = Linear_forward (W_key self) X;
          queries = Linear_forward (W_query self) X;
          values = Linear_forward (W_value self) X;
          attn_scores = matmul_nt queries keys
      in case masked_fill attn_scores (slice2 num_tokens num_tokens (to_bool (mask self))) NInf of
           Inl e \<Rightarrow> Inl e
         | Inr attn_scores \<Rightarrow>
             (let attn_weights = map softmax
                    (div_scalar attn_scores (pow_half (out_features (W_key self))));
                  attn_weights = Dropout_forward (dropout self) (training self) keep [bi]
                    attn_weights
              in Inr (matmul (out_features (W_value self)) attn_weights values)))"

definition CasualAttention_forward ::
  "CasualAttention \<Rightarrow> draw \<Rightarrow> tensor3 \<Rightarrow> error + tensor3" where
  "CasualAttention_forward self keep x =
     (if linear_accepts (W_key self) x \<and> linear_accepts (W_query self) x \<and>
         linear_accepts (W_value self) x
      then collect (map (\<lambda>(bi, X). CasualAttention_forward1 self keep bi X) (enumerate 0 x))
      else Inl RuntimeError)"

record MHA_Wrapper =
  heads :: "CasualAttention list"
  out_proj :: linear

text \<open>\<open>torch.cat(_, dim=-1)\<close> of the heads' results, each of shape
  \<open>(b, num_tokens, d_out)\<close>: token row \<open>t\<close> of batch entry \<open>bi\<close> is the concatenation of
  the heads' rows \<open>t\<close> of entry \<open>bi\<close>. With no head, or heads whose results differ in
  batch size or token count, \<open>cat\<close> raises.\<close>

definition same_shape :: "tensor3 \<Rightarrow> tensor3 \<Rightarrow> bool" where
  "same_shape a b = (length a = length b \<and> list_all (\<lambda>(X, Y). length X = length Y) (zip a b))"

definition cat_last :: "tensor3 list \<Rightarrow> error + tensor3" where
  "cat_last ts =
     (case ts of
        [] \<Rightarrow> Inl RuntimeError
      | t0 # rest \<Rightarrow>
          if list_all (same_shape t0) rest
          then Inr (map (\<lambda>bi. map (\<lambda>t. concat (map (\<lambda>T. T ! bi ! t) ts))
                                   [0..<length (t0 ! bi)])
                        [0..<length t0])
          else Inl RuntimeError)"

definition MHA_Wrapper_forward ::
  "MHA_Wrapper \<Rightarrow> (nat \<Rightarrow> draw) \<Rightarrow> tensor3 \<Rightarrow> error + tensor3" where
  "MHA_Wrapper_forward self keeps x =
     (case collect (map (\<lambda>(h, head). CasualAttention_forward head (keeps h) x)
                        (enumerate 0 (heads self))) of
        Inl e \<Rightarrow> Inl e
      | Inr outs \<Rightarrow>
          (case cat_last outs of
             Inl e \<Rightarrow> Inl e
           | Inr context_vec \<Rightarrow>
               if linear_accepts (out_proj self) context_vec
               then Inr (map (Linear_forward (out_proj self)) context_vec)
               else Inl RuntimeError))"

subsection \<open>MHA\<close>

record MHA =
  d_out :: int
  num_heads :: int
  head_dim :: int
  W_query :: linear
  W_key :: linear
  W_value :: linear
  out_proj :: linear
  dropout :: real
  mask :: mat
  training :: bool

text \<open>\<open>t.view(b, num_tokens, num_heads, head_dim)\<close> needs sizes that are not negative and
  whose product is the last dimension of \<open>t\<close>; followed by \<open>transpose(1, 2)\<close> it gives,
  for one batch entry, the list of the heads' matrices.\<close>

definition view_ok :: "int \<Rightarrow> int \<Rightarrow> nat \<Rightarrow> bool" where
  "view_ok H hdim d = (0 \<le> H \<and> 0 \<le> hdim \<and> H * hdim = int d)"

definition split_heads :: "nat \<Rightarrow> nat \<Rightarrow> mat \<Rightarrow> mat list" where
  "split_heads H hdim M = map (\<lambda>h. map (\<lambda>row. take hdim (drop (h * hdim) row)) M) [0..<H]"

text \<open>\<open>transpose(1, 2).contiguous().view(b, num_tokens, d_out)\<close> on the heads' results:
  token row \<open>t\<close> is the concatenation of the heads' rows \<open>t\<close>.\<close>

definition combine_heads :: "nat \<Rightarrow> mat list \<Rightarrow> mat" where
  "combine_heads num_tokens C = map (\<lambda>t. concat (map (\<lambda>Ch. Ch ! t) C)) [0..<num_tokens]"

definition MHA_forward1 :: "MHA \<Rightarrow> draw \<Rightarrow> nat \<Rightarrow> mat \<Rightarrow> error + mat" where
  "MHA_forward1 self keep bi X =
     (let num_tokens = length X;
          H = nat (MHA.num_heads self);
          hdim = nat (MHA.head_dim self);
          keys = Linear_forward (MHA.W_key self) X;
          queries = Linear_forward (MHA.W_query self) X;
          values = Linear_forward (MHA.W_value self) X;
          keys = split_heads H hdim keys;
          queries = split_heads H hdim queries;
          values = split_heads H hdim values;
          attn_scores = map (\<lambda>(q, k). matmul_nt q k) (zip queries keys);
          mask_bool = slice2 num_tokens num_tokens (to_bool (MHA.mask self))
      in case collect (map (\<lambda>S. masked_fill S mask_bool NInf) attn_scores) of
           Inl e \<Rightarrow> Inl e
         | Inr attn_scores \<Rightarrow>
             (let attn_weights = map (\<lambda>S. map softmax (div_scalar S (pow_half hdim))) attn_scores;
                  attn_weights = map (\<lambda>(h, W). Dropout_forward (MHA.dropout self)
                                       (MHA.training self) keep [bi, h] W)
                                     (enumerate 0 attn_weights);
                  context_vec = map (\<lambda>(S, V). matmul hdim S V) (zip attn_scores values);
                  context_vec = combine_heads num_tokens context_vec
              in Inr (Linear_forward (MHA.out_proj self) context_vec)))"

text \<open>What the library checks on the way: the three projections accept the rows of the
  input, the views into heads and back fit the sizes, and the output projection accepts
  rows of \<open>d_out\<close> entries.\<close>

definition MHA_checks :: "MHA \<Rightarrow> tensor3 \<Rightarrow> bool" where
  "MHA_checks self x =
     (linear_accepts (MHA.W_key self) x \<and> linear_accepts (MHA.W_query self) x \<and>
      linear_accepts (MHA.W_value self) x \<and>
      view_ok (MHA.num_heads self) (MHA.head_dim self) (out_features (MHA.W_key self)) \<and>
      view_ok (MHA.num_heads self) (MHA.head_dim self) (out_features (MHA.W_query self)) \<and>
      view_ok (MHA.num_heads self) (MHA.head_dim self) (out_features (MHA.W_value self)) \<and>
      MHA.num_heads self * MHA.head_dim self = MHA.d_out self \<and>
      int (in_features (MHA.out_proj self)) = MHA.d_out self)"

definition MHA_forward :: "MHA \<Rightarrow> draw \<Rightarrow> tensor3 \<Rightarrow> error + tensor3" where
  "MHA_forward self keep x =
     (if MHA_checks self x
      then collect (map (\<lambda>(bi, X). MHA_forward1 self keep bi X) (enumerate 0 x))
      else Inl RuntimeError)"

text \<open>The scaled dot-product attention of the claims, in their words: per head, the
  softmax of the scaled, causally masked scores \<open>Q K\<^sup>T\<close>, multiplied with the values
  \<open>V\<close>; then the heads are combined and projected. It differs from \<open>MHA_forward1\<close>
  in one place: the weights, not the scores, multiply the values.\<close>

definition MHA_reference1 :: "MHA \<Rightarrow> draw \<Rightarrow> nat \<Rightarrow> mat \<Rightarrow> error + mat" where
  "MHA_reference1 self keep bi X =
     (let num_tokens = length X;
          H = nat (MHA.num_heads self);
          hdim = nat (MHA.head_dim self);
          keys = split_heads H hdim (Linear_forward (MHA.W_key self) X);
          queries = split_heads H hdim (Linear_forward (MHA.W_query self) X);
          values = split_heads H hdim (Linear_forward (MHA.W_value self) X);
          attn_scores = map (\<lambda>(q, k). matmul_nt q k) (zip queries keys);
          mask_bool = slice2 num_tokens num_tokens (to_bool (MHA.mask self))
      in case collect (map (\<lambda>S. masked_fill S mask_bool NInf) attn_scores) of
           Inl e \<Rightarrow> Inl e
         | Inr attn_scores \<Rightarrow>
             (let attn_weights = map (\<lambda>S. map softmax (div_scalar S (pow_half hdim))) attn_scores;
                  attn_weights = map (\<lambda>(h, W). Dropout_forward (MHA.dropout self)
                                       (MHA.training self) keep [bi, h] W)
                                     (enumerate 0 attn_weights);
                  context_vec = map (\<lambda>(W, V). matmul hdim W V) (zip attn_weights values);
                  context_vec = combine_heads num_tokens context_vec
              in Inr (Linear_forward (MHA.out_proj self) context_vec)))"

definition MHA_reference :: "MHA \<Rightarrow> draw \<Rightarrow> tensor3 \<Rightarrow> error + tensor3" where
  "MHA_reference self keep x =
     (if MHA_checks self x
      then collect (map (\<lambda>(bi, X). MHA_reference1 self keep bi X) (enumerate 0 x))
      else Inl RuntimeError)"

subsection \<open>MultiHeadAttentionCombinedQKV\<close>

record MultiHeadAttentionCombinedQKV =
  num_heads :: int
  context_length :: int
  head_dim :: int
  qkv :: linear
  proj :: linear
  dropout :: real
  mask :: mat
  training :: bool

text \<open>\<open>qkv.view(b, num_tokens, 3, num_heads, head_dim).permute(2, 0, 3, 1, 4)\<close> and
  \<open>unbind(0)\<close>: part \<open>0\<close> holds the queries, part \<open>1\<close> the keys, part \<open>2\<close> the values,
  each as the list of the heads' matrices.\<close>

definition qkv_part :: "nat \<Rightarrow> nat \<Rightarrow> nat \<Rightarrow> mat \<Rightarrow> mat list" where
  "qkv_part part H hdim M =
     map (\<lambda>h. map (\<lambda>row. take hdim (drop ((part * H + h) * hdim) row)) M) [0..<H]"

text \<open>The masked scores of one batch entry, one matrix per head: \<open>queries @
  keys.transpose(-2, -1)\<close> after \<open>masked_fill_\<close>.\<close>

definition MultiHeadAttentionCombinedQKV_scores1 ::
  "MultiHeadAttentionCombinedQKV \<Rightarrow> mat \<Rightarrow> error + mat list" where
  "MultiHeadAttentionCombinedQKV_scores1 self X =
     (let num_tokens = length X;
          H = nat (MultiHeadAttentionCombinedQKV.num_heads self);
          hdim = nat (MultiHeadAttentionCombinedQKV.head_dim self);
          qkv = Linear_forward (MultiHeadAttentionCombinedQKV.qkv self) X;
          queries = qkv_part 0 H hdim qkv;
          keys = qkv_part 1 H hdim qkv;
          attn_scores = map (\<lambda>(q, k). matmul_nt q k) (zip queries keys)
      in collect (map (\<lambda>S. masked_fill S
                 (slice2 num_tokens num_tokens
                    (to_bool (MultiHeadAttentionCombinedQKV.mask self))) NInf) attn_scores))"

text \<open>The tensor the forward pass hands to \<open>torch.softmax\<close>: the masked scores divided
  by \<open>keys.shape[-1]**-0.5\<close>.\<close>

definition MultiHeadAttentionCombinedQKV_scaled1 ::
  "MultiHeadAttentionCombinedQKV \<Rightarrow> mat \<Rightarrow> error + mat list" where
  "MultiHeadAttentionCombinedQKV_scaled1 self X =
     (case MultiHeadAttentionCombinedQKV_scores1 self X of
        Inl e \<Rightarrow> Inl e
      | Inr attn_scores \<Rightarrow>
          (case pow_minus_half (nat (MultiHeadAttentionCombinedQKV.head_dim self)) of
             Inl e \<Rightarrow> Inl e
           | Inr c \<Rightarrow> Inr (map (\<lambda>S. div_scalar S c) attn_scores)))"

definition MultiHeadAttentionCombinedQKV_forward1 ::
  "MultiHeadAttentionCombinedQKV \<Rightarrow> draw \<Rightarrow> nat \<Rightarrow> mat \<Rightarrow> error + mat" where
  "MultiHeadAttentionCombinedQKV_forward1 self keep bi X =
     (let num_tokens = length X;
          embed_dim = in_features (MultiHeadAttentionCombinedQKV.qkv self);
          H = nat (MultiHeadAttentionCombinedQKV.num_heads self);
          hdim = nat (MultiHeadAttentionCombinedQKV.head_dim self);
          values = qkv_part 2 H hdim (Linear_forward (MultiHeadAttentionCombinedQKV.qkv self) X)
      in case MultiHeadAttentionCombinedQKV_scaled1 self X of
           Inl e \<Rightarrow> Inl e
         | Inr scaled \<Rightarrow>
             (let attn_weights = map (map softmax) scaled;
                  attn_weights = map (\<lambda>(h, W). Dropout_forward
                                       (MultiHeadAttentionCombinedQKV.dropout self)
                                       (MultiHeadAttentionCombinedQKV.training self) keep [bi, h] W)
                                     (enumerate 0 attn_weights);
                  context_vec = map (\<lambda>(W, V). matmul hdim W V) (zip attn_weights values);
                  context_vec = combine_heads num_tokens context_vec
              in if H * hdim = embed_dim \<and>
                    in_features (MultiHeadAttentionCombinedQKV.proj self) = embed_dim
                 then Inr (Linear_forward (MultiHeadAttentionCombinedQKV.proj self) context_vec)
                 else Inl RuntimeError))"

definition MultiHeadAttentionCombinedQKV_forward ::
  "MultiHeadAttentionCombinedQKV \<Rightarrow> draw \<Rightarrow> tensor3 \<Rightarrow> error + tensor3" where
  "MultiHeadAttentionCombinedQKV_forward self keep x =
     (if linear_accepts (MultiHeadAttentionCombinedQKV.qkv self) x \<and>
         0 \<le> MultiHeadAttentionCombinedQKV.num_heads self \<and>
         0 \<le> MultiHeadAttentionCombinedQKV.head_dim self \<and>
         3 * MultiHeadAttentionCombinedQKV.num_heads self *
           MultiHeadAttentionCombinedQKV.head_dim self =
           int (out_features (MultiHeadAttentionCombinedQKV.qkv self))
      then collect (map (\<lambda>(bi, X). MultiHeadAttentionCombinedQKV_forward1 self keep bi X)
                        (enumerate 0 x))
      else Inl RuntimeError)"

subsection \<open>The variants built on the library's scaled\_dot\_product\_attention\<close>

text \<open>Their forward passes call \<open>nn.functional.scaled_dot_product_attention\<close>; only their
  construction is modelled. \<open>MHAPyTorchScaledDotProduct\<close> keeps the dropout probability
  as a plain number and has no mask.\<close>

record MHAPyTorchScaledDotProduct =
  num_heads :: int
  context_length :: int
  head_dim :: int
  d_out :: int
  qkv :: linear
  proj :: linear
  dropout :: real
  training :: bool

record MHAPyTorchSDPAWithoutFlash =
  num_heads :: int
  context_length :: int
  head_dim :: int
  d_out :: int
  qkv :: linear
  proj :: linear
  dropout :: real
  mask :: "bool list list"
  training :: bool

subsection \<open>Construction\<close>

text \<open>The random initial values of the parameters are an argument: \<open>init name i j\<close> is
  the initial entry \<open>(i, j)\<close> of the weight called \<open>name\<close>, and entry \<open>i\<close> of a bias is
  \<open>init name i 0\<close>. \<open>nn.Linear\<close> allocates its weight with \<open>torch.empty\<close>, which raises
  RuntimeError on a negative size, as \<open>torch.ones\<close> does; \<open>nn.Dropout\<close> raises ValueError
  for a probability outside \<open>[0, 1]\<close>.\<close>

type_synonym init = "string \<Rightarrow> nat \<Rightarrow> nat \<Rightarrow> fnum"

definition Linear_init :: "int \<Rightarrow> int \<Rightarrow> bool \<Rightarrow> init \<Rightarrow> string \<Rightarrow> error + linear" where
  "Linear_init fan_in fan_out with_bias init name =
     (if fan_in < 0 \<or> fan_out < 0 then Inl RuntimeError
      else Inr \<lparr>in_features = nat fan_in,
                 weight = map (\<lambda>i. map (\<lambda>j. init (name @ ''.weight'') i j) [0..<nat fan_in])
                              [0..<nat fan_out],
                 bias = (if with_bias
                         then Some (map (\<lambda>i. init (name @ ''.bias'') i 0) [0..<nat fan_out])
                         else None)\<rparr>)"

definition Dropout_init :: "real \<Rightarrow> error + real" where
  "Dropout_init p = (if p < 0 \<or> 1 < p then Inl ValueError else Inr p)"

definition triu_ones_init :: "int \<Rightarrow> error + mat" where
  "triu_ones_init n = (if n < 0 then Inl RuntimeError else Inr (triu_ones (nat n)))"

text \<open>\<open>assert d_out % num_heads == 0\<close>: Python's \<open>%\<close> raises ZeroDivisionError for a zero
  divisor before the assertion compares anything.\<close>

definition assert_divisible :: "int \<Rightarrow> int \<Rightarrow> error + unit" where
  "assert_divisible d_out' num_heads' =
     (if num_heads' = 0 then Inl ZeroDivisionError
      else if d_out' mod num_heads' = 0 then Inr () else Inl AssertionError)"

definition MHA_init ::
  "int \<Rightarrow> int \<Rightarrow> int \<Rightarrow> real \<Rightarrow> int \<Rightarrow> bool \<Rightarrow> init \<Rightarrow> error + MHA" where
  "MHA_init d_in d_out' context_length' dropout' num_heads' qkv_bias init =
     and_then (assert_divisible d_out' num_heads') (\<lambda>_.
      and_then (Linear_init d_in d_out' qkv_bias init ''W_query'') (\<lambda>Wq.
      and_then (Linear_init d_in d_out' qkv_bias init ''W_key'') (\<lambda>Wk.
      and_then (Linear_init d_in d_out' qkv_bias init ''W_value'') (\<lambda>Wv.
      and_then (Linear_init d_out' d_out' True init ''out_proj'') (\<lambda>Wo.
      and_then (Dropout_init dropout') (\<lambda>p.
      and_then (triu_ones_init context_length') (\<lambda>m.
        Inr \<lparr>MHA.d_out = d_out', num_heads = num_heads', head_dim = d_out' div num_heads',
             W_query = Wq, W_key = Wk, W_value = Wv, out_proj = Wo,
             dropout = p, mask = m, training = True\<rparr>)))))))"

definition MultiHeadAttentionCombinedQKV_init ::
  "int \<Rightarrow> int \<Rightarrow> int \<Rightarrow> int \<Rightarrow> real \<Rightarrow> bool \<Rightarrow> init \<Rightarrow> error + MultiHeadAttentionCombinedQKV"
  where
  "MultiHeadAttentionCombinedQKV_init d_in d_out' num_heads' context_length' dropout' qkv_bias init =
     and_then (assert_divisible d_out' num_heads') (\<lambda>_.
      and_then (Linear_init d_in (3 * d_out') qkv_bias init ''qkv'') (\<lambda>Wqkv.
      and_then (Linear_init d_out' d_out' True init ''proj'') (\<lambda>Wp.
      and_then (Dropout_init dropout') (\<lambda>p.
      and_then (triu_ones_init context_length') (\<lambda>m.
        Inr \<lparr>MultiHeadAttentionCombinedQKV.num_heads = num_heads',
             context_length = context_length', head_dim = d_out' div num_heads',
             qkv = Wqkv, proj = Wp, dropout = p, mask = m, training = True\<rparr>)))))"

definition MHAPyTorchScaledDotProduct_init ::
  "int \<Rightarrow> int \<Rightarrow> int \<Rightarrow> int \<Rightarrow> real \<Rightarrow> bool \<Rightarrow> init \<Rightarrow> error + MHAPyTorchScaledDotProduct"
  where
  "MHAPyTorchScaledDotProduct_init d_in d_out' num_heads' context_length' dropout' qkv_bias init =
     and_then (assert_divisible d_out' num_heads') (\<lambda>_.
      and_then (Linear_init d_in (3 * d_out') qkv_bias init ''qkv'') (\<lambda>Wqkv.
      and_then (Linear_init d_out' d_out' True init ''proj'') (\<lambda>Wp.
        Inr \<lparr>MHAPyTorchScaledDotProduct.num_heads = num_heads',
             context_length = context_length', head_dim = d_out' div num_heads', d_out = d_out',
             qkv = Wqkv, proj = Wp, dropout = dropout', training = True\<rparr>)))"

definition MHAPyTorchSDPAWithoutFlash_init ::
  "int \<Rightarrow> int \<Rightarrow> int \<Rightarrow> int \<Rightarrow> real \<Rightarrow> bool \<Rightarrow> init \<Rightarrow> error + MHAPyTorchSDPAWithoutFlash"
  where
  "MHAPyTorchSDPAWithoutFlash_init d_in d_out' num_heads' context_length' dropout' qkv_bias init =
     and_then (assert_divisible d_out' num_heads') (\<lambda>_.
      and_then (Linear_init d_in (3 * d_out') qkv_bias init ''qkv'') (\<lambda>Wqkv.
      and_then (Linear_init d_out' d_out' True init ''proj'') (\<lambda>Wp.
      and_then (triu_ones_init context_length') (\<lambda>m.
        Inr \<lparr>MHAPyTorchSDPAWithoutFlash.num_heads = num_heads',
             context_length = context_length', head_dim = d_out' div num_heads', d_out = d_out',
             qkv = Wqkv, proj = Wp, dropout = dropout', mask = to_bool m, training = True\<rparr>))))"

section \<open>Understanding PyTorch buffers (notebook of 2\_buffers)\<close>

subsection \<open>The module state the library keeps\<close>

text \<open>
  An \<open>nn.Module\<close> keeps its child modules, its registered buffers and its plain
  attributes in separate tables. The two classes of the notebook have three \<open>nn.Linear\<close>
  children (the only holders of parameters), an \<open>nn.Dropout\<close> child without state, the
  number \<open>d_out\<close> and a mask that is either a registered buffer or a plain tensor
  attribute. \<open>module.to(device)\<close> moves the parameters and the buffers and leaves plain
  attributes where they are, so the registered state has one device and every plain tensor
  attribute its own.
\<close>

datatype device = CPU | CUDA

record module =
  device :: device
  children :: "(string \<times> linear) list"
  buffers :: "(string \<times> mat) list"
  attributes :: "(string \<times> device \<times> mat) list"
  d_out :: int
  dropout :: real
  training :: bool

definition register_buffer :: "string \<Rightarrow> mat \<Rightarrow> module \<Rightarrow> module" where
  "register_buffer name t m = m\<lparr>buffers := buffers m @ [(name, t)]\<rparr>"

definition set_attribute :: "string \<Rightarrow> device \<times> mat \<Rightarrow> module \<Rightarrow> module" where
  "set_attribute name t m =
     m\<lparr>attributes := filter (\<lambda>(k, v). k \<noteq> name) (attributes m) @ [(name, t)]\<rparr>"

text \<open>Attribute lookup: the instance's own attributes first, then the registered
  buffers.\<close>

definition getattr_tensor :: "module \<Rightarrow> string \<Rightarrow> (device \<times> mat) option" where
  "getattr_tensor m name =
     (case map_of (attributes m) name of
        Some t \<Rightarrow> Some t
      | None \<Rightarrow> map_option (\<lambda>v. (device m, v)) (map_of (buffers m) name))"

definition getattr_child :: "module \<Rightarrow> string \<Rightarrow> linear option" where
  "getattr_child m name = map_of (children m) name"

definition module_to :: "device \<Rightarrow> module \<Rightarrow> module" where
  "module_to dev m = m\<lparr>device := dev\<rparr>"

text \<open>\<open>state_dict()\<close>: the module's own buffers, then the parameters of its children
  under their dotted names; plain attributes are not part of it. A bias, a tensor of one
  dimension, is listed as a matrix of one row.\<close>

definition linear_state :: "string \<Rightarrow> linear \<Rightarrow> (string \<times> mat) list" where
  "linear_state name L =
     (name @ ''.weight'', weight L) #
     (case bias L of None \<Rightarrow> [] | Some b \<Rightarrow> [(name @ ''.bias'', [b])])"

definition state_dict :: "module \<Rightarrow> (string \<times> mat) list" where
  "state_dict m = buffers m @ concat (map (\<lambda>(name, L). linear_state name L) (children m))"

text \<open>\<open>torch.save\<close> followed by \<open>torch.load\<close> returns the entries it was given.\<close>

definition save_load :: "(string \<times> mat) list \<Rightarrow> (string \<times> mat) list" where
  "save_load sd = sd"

text \<open>\<open>load_state_dict(sd)\<close> (strict): a key of the module missing from \<open>sd\<close>, a key of
  \<open>sd\<close> the module does not have, or an entry of another shape raises RuntimeError;
  otherwise every buffer and parameter takes the values of its entry. Plain attributes
  are not touched.\<close>

definition dims :: "mat \<Rightarrow> nat \<times> nat list" where
  "dims M = (length M, map length M)"

definition loadable :: "module \<Rightarrow> (string \<times> mat) list \<Rightarrow> bool" where
  "loadable m sd =
     (list_all (\<lambda>(k, v). case map_of sd k of None \<Rightarrow> False | Some w \<Rightarrow> dims w = dims v)
               (state_dict m) \<and>
      list_all (\<lambda>(k, w). map_of (state_dict m) k \<noteq> None) sd)"

definition entry_or :: "(string \<times> mat) list \<Rightarrow> string \<Rightarrow> mat \<Rightarrow> mat" where
  "entry_or sd k old = (case map_of sd k of None \<Rightarrow> old | Some w \<Rightarrow> w)"

definition load_linear :: "(string \<times> mat) list \<Rightarrow> string \<Rightarrow> linear \<Rightarrow> linear" where
  "load_linear sd name L =
     L\<lparr>weight := entry_or sd (name @ ''.weight'') (weight L),
       bias := map_option (\<lambda>b. concat (entry_or sd (name @ ''.bias'') [b])) (bias L)\<rparr>"

definition load_state_dict :: "module \<Rightarrow> (string \<times> mat) list \<Rightarrow> error + module" where
  "load_state_dict m sd =
     (if loadable m sd
      then Inr (m\<lparr>buffers := map (\<lambda>(k, v). (k, entry_or sd k v)) (buffers m),
                   children := map (\<lambda>(name, L). (name, load_linear sd name L)) (children m)\<rparr>)
      else Inl RuntimeError)"

text \<open>\<open>self.mask[self.mask == c] = v\<close>: an assignment in place to the tensor the
  attribute lookup finds.\<close>

definition replace_value :: "fnum \<Rightarrow> fnum \<Rightarrow> mat \<Rightarrow> mat" where
  "replace_value c v M = map (map (\<lambda>e. if e = c then v else e)) M"

definition assign_where :: "string \<Rightarrow> fnum \<Rightarrow> fnum \<Rightarrow> module \<Rightarrow> module" where
  "assign_where name c v m =
     (case map_of (attributes m) name of
        Some t \<Rightarrow>
          m\<lparr>attributes := map (\<lambda>(k, (d, M)). if k = name then (k, (d, replace_value c v M))
                                               else (k, (d, M))) (attributes m)\<rparr>
      | None \<Rightarrow>
          m\<lparr>buffers := map (\<lambda>(k, M). if k = name then (k, replace_value c v M) else (k, M))
                            (buffers m)\<rparr>)"

text \<open>The parameters an optimizer is given (\<open>module.parameters()\<close>) are those of the
  children; a training step replaces their values and nothing else.\<close>

definition named_parameters :: "module \<Rightarrow> (string \<times> mat) list" where
  "named_parameters m = concat (map (\<lambda>(name, L). linear_state name L) (children m))"

definition step_linear :: "(string \<Rightarrow> mat \<Rightarrow> mat) \<Rightarrow> string \<Rightarrow> linear \<Rightarrow> linear" where
  "step_linear upd name L =
     L\<lparr>weight := upd (name @ ''.weight'') (weight L),
       bias := map_option (\<lambda>b. concat (upd (name @ ''.bias'') [b])) (bias L)\<rparr>"

definition optimizer_step :: "(string \<Rightarrow> mat \<Rightarrow> mat) \<Rightarrow> module \<Rightarrow> module" where
  "optimizer_step upd m =
     m\<lparr>children := map (\<lambda>(name, L). (name, step_linear upd name L)) (children m)\<rparr>"

text \<open>The same for the class \<open>MHA\<close> of the other notebook: its parameters are the weights
  and biases of its four \<open>nn.Linear\<close> children; the mask is registered as a buffer.\<close>

definition MHA_named_parameters :: "MHA \<Rightarrow> (string \<times> mat) list" where
  "MHA_named_parameters m =
     linear_state ''W_query'' (MHA.W_query m) @ linear_state ''W_key'' (MHA.W_key m) @
     linear_state ''W_value'' (MHA.W_value m) @ linear_state ''out_proj'' (MHA.out_proj m)"

definition MHA_named_buffers :: "MHA \<Rightarrow> (string \<times> mat) list" where
  "MHA_named_buffers m = [(''mask'', MHA.mask m)]"

definition MHA_optimizer_step :: "(string \<Rightarrow> mat \<Rightarrow> mat) \<Rightarrow> MHA \<Rightarrow> MHA" where
  "MHA_optimizer_step upd m =
     m\<lparr>MHA.W_query := step_linear upd ''W_query'' (MHA.W_query m),
       MHA.W_key := step_linear upd ''W_key'' (MHA.W_key m),
       MHA.W_value := step_linear upd ''W_value'' (MHA.W_value m),
       MHA.out_proj := step_linear upd ''out_proj'' (MHA.out_proj m)\<rparr>"

subsection \<open>CausalAttentionWithoutBuffers and CausalAttentionWithBuffer\<close>

definition CausalAttentionWithoutBuffers_init ::
  "int \<Rightarrow> int \<Rightarrow> int \<Rightarrow> real \<Rightarrow> bool \<Rightarrow> init \<Rightarrow> error + module" where
  "CausalAttentionWithoutBuffers_init d_in d_out' context_length' dropout' qkv_bias init =
     and_then (Linear_init d_in d_out' qkv_bias init ''W_query'') (\<lambda>Wq.
     and_then (Linear_init d_in d_out' qkv_bias init ''W_key'') (\<lambda>Wk.
     and_then (Linear_init d_in d_out' qkv_bias init ''W_value'') (\<lambda>Wv.
     and_then (Dropout_init dropout') (\<lambda>p.
     and_then (triu_ones_init context_length') (\<lambda>m.
       Inr (set_attribute ''mask'' (CPU, m)
             \<lparr>device = CPU,
              children = [(''W_query'', Wq), (''W_key'', Wk), (''W_value'', Wv)],
              buffers = [], attributes = [],
              d_out = d_out', dropout = p, training = True\<rparr>))))))"

definition CausalAttentionWithBuffer_init ::
  "int \<Rightarrow> int \<Rightarrow> int \<Rightarrow> real \<Rightarrow> bool \<Rightarrow> init \<Rightarrow> error + module" where
  "CausalAttentionWithBuffer_init d_in d_out' context_length' dropout' qkv_bias init =
     and_then (Linear_init d_in d_out' qkv_bias init ''W_query'') (\<lambda>Wq.
     and_then (Linear_init d_in d_out' qkv_bias init ''W_key'') (\<lambda>Wk.
     and_then (Linear_init d_in d_out' qkv_bias init ''W_value'') (\<lambda>Wv.
     and_then (Dropout_init dropout') (\<lambda>p.
     and_then (triu_ones_init context_length') (\<lambda>m.
       Inr (register_buffer ''mask'' m
             \<lparr>device = CPU,
              children = [(''W_query'', Wq), (''W_key'', Wk), (''W_value'', Wv)],
              buffers = [], attributes = [],
              d_out = d_out', dropout = p, training = True\<rparr>))))))"

text \<open>The forward pass of both classes on one batch entry; the text of the two methods
  is the same.\<close>

definition causal_attention1 ::
  "linear \<Rightarrow> linear \<Rightarrow> linear \<Rightarrow> mat \<Rightarrow> real \<Rightarrow> bool \<Rightarrow> draw \<Rightarrow> nat \<Rightarrow> mat \<Rightarrow> error + mat"
  where
  "causal_attention1 Wq Wk Wv mask_t p train keep bi X =
     (let num_tokens = length X;
          keys = Linear_forward Wk X;
          queries = Linear_forward Wq X;
          values = Linear_forward Wv X;
          attn_scores = matmul_nt queries keys
      in case masked_fill attn_scores (slice2 num_tokens num_tokens (to_bool mask_t)) NInf of
           Inl e \<Rightarrow> Inl e
         | Inr attn_scores \<Rightarrow>
             (let attn_weights = map softmax (div_scalar attn_scores (pow_half (out_features Wk)));
                  attn_weights = Dropout_forward p train keep [bi] attn_weights
              in Inr (matmul (out_features Wv) attn_weights values)))"

text \<open>The whole pass: the attributes are looked up, the library checks that the input
  is on the device of the weights and has their number of features, and
  \<open>masked_fill_\<close> checks that the mask is on the device of the scores.\<close>

definition CausalAttentionWithoutBuffers_forward ::
  "module \<Rightarrow> draw \<Rightarrow> device \<Rightarrow> tensor3 \<Rightarrow> error + tensor3" where
  "CausalAttentionWithoutBuffers_forward self keep xdev x =
     (case (getattr_child self ''W_key'', getattr_child self ''W_query'',
            getattr_child self ''W_value'', getattr_tensor self ''mask'') of
        (Some Wk, Some Wq, Some Wv, Some (mdev, mask_t)) \<Rightarrow>
          if device self = xdev \<and> linear_accepts Wk x \<and> linear_accepts Wq x \<and>
             linear_accepts Wv x \<and> mdev = xdev
          then collect (map (\<lambda>(bi, X). causal_attention1 Wq Wk Wv mask_t
                        (module.dropout self) (module.training self) keep bi X)
                      (enumerate 0 x))
          else Inl RuntimeError
      | _ \<Rightarrow> Inl AttributeError)"

definition CausalAttentionWithBuffer_forward ::
  "module \<Rightarrow> draw \<Rightarrow> device \<Rightarrow> tensor3 \<Rightarrow> error + tensor3" where
  "CausalAttentionWithBuffer_forward self keep xdev x =
     (case (getattr_child self ''W_key'', getattr_child self ''W_query'',
            getattr_child self ''W_value'', getattr_tensor self ''mask'') of
        (Some Wk, Some Wq, Some Wv, Some (mdev, mask_t)) \<Rightarrow>
          if device self = xdev \<and> linear_accepts Wk x \<and> linear_accepts Wq x \<and>
             linear_accepts Wv x \<and> mdev = xdev
          then collect (map (\<lambda>(bi, X). causal_attention1 Wq Wk Wv mask_t
                        (module.dropout self) (module.training self) keep bi X)
                      (enumerate 0 x))
          else Inl RuntimeError
      | _ \<Rightarrow> Inl AttributeError)"

section \<open>Batch normalization and layer normalization\<close>

text \<open>
  The normalization layers take tensors of any number of dimensions. A tensor is here its
  shape together with its entries in the order of their indices (the last index runs
  fastest); a well-formed tensor has as many entries as its shape says. This is what the
  tensor holds, whatever its layout in memory. Where the layout matters, for \<open>view\<close>, the
  tensor comes with its strides: the distance in memory between two entries that are
  neighbours along a dimension.
\<close>

record tensor =
  shape :: "nat list"
  data :: vec

record strided_tensor = tensor +
  strides :: "nat list"

definition well_formed :: "'a tensor_scheme \<Rightarrow> bool" where
  "well_formed t = (length (data t) = prod_list (shape t))"

text \<open>The strides of a contiguous tensor: the stride of a dimension is the number of
  entries the dimensions after it span, a dimension of size zero counted as one of size
  one.\<close>

fun contiguous_strides :: "nat list \<Rightarrow> nat list" where
  "contiguous_strides [] = []"
| "contiguous_strides (n # ns) = prod_list (map (max 1) ns) # contiguous_strides ns"

text \<open>\<open>Tensor.view\<close> never copies. It can merge neighbouring dimensions into one only if
  they lie in memory as one dimension would: by the library's documentation, the stride
  of each but the last must be the stride of the next times the size of the next. The
  library's check passes over a dimension of size one (its index is always \<open>0\<close>, so its
  stride is never used), and a tensor without entries can be viewed in any shape of no
  entries. Otherwise \<open>view\<close> raises RuntimeError.\<close>

fun mergeable :: "(nat \<times> nat) list \<Rightarrow> bool" where
  "mergeable ((n, s) # (n', s') # ds) = (s = s' * n' \<and> mergeable ((n', s') # ds))"
| "mergeable ds = True"

definition view_merges :: "nat list \<Rightarrow> nat list \<Rightarrow> bool" where
  "view_merges sizes strides' =
     (prod_list sizes = 0 \<or> mergeable (filter (\<lambda>(n, s). n \<noteq> 1) (zip sizes strides')))"

text \<open>The reductions and the variance, in float32. \<open>t.mean()\<close> of the entries \<open>xs\<close> is
  their sum divided by their number (not-a-number when there is none); the variance is
  computed as both layers compute it, \<open>E[x\<^sup>2] - (E[x])\<^sup>2\<close>, with \<open>x ** 2\<close> the product
  \<open>x * x\<close>. The library does not fix the order in which a sum adds its terms; here it
  adds them from the first to the last, rounding after each addition.\<close>

definition sum32 :: "vec \<Rightarrow> fnum" where
  "sum32 xs = foldl add32 (Fin 0) xs"

definition mean_of :: "vec \<Rightarrow> fnum" where
  "mean_of xs = div32 (sum32 xs) (round32 (real (length xs)))"

definition var_of :: "vec \<Rightarrow> fnum" where
  "var_of xs = sub32 (mean_of (map (\<lambda>x. mul32 x x) xs)) (mul32 (mean_of xs) (mean_of xs))"

subsection \<open>BatchNorm\<close>

text \<open>\<open>eps\<close> and \<open>momentum\<close> are numbers of Python, taken as the reals they denote, and
  so is \<open>1 - momentum\<close>; where one of them meets a tensor it is rounded to float32 like
  the entries of the tensor.\<close>

record BatchNorm =
  channels :: int
  eps :: real
  momentum :: real
  affine :: bool
  track_running_stats :: bool
  scale :: "vec option"
  shift :: "vec option"
  exp_mean :: "vec option"
  exp_var :: "vec option"
  training :: bool

definition ones_init :: "int \<Rightarrow> fnum \<Rightarrow> error + vec" where
  "ones_init n v = (if n < 0 then Inl RuntimeError else Inr (replicate (nat n) v))"

definition BatchNorm_init :: "int \<Rightarrow> real \<Rightarrow> real \<Rightarrow> bool \<Rightarrow> bool \<Rightarrow> error + BatchNorm" where
  "BatchNorm_init channels' eps' momentum' affine' track_running_stats' =
     (if (affine' \<or> track_running_stats') \<and> channels' < 0 then Inl RuntimeError
      else Inr \<lparr>channels = channels', eps = eps', momentum = momentum', affine = affine',
                 track_running_stats = track_running_stats',
                 scale = (if affine' then Some (replicate (nat channels') (Fin 1)) else None),
                 shift = (if affine' then Some (replicate (nat channels') (Fin 0)) else None),
                 exp_mean = (if track_running_stats'
                             then Some (replicate (nat channels') (Fin 0)) else None),
                 exp_var = (if track_running_stats'
                            then Some (replicate (nat channels') (Fin 1)) else None),
                 training = True\<rparr>)"

text \<open>\<open>x.view(batch_size, channels, -1)\<close>, where it succeeds, on the entries of the
  tensor: row \<open>k\<close> of channel \<open>c\<close> of batch entry \<open>b\<close> is entry \<open>(b * channels + c) * n + k\<close>.\<close>

definition view3 :: "nat \<Rightarrow> nat \<Rightarrow> nat \<Rightarrow> vec \<Rightarrow> tensor3" where
  "view3 B C n d = map (\<lambda>b. map (\<lambda>c. take n (drop ((b * C + c) * n) d)) [0..<C]) [0..<B]"

text \<open>The entries of channel \<open>c\<close> over dimensions \<open>0\<close> and \<open>2\<close>.\<close>

definition channel_values :: "tensor3 \<Rightarrow> nat \<Rightarrow> vec" where
  "channel_values x3 c = concat (map (\<lambda>xb. xb ! c) x3)"

text \<open>An operation between a tensor \<open>(B, C, n)\<close> and a vector viewed as \<open>(1, C, 1)\<close>:
  entry \<open>(b, c, k)\<close> meets entry \<open>c\<close> of the vector.\<close>

definition broadcast_channel :: "(fnum \<Rightarrow> fnum \<Rightarrow> fnum) \<Rightarrow> tensor3 \<Rightarrow> vec \<Rightarrow> tensor3" where
  "broadcast_channel f x3 v =
     map (\<lambda>xb. map (\<lambda>(c, row). map (\<lambda>e. f e (v ! c)) row) (enumerate 0 xb)) x3"

text \<open>\<open>(1 - momentum) * old + momentum * new\<close>.\<close>

definition moving_average :: "real \<Rightarrow> vec \<Rightarrow> vec \<Rightarrow> vec" where
  "moving_average mom old new =
     map (\<lambda>(e, m). add32 (mul32 (round32 (1 - mom)) e) (mul32 (round32 mom) m)) (zip old new)"

text \<open>The statistics the pass normalizes with, and the module after the pass: in
  training mode, or when no running statistics are tracked, those of the batch (and in
  training mode with tracking the running statistics are updated); otherwise the stored
  \<open>exp_mean\<close> and \<open>exp_var\<close>. The stored vectors have \<open>channels\<close> entries, as \<open>__init__\<close>
  leaves them; vectors of another length are rejected.\<close>

definition batch_statistics :: "tensor3 \<Rightarrow> nat \<Rightarrow> vec \<times> vec" where
  "batch_statistics x3 c =
     (let mean = map (\<lambda>ch. mean_of (channel_values x3 ch)) [0..<c];
          mean_x2 = map (\<lambda>ch. mean_of (map (\<lambda>e. mul32 e e) (channel_values x3 ch))) [0..<c];
          var = map (\<lambda>(m2, m). sub32 m2 (mul32 m m)) (zip mean_x2 mean)
      in (mean, var))"

definition BatchNorm_stats ::
  "BatchNorm \<Rightarrow> tensor3 \<Rightarrow> nat \<Rightarrow> error + (vec \<times> vec) \<times> BatchNorm" where
  "BatchNorm_stats self x3 c =
     (if BatchNorm.training self \<or> \<not> track_running_stats self
      then
        (let (mean, var) = batch_statistics x3 c
         in if BatchNorm.training self \<and> track_running_stats self
            then (case (exp_mean self, exp_var self) of
                    (Some em, Some ev) \<Rightarrow>
                      if length em = c \<and> length ev = c
                      then Inr ((mean, var),
                                self\<lparr>exp_mean := Some (moving_average (momentum self) em mean),
                                     exp_var := Some (moving_average (momentum self) ev var)\<rparr>)
                      else Inl RuntimeError
                  | _ \<Rightarrow> Inl AttributeError)
            else Inr ((mean, var), self))
      else (case (exp_mean self, exp_var self) of
              (Some em, Some ev) \<Rightarrow>
                if length em = c \<and> length ev = c then Inr ((em, ev), self)
                else Inl RuntimeError
            | _ \<Rightarrow> Inl AttributeError))"

definition BatchNorm_affine :: "BatchNorm \<Rightarrow> nat \<Rightarrow> tensor3 \<Rightarrow> error + tensor3" where
  "BatchNorm_affine self c x_norm =
     (if affine self
      then (case (scale self, shift self) of
              (Some sc, Some sh) \<Rightarrow>
                if length sc = c \<and> length sh = c
                then Inr (broadcast_channel add32
                           (broadcast_channel (\<lambda>e g. mul32 g e) x_norm sc) sh)
                else Inl RuntimeError
            | _ \<Rightarrow> Inl AttributeError)
      else Inr x_norm)"

text \<open>The forward pass returns the normalized tensor and the module with its running
  statistics. Indexing the shape of a tensor of fewer than two dimensions raises
  IndexError. The view with an inferred last size raises RuntimeError when
  \<open>batch_size * channels\<close> is zero, and when the dimensions after the second cannot be
  merged in the layout the input has (a transposed or a cropped batch of images). The
  last line, \<open>x_norm.view(x_shape)\<close>, splits the last dimension of a tensor the pass has
  computed itself, which \<open>view\<close> can always do.\<close>

definition BatchNorm_forward ::
  "BatchNorm \<Rightarrow> strided_tensor \<Rightarrow> error + tensor \<times> BatchNorm" where
  "BatchNorm_forward self x =
     (case shape x of
        batch_size # c # rest \<Rightarrow>
          if channels self \<noteq> int c then Inl AssertionError
          else if batch_size * c = 0 then Inl RuntimeError
          else if \<not> view_merges rest (drop 2 (strides x)) then Inl RuntimeError
          else
            (let n = prod_list rest;
                 x3 = view3 batch_size c n (data x)
             in and_then (BatchNorm_stats self x3 c) (\<lambda>((mean, var), self').
                  (let divisor = map (\<lambda>v. sqrt32 (add32 v (round32 (BatchNorm.eps self)))) var;
                       x_norm = broadcast_channel div32 (broadcast_channel sub32 x3 mean) divisor
                   in and_then (BatchNorm_affine self c x_norm) (\<lambda>x_norm.
                        Inr (\<lparr>shape = shape x, data = concat (concat x_norm)\<rparr>, self')))))
      | _ \<Rightarrow> Inl IndexError)"

subsection \<open>LayerNorm\<close>

text \<open>The pass of this layer reduces and computes entry by entry and never reshapes, so
  the layout of its input plays no part.\<close>

record LayerNorm =
  normalized_shape :: "int list"
  eps :: real
  elementwise_affine :: bool
  gain :: "vec option"
  bias :: "vec option"

text \<open>\<open>x.shape[-len(normalized_shape):]\<close>: the last dimensions of \<open>x\<close>, all of them when
  there are fewer, and all of them when the length is zero (\<open>-0\<close> is \<open>0\<close>).\<close>

definition shape_suffix :: "nat \<Rightarrow> nat list \<Rightarrow> nat list" where
  "shape_suffix k sh = (if k = 0 then sh else drop (length sh - k) sh)"

text \<open>The groups the statistics are taken over: the tensor cut into runs of as many
  entries as the normalized dimensions hold.\<close>

definition groups :: "nat \<Rightarrow> nat \<Rightarrow> vec \<Rightarrow> vec list" where
  "groups count g d = map (\<lambda>i. take g (drop (i * g) d)) [0..<count]"

definition LayerNorm_groups :: "LayerNorm \<Rightarrow> tensor \<Rightarrow> vec list" where
  "LayerNorm_groups self x =
     (let suffix = shape_suffix (length (normalized_shape self)) (shape x);
          prefix = take (length (shape x) - length suffix) (shape x)
      in groups (prod_list prefix) (prod_list suffix) (data x))"

definition LayerNorm_affine :: "LayerNorm \<Rightarrow> vec \<Rightarrow> error + vec" where
  "LayerNorm_affine self x_norm =
     (if elementwise_affine self
      then (case (gain self, LayerNorm.bias self) of
              (Some g, Some b) \<Rightarrow>
                if length g = length x_norm \<and> length b = length x_norm
                then Inr (map (\<lambda>(i, e). add32 (mul32 (g ! i) e) (b ! i)) (enumerate 0 x_norm))
                else Inl RuntimeError
            | _ \<Rightarrow> Inl AttributeError)
      else Inr x_norm)"

definition group_statistics :: "vec \<Rightarrow> fnum \<times> fnum" where
  "group_statistics xs =
     (let mean = mean_of xs;
          mean_x2 = mean_of (map (\<lambda>x. mul32 x x) xs);
          var = sub32 mean_x2 (mul32 mean mean)
      in (mean, var))"

definition LayerNorm_group :: "LayerNorm \<Rightarrow> vec \<Rightarrow> error + vec" where
  "LayerNorm_group self xs =
     (let (mean, var) = group_statistics xs;
          x_norm = map (\<lambda>x. div32 (sub32 x mean)
                              (sqrt32 (add32 var (round32 (LayerNorm.eps self))))) xs
      in LayerNorm_affine self x_norm)"

definition LayerNorm_forward :: "LayerNorm \<Rightarrow> tensor \<Rightarrow> error + tensor" where
  "LayerNorm_forward self x =
     (if normalized_shape self
           = map int (shape_suffix (length (normalized_shape self)) (shape x))
      then and_then (collect (map (LayerNorm_group self) (LayerNorm_groups self x)))
             (\<lambda>ys. Inr \<lparr>shape = shape x, data = concat ys\<rparr>)
      else Inl AssertionError)"

subsection \<open>The statistics in the words of the claims\<close>

text \<open>The entries of channel \<open>c\<close> of a tensor \<open>(B, C, n)\<close> over the batch and the spatial
  dimensions, by their positions among the entries.\<close>

definition channel_entries :: "nat \<Rightarrow> nat \<Rightarrow> nat \<Rightarrow> vec \<Rightarrow> nat \<Rightarrow> vec" where
  "channel_entries B C n d c =
     concat (map (\<lambda>b. map (\<lambda>k. d ! ((b * C + c) * n + k)) [0..<n]) [0..<B])"

text \<open>An entry of channel \<open>c\<close> normalized with the mean and variance of the channel,
  then scaled and shifted when the layer is affine.\<close>

definition normalized_entry :: "BatchNorm \<Rightarrow> vec \<Rightarrow> vec \<Rightarrow> nat \<Rightarrow> fnum \<Rightarrow> fnum" where
  "normalized_entry self mean var c e =
     (let z = div32 (sub32 e (mean ! c))
                (sqrt32 (add32 (var ! c) (round32 (BatchNorm.eps self))))
      in if affine self
         then (case (scale self, shift self) of
                 (Some sc, Some sh) \<Rightarrow> add32 (mul32 (sc ! c) z) (sh ! c)
               | _ \<Rightarrow> z)
         else z)"

section \<open>The forward passes as operations on tensor objects\<close>

text \<open>
  \<open>masked_fill_\<close> writes into a tensor in place, so which tensor object it writes matters.
  Here tensors are objects in a store: every library call that returns a new tensor
  allocates a fresh object, a view (\<open>transpose\<close>, \<open>view\<close>, a slice) allocates nothing, and
  \<open>masked_fill_\<close> overwrites the object it is called on. The registered mask buffer is the
  object at address \<open>a_mask\<close>, the input the object at \<open>a_x\<close>; the pass returns the address
  of its result, or the error raised, and the store it leaves.
\<close>

datatype tval = TMat mat | TBool "bool list list" | T3 tensor3 | T4 "mat list list"

record heap =
  cells :: "nat \<Rightarrow> tval option"
  next_free :: nat

definition alloc :: "tval \<Rightarrow> heap \<Rightarrow> nat \<times> heap" where
  "alloc v h =
     (next_free h, \<lparr>cells = (cells h)(next_free h \<mapsto> v), next_free = Suc (next_free h)\<rparr>)"

definition write_cell :: "nat \<Rightarrow> tval \<Rightarrow> heap \<Rightarrow> heap" where
  "write_cell a v h = h\<lparr>cells := (cells h)(a \<mapsto> v)\<rparr>"

text \<open>\<open>nn.Dropout\<close> returns its input object when it is the identity and a new tensor
  otherwise.\<close>

definition Dropout_heap ::
  "real \<Rightarrow> bool \<Rightarrow> draw \<Rightarrow> nat \<Rightarrow> tensor3 \<Rightarrow> heap \<Rightarrow> (nat \<times> tensor3) \<times> heap" where
  "Dropout_heap p train keep a W h =
     (if p = 0 \<or> \<not> train then ((a, W), h)
      else (let D = map (\<lambda>(bi, Wb). Dropout_forward p train keep [bi] Wb) (enumerate 0 W);
                (a', h') = alloc (T3 D) h
            in ((a', D), h')))"

definition Dropout_heap4 ::
  "real \<Rightarrow> bool \<Rightarrow> draw \<Rightarrow> nat \<Rightarrow> mat list list \<Rightarrow> heap \<Rightarrow> (nat \<times> mat list list) \<times> heap"
  where
  "Dropout_heap4 p train keep a W h =
     (if p = 0 \<or> \<not> train then ((a, W), h)
      else (let D = map (\<lambda>(bi, Wb). map (\<lambda>(hi, Wh). Dropout_forward p train keep [bi, hi] Wh)
                                          (enumerate 0 Wb))
                        (enumerate 0 W);
                (a', h') = alloc (T4 D) h
            in ((a', D), h')))"

definition CausalAttentionWithBuffer_forward_heap ::
  "module \<Rightarrow> nat \<Rightarrow> draw \<Rightarrow> nat \<Rightarrow> heap \<Rightarrow> (error + nat) \<times> heap" where
  "CausalAttentionWithBuffer_forward_heap self a_mask keep a_x h0 =
     (case (getattr_child self ''W_key'', getattr_child self ''W_query'',
            getattr_child self ''W_value'', cells h0 a_mask, cells h0 a_x) of
        (Some Wk, Some Wq, Some Wv, Some (TMat mask_t), Some (T3 x)) \<Rightarrow>
          if linear_accepts Wk x \<and> linear_accepts Wq x \<and> linear_accepts Wv x
          then
            (let keys = map (Linear_forward Wk) x;
                 (a_keys, h1) = alloc (T3 keys) h0;
                 queries = map (Linear_forward Wq) x;
                 (a_queries, h2) = alloc (T3 queries) h1;
                 values = map (Linear_forward Wv) x;
                 (a_values, h3) = alloc (T3 values) h2;
                 attn_scores = map (\<lambda>(q, k). matmul_nt q k) (zip queries keys);
                 (a_scores, h4) = alloc (T3 attn_scores) h3;
                 mask_bool = to_bool mask_t;
                 (a_bool, h5) = alloc (TBool mask_bool) h4
             in case collect (map (\<lambda>(S, X). masked_fill S
                        (slice2 (length X) (length X) mask_bool) NInf) (zip attn_scores x)) of
                  Inl e \<Rightarrow> (Inl e, h5)
                | Inr filled \<Rightarrow>
                    (let h6 = write_cell a_scores (T3 filled) h5;
                         scaled = map (\<lambda>S. div_scalar S (pow_half (out_features Wk))) filled;
                         (a_scaled, h7) = alloc (T3 scaled) h6;
                         attn_weights = map (map softmax) scaled;
                         (a_weights, h8) = alloc (T3 attn_weights) h7;
                         ((a_dropped, attn_weights), h9) =
                            Dropout_heap (module.dropout self) (module.training self) keep
                              a_weights attn_weights h8;
                         context_vec = map (\<lambda>(W, V). matmul (out_features Wv) W V)
                                           (zip attn_weights values);
                         (a_context, h10) = alloc (T3 context_vec) h9
                     in (Inr a_context, h10)))
          else (Inl RuntimeError, h0)
      | _ \<Rightarrow> (Inl AttributeError, h0))"

definition MHA_forward_heap ::
  "MHA \<Rightarrow> nat \<Rightarrow> draw \<Rightarrow> nat \<Rightarrow> heap \<Rightarrow> (error + nat) \<times> heap" where
  "MHA_forward_heap self a_mask keep a_x h0 =
     (case (cells h0 a_mask, cells h0 a_x) of
        (Some (TMat mask_t), Some (T3 x)) \<Rightarrow>
          if MHA_checks self x
          then
            (let H = nat (MHA.num_heads self);
                 hdim = nat (MHA.head_dim self);
                 keys = map (Linear_forward (MHA.W_key self)) x;
                 (a_keys, h1) = alloc (T3 keys) h0;
                 queries = map (Linear_forward (MHA.W_query self)) x;
                 (a_queries, h2) = alloc (T3 queries) h1;
                 values = map (Linear_forward (MHA.W_value self)) x;
                 (a_values, h3) = alloc (T3 values) h2;
                 keys = map (split_heads H hdim) keys;
                 queries = map (split_heads H hdim) queries;
                 values = map (split_heads H hdim) values;
                 attn_scores = map (\<lambda>(qs, ks). map (\<lambda>(q, k). matmul_nt q k) (zip qs ks))
                                   (zip queries keys);
                 (a_scores, h4) = alloc (T4 attn_scores) h3;
                 mask_bool = to_bool mask_t;
                 (a_bool, h5) = alloc (TBool mask_bool) h4
             in case collect (map (\<lambda>(Ss, X). collect (map (\<lambda>S. masked_fill S
                          (slice2 (length X) (length X) mask_bool) NInf) Ss))
                        (zip attn_scores x)) of
                  Inl e \<Rightarrow> (Inl e, h5)
                | Inr filled \<Rightarrow>
                    (let h6 = write_cell a_scores (T4 filled) h5;
                         scaled = map (map (\<lambda>S. div_scalar S (pow_half hdim))) filled;
                         (a_scaled, h7) = alloc (T4 scaled) h6;
                         attn_weights = map (map (map softmax)) scaled;
                         (a_weights, h8) = alloc (T4 attn_weights) h7;
                         ((a_dropped, attn_weights), h9) =
                            Dropout_heap4 (MHA.dropout self) (MHA.training self) keep
                              a_weights attn_weights h8;
                         context_vec = map (\<lambda>(Ss, Vs). map (\<lambda>(S, V). matmul hdim S V)
                                                              (zip Ss Vs))
                                           (zip filled values);
                         (a_context, h10) = alloc (T4 context_vec) h9;
                         context_vec = map (\<lambda>(C, X). combine_heads (length X) C)
                                           (zip context_vec x);
                         (a_contiguous, h11) = alloc (T3 context_vec) h10;
                         out = map (Linear_forward (MHA.out_proj self)) context_vec;
                         (a_out, h12) = alloc (T3 out) h11
                     in (Inr a_out, h12)))
          else (Inl RuntimeError, h0)
      | _ \<Rightarrow> (Inl AttributeError, h0))"

text \<open>The shape of a layer's parameters: the sizes of its weight and the length of its
  bias, if it has one.\<close>

definition linear_shape :: "linear \<Rightarrow> (nat \<times> nat list) \<times> nat option" where
  "linear_shape L = (dims (weight L), map_option length (linear.bias L))"

section \<open>Causal attention row by row\<close>

text \<open>
  What causal scaled-dot-product attention gives at one position, written from the tokens up
  to that position only: the query of the position against the keys \<open>Ks\<close> of the
  positions up to it, scaled by \<open>c\<close>, through softmax, times the values \<open>Vs\<close> of those
  positions (\<open>m\<close> columns). The forward passes are compared with it below.
\<close>

definition attention_row :: "fnum \<Rightarrow> nat \<Rightarrow> vec \<Rightarrow> mat \<Rightarrow> mat \<Rightarrow> vec" where
  "attention_row c m q Ks Vs =
     map (dot (softmax (map (\<lambda>k. fdiv (dot q k) c) Ks))) (columns m Vs)"

definition causal_rows :: "fnum \<Rightarrow> nat \<Rightarrow> mat \<Rightarrow> mat \<Rightarrow> mat \<Rightarrow> mat" where
  "causal_rows c m Q K V =
     map (\<lambda>i. attention_row c m (Q ! i) (take (Suc i) K) (take (Suc i) V)) [0..<length Q]"

text \<open>With the projections of the two classes of the buffers notebook, and with the fused
  projection, the heads and the scaling of MultiHeadAttentionCombinedQKV.\<close>

definition attention_rows :: "linear \<Rightarrow> linear \<Rightarrow> linear \<Rightarrow> mat \<Rightarrow> mat" where
  "attention_rows Wq Wk Wv X =
     causal_rows (pow_half (out_features Wk)) (out_features Wv)
       (Linear_forward Wq X) (Linear_forward Wk X) (Linear_forward Wv X)"

definition MultiHeadAttentionCombinedQKV_rows :: "MultiHeadAttentionCombinedQKV \<Rightarrow> mat \<Rightarrow> mat" where
  "MultiHeadAttentionCombinedQKV_rows self X =
     (let H = nat (MultiHeadAttentionCombinedQKV.num_heads self);
          hdim = nat (MultiHeadAttentionCombinedQKV.head_dim self);
          qkv = Linear_forward (MultiHeadAttentionCombinedQKV.qkv self) X
      in Linear_forward (MultiHeadAttentionCombinedQKV.proj self)
           (combine_heads (length X)
              (map (\<lambda>h. causal_rows (Fin (real hdim powr (- (1 / 2)))) hdim
                          (qkv_part 0 H hdim qkv ! h) (qkv_part 1 H hdim qkv ! h)
                          (qkv_part 2 H hdim qkv ! h))
                   [0..<H])))"

text \<open>A layer whose weights are finite numbers and whose bias, if it has one, has one
  entry for every output feature.\<close>

definition linear_finite :: "linear \<Rightarrow> bool" where
  "linear_finite L =
     (list_all (list_all is_fin) (weight L) \<and>
      (case linear.bias L of
         None \<Rightarrow> True
       | Some b \<Rightarrow> length b = length (weight L) \<and> list_all is_fin b))"

section \<open>Concrete modules and inputs\<close>

text \<open>Small modules on which the forward passes are evaluated: one head, identity
  weights, no bias on the query, key and value projections, a zero bias on the output
  projection, dropout \<open>0\<close>, and the mask of a context of two tokens.\<close>

definition lin1 :: linear where
  "lin1 = \<lparr>in_features = 1, weight = [[Fin 1]], bias = None\<rparr>"

definition proj1 :: linear where
  "proj1 = \<lparr>in_features = 1, weight = [[Fin 1]], bias = Some [Fin 0]\<rparr>"

definition mha_ex :: MHA where
  "mha_ex = \<lparr>MHA.d_out = 1, num_heads = 1, head_dim = 1,
             W_query = lin1, W_key = lin1, W_value = lin1, out_proj = proj1,
             dropout = 0, mask = triu_ones 2, training = True\<rparr>"

definition head_ex :: CasualAttention where
  "head_ex = \<lparr>CasualAttention.d_out = 1, W_query = lin1, W_key = lin1, W_value = lin1,
              dropout = 0, mask = triu_ones 2, training = True\<rparr>"

definition wrapper_ex :: MHA_Wrapper where
  "wrapper_ex = \<lparr>heads = [head_ex], out_proj = proj1\<rparr>"

text \<open>The weight correspondence of the wrapper and the fused class: head \<open>h\<close> of the
  wrapper carries rows \<open>h * head_dim ..< (h + 1) * head_dim\<close> of the fused projections,
  and the output projections, masks, dropout probabilities and modes coincide.\<close>

definition head_slice :: "nat \<Rightarrow> nat \<Rightarrow> linear \<Rightarrow> linear" where
  "head_slice h hdim L =
     \<lparr>in_features = in_features L,
      weight = take hdim (drop (h * hdim) (weight L)),
      bias = map_option (\<lambda>b. take hdim (drop (h * hdim) b)) (linear.bias L)\<rparr>"

definition carries_slices :: "MHA_Wrapper \<Rightarrow> MHA \<Rightarrow> bool" where
  "carries_slices w m =
     (int (length (heads w)) = MHA.num_heads m \<and>
      MHA_Wrapper.out_proj w = MHA.out_proj m \<and>
      list_all (\<lambda>(h, head).
          CasualAttention.W_query head = head_slice h (nat (MHA.head_dim m)) (MHA.W_query m) \<and>
          CasualAttention.W_key head = head_slice h (nat (MHA.head_dim m)) (MHA.W_key m) \<and>
          CasualAttention.W_value head = head_slice h (nat (MHA.head_dim m)) (MHA.W_value m) \<and>
          CasualAttention.mask head = MHA.mask m \<and>
          CasualAttention.dropout head = MHA.dropout m \<and>
          CasualAttention.training head = MHA.training m)
        (enumerate 0 (heads w)))"

text \<open>A module of one head of dimension four on inputs of four features: the query, key
  and value parts of the fused projection are identities.\<close>

definition identity_rows :: "nat \<Rightarrow> nat \<Rightarrow> mat" where
  "identity_rows r c = map (\<lambda>i. map (\<lambda>j. if j = i mod c then Fin 1 else Fin 0) [0..<c]) [0..<r]"

definition qkv_ex :: MultiHeadAttentionCombinedQKV where
  "qkv_ex = \<lparr>MultiHeadAttentionCombinedQKV.num_heads = 1, context_length = 2, head_dim = 4,
             qkv = \<lparr>in_features = 4, weight = identity_rows 12 4, bias = None\<rparr>,
             proj = \<lparr>in_features = 4, weight = identity_rows 4 4,
                     bias = Some (replicate 4 (Fin 0))\<rparr>,
             dropout = 0, mask = triu_ones 2, training = True\<rparr>"

definition zero_init :: init where
  "zero_init name i j = Fin 0"

definition one_init :: init where
  "one_init name i j = Fin 1"

definition keep_all :: draw where
  "keep_all idx = True"

text \<open>The two classes of the buffers notebook with the same weights: the mask a
  registered buffer in one, a plain attribute in the other.\<close>

definition bare_ex :: module where
  "bare_ex = \<lparr>device = CPU,
              children = [(''W_query'', lin1), (''W_key'', lin1), (''W_value'', lin1)],
              buffers = [], attributes = [], d_out = 1, dropout = 0, training = True\<rparr>"

definition with_ex :: module where
  "with_ex = register_buffer ''mask'' (triu_ones 2) bare_ex"

definition without_ex :: module where
  "without_ex = set_attribute ''mask'' (CPU, triu_ones 2) bare_ex"

text \<open>A store with the mask of a context of two tokens at address \<open>0\<close> and an input of
  one batch entry and two tokens at address \<open>1\<close>; an update of parameters that changes
  nothing.\<close>

definition heap_ex :: heap where
  "heap_ex = \<lparr>cells = [0 \<mapsto> TMat (triu_ones 2), 1 \<mapsto> T3 [[[Fin 1], [Fin 2]]]],
              next_free = 2\<rparr>"

definition no_update :: "string \<Rightarrow> mat \<Rightarrow> mat" where
  "no_update name M = M"

text \<open>Normalization layers and inputs: a batch normalization of one channel in training
  mode with a contiguous batch of two entries, and the layer \<open>BatchNorm(3)\<close> as its
  construction leaves it.\<close>

definition bn_ex :: BatchNorm where
  "bn_ex = \<lparr>channels = 1, eps = 3, momentum = 1 / 2, affine = True, track_running_stats = True,
            scale = Some [Fin 1], shift = Some [Fin 0], exp_mean = Some [Fin 0],
            exp_var = Some [Fin 1], training = True\<rparr>"

definition bn3_ex :: BatchNorm where
  "bn3_ex = \<lparr>channels = 3, eps = 1 / 100000, momentum = 1 / 10, affine = True,
             track_running_stats = True,
             scale = Some [Fin 1, Fin 1, Fin 1], shift = Some [Fin 0, Fin 0, Fin 0],
             exp_mean = Some [Fin 0, Fin 0, Fin 0], exp_var = Some [Fin 1, Fin 1, Fin 1],
             training = True\<rparr>"

definition x_bn :: strided_tensor where
  "x_bn = \<lparr>shape = [2, 1, 1], data = [Fin 1, Fin 3], strides = [1, 1, 1]\<rparr>"

text \<open>A batch of one image of one channel and two rows of two pixels, transposed in its
  last two dimensions (\<open>x.transpose(2, 3)\<close> of a contiguous \<open>x\<close>).\<close>

definition x_transposed :: strided_tensor where
  "x_transposed = \<lparr>shape = [1, 1, 2, 2], data = [Fin 1, Fin 3, Fin 2, Fin 4],
                   strides = [4, 4, 1, 2]\<rparr>"

text \<open>The layers \<open>LayerNorm([2])\<close> and \<open>BatchNorm(1)\<close> as their construction leaves them
  (\<open>eps = 1e-5\<close>, \<open>momentum = 0.1\<close>, affine, training mode), a layer normalization over a
  last dimension of no entry, and two float32 numbers half a unit apart as one row for the
  first layer and as a contiguous batch of two entries for the second.\<close>

definition ln2_ex :: LayerNorm where
  "ln2_ex = \<lparr>normalized_shape = [2], eps = 1 / 100000, elementwise_affine = True,
             gain = Some [Fin 1, Fin 1], bias = Some [Fin 0, Fin 0]\<rparr>"

definition ln_empty :: LayerNorm where
  "ln_empty = \<lparr>normalized_shape = [0], eps = 1 / 100000, elementwise_affine = True,
               gain = Some [], bias = Some []\<rparr>"

definition bn1_ex :: BatchNorm where
  "bn1_ex = \<lparr>channels = 1, eps = 1 / 100000, momentum = 1 / 10, affine = True,
             track_running_stats = True,
             scale = Some [Fin 1], shift = Some [Fin 0],
             exp_mean = Some [Fin 0], exp_var = Some [Fin 1], training = True\<rparr>"

definition x_close :: tensor where
  "x_close = \<lparr>shape = [1, 2], data = [Fin 4097, Fin (8195 / 2)]\<rparr>"

definition x_close_batch :: strided_tensor where
  "x_close_batch = \<lparr>shape = [2, 1], data = [Fin 4097, Fin (8195 / 2)], strides = [1, 1]\<rparr>"

section \<open>Properties of the attention classes\<close>

lemmas eval_defs =
  lin1_def proj1_def
  linear_accepts_def view_ok_def MHA_checks_def out_features_def Linear_forward_def Linear_row_def
  dot_def fsum_def split_heads_def qkv_part_def matmul_nt_def matmul_def columns_def
  slice2_def to_bool_def triu_ones_def masked_fill_def mask_broadcastable_def mask_at_def
  div_scalar_def softmax_def pow_half_def pow_minus_half_def Dropout_forward_def
  combine_heads_def cat_last_def same_shape_def identity_rows_def
  enumerate_eq_zip upt_rec Let_def

text \<open>
  C1. The claim: with dropout \<open>0\<close> and at most \<open>context_length\<close> tokens, \<open>MHA.forward\<close>
  multiplies the post-softmax attention weights with the values and projects the result.
  The code multiplies the masked scores with the values instead
  (\<open>attn_scores @ values\<close>; the weights it computed one line earlier are never used).
  On one token of value \<open>2\<close>, with identity weights, the code returns \<open>8\<close> (the score
  \<open>4\<close> times the value \<open>2\<close>) where the attention of the claim returns \<open>2\<close> (the weight
  \<open>1\<close> times the value \<open>2\<close>).
\<close>

theorem MHA_forward_multiplies_scores:
  "MHA_forward mha_ex keep [[[Fin 2]]] = Inr [[[Fin 8]]] \<and>
   MHA_reference mha_ex keep [[[Fin 2]]] = Inr [[[Fin 2]]]"
  by (simp add: mha_ex_def MHA_forward_def MHA_forward1_def MHA_reference_def
        MHA_reference1_def eval_defs)

text \<open>
  C2. The claim: when every head of \<open>MHA_Wrapper\<close> carries the matching slice of the
  projections of \<open>MHA\<close> and the output projections coincide, the two forward passes
  agree. The modules \<open>wrapper_ex\<close> and \<open>mha_ex\<close> correspond in this way, and on one token
  of value \<open>2\<close> the wrapper returns \<open>2\<close> and \<open>MHA\<close> returns \<open>8\<close>: the wrapper's heads
  multiply the weights with the values, \<open>MHA\<close> multiplies the scores with them.
\<close>

theorem MHA_Wrapper_differs_from_MHA:
  "carries_slices wrapper_ex mha_ex \<and>
   MHA_Wrapper_forward wrapper_ex keeps [[[Fin 2]]] = Inr [[[Fin 2]]] \<and>
   MHA_forward mha_ex keep [[[Fin 2]]] = Inr [[[Fin 8]]]"
  by (simp add: carries_slices_def head_slice_def wrapper_ex_def head_ex_def mha_ex_def
        MHA_Wrapper_forward_def CasualAttention_forward_def CasualAttention_forward1_def
        MHA_forward_def MHA_forward1_def eval_defs)

text \<open>
  C3. The claim: \<open>MultiHeadAttentionCombinedQKV.forward\<close> divides the scores by the
  square root of the head dimension before the softmax. The code divides by
  \<open>keys.shape[-1]**-0.5\<close>, that is, it multiplies by the square root. With a head of
  dimension \<open>4\<close> and the token \<open>(1, 1, 1, 1)\<close> the score is \<open>4\<close>; the softmax receives
  \<open>8\<close>, not \<open>4 / sqrt 4 = 2\<close>.
\<close>

theorem MultiHeadAttentionCombinedQKV_scales_up:
  "MultiHeadAttentionCombinedQKV_scores1 qkv_ex [[Fin 1, Fin 1, Fin 1, Fin 1]] = Inr [[[Fin 4]]] \<and>
   MultiHeadAttentionCombinedQKV_scaled1 qkv_ex [[Fin 1, Fin 1, Fin 1, Fin 1]] = Inr [[[Fin 8]]] \<and>
   div_scalar [[Fin 4]] (pow_half 4) = [[Fin 2]]"
  by (simp add: qkv_ex_def MultiHeadAttentionCombinedQKV_scores1_def
        MultiHeadAttentionCombinedQKV_scaled1_def eval_defs powr_minus powr_half_sqrt)

text \<open>
  C4. The claim: for each causal attention class, with dropout \<open>0\<close>, two inputs that
  agree on the tokens \<open>0..i\<close> give the same output row \<open>i\<close>. For \<open>MHA\<close> it fails: the
  masked scores, which hold \<open>-inf\<close> at the positions of later tokens, multiply the
  values, so the sign of a later token's value decides the row. The two inputs below
  agree on token \<open>0\<close> and differ on token \<open>1\<close>; row \<open>0\<close> of the output is \<open>-inf\<close> for the
  first and \<open>+inf\<close> for the second.
\<close>

theorem MHA_forward_not_causal:
  "MHA_forward mha_ex keep [[[Fin 1], [Fin 1]]] = Inr [[[NInf], [Fin 2]]] \<and>
   MHA_forward mha_ex keep [[[Fin 1], [Fin (- 1)]]] = Inr [[[PInf], [Fin (- 2)]]]"
  by (simp add: mha_ex_def MHA_forward_def MHA_forward1_def eval_defs)

text \<open>
  C9. The claim: construction of each fused variant raises AssertionError exactly when
  \<open>num_heads\<close> does not divide \<open>d_out\<close>, and succeeds whenever it does. Two inputs
  contradict it: with \<open>num_heads = 0\<close> the remainder \<open>d_out % num_heads\<close> raises
  ZeroDivisionError before the assertion is evaluated, and with \<open>num_heads = 2\<close>
  dividing \<open>d_out = 4\<close> a dropout probability of \<open>2\<close> makes \<open>nn.Dropout\<close> raise ValueError.
\<close>

theorem construction_counterexample:
  "\<not> (0::int) dvd 4 \<and> MHA_init 2 4 4 0 0 False zero_init = Inl ZeroDivisionError \<and>
   (2::int) dvd 4 \<and> MHA_init 2 4 4 2 2 False zero_init = Inl ValueError"
  by (simp add: MHA_init_def and_then_def assert_divisible_def Linear_init_def
        Dropout_init_def triu_ones_init_def)

text \<open>
  C9, as the code has it. For each of the four classes: construction raises
  AssertionError exactly when \<open>num_heads\<close> is not zero and does not divide \<open>d_out\<close>; it
  raises ZeroDivisionError exactly when \<open>num_heads\<close> is zero; and it succeeds exactly
  when \<open>num_heads\<close> is a non-zero divisor of \<open>d_out\<close>, no size handed to the library is
  negative (\<open>d_in\<close>, \<open>d_out\<close>, and \<open>context_length\<close> where a mask is built) and, where
  \<open>nn.Dropout\<close> is built, the probability lies in \<open>[0, 1]\<close>.
\<close>

theorem construction_errors:
  "(MHA_init d_in d_out' context_length' dropout' num_heads' qkv_bias init = Inl AssertionError)
     = (num_heads' \<noteq> 0 \<and> \<not> num_heads' dvd d_out') \<and>
   (MultiHeadAttentionCombinedQKV_init d_in d_out' num_heads' context_length' dropout' qkv_bias init
      = Inl AssertionError) = (num_heads' \<noteq> 0 \<and> \<not> num_heads' dvd d_out') \<and>
   (MHAPyTorchScaledDotProduct_init d_in d_out' num_heads' context_length' dropout' qkv_bias init
      = Inl AssertionError) = (num_heads' \<noteq> 0 \<and> \<not> num_heads' dvd d_out') \<and>
   (MHAPyTorchSDPAWithoutFlash_init d_in d_out' num_heads' context_length' dropout' qkv_bias init
      = Inl AssertionError) = (num_heads' \<noteq> 0 \<and> \<not> num_heads' dvd d_out') \<and>
   (MHA_init d_in d_out' context_length' dropout' num_heads' qkv_bias init = Inl ZeroDivisionError)
     = (num_heads' = 0) \<and>
   (MultiHeadAttentionCombinedQKV_init d_in d_out' num_heads' context_length' dropout' qkv_bias init
      = Inl ZeroDivisionError) = (num_heads' = 0) \<and>
   (MHAPyTorchScaledDotProduct_init d_in d_out' num_heads' context_length' dropout' qkv_bias init
      = Inl ZeroDivisionError) = (num_heads' = 0) \<and>
   (MHAPyTorchSDPAWithoutFlash_init d_in d_out' num_heads' context_length' dropout' qkv_bias init
      = Inl ZeroDivisionError) = (num_heads' = 0) \<and>
   (\<exists>m. MHA_init d_in d_out' context_length' dropout' num_heads' qkv_bias init = Inr m)
     = (num_heads' \<noteq> 0 \<and> num_heads' dvd d_out' \<and> 0 \<le> d_in \<and> 0 \<le> d_out' \<and>
        0 \<le> dropout' \<and> dropout' \<le> 1 \<and> 0 \<le> context_length') \<and>
   (\<exists>m. MultiHeadAttentionCombinedQKV_init d_in d_out' num_heads' context_length' dropout'
           qkv_bias init = Inr m)
     = (num_heads' \<noteq> 0 \<and> num_heads' dvd d_out' \<and> 0 \<le> d_in \<and> 0 \<le> d_out' \<and>
        0 \<le> dropout' \<and> dropout' \<le> 1 \<and> 0 \<le> context_length') \<and>
   (\<exists>m. MHAPyTorchScaledDotProduct_init d_in d_out' num_heads' context_length' dropout'
           qkv_bias init = Inr m)
     = (num_heads' \<noteq> 0 \<and> num_heads' dvd d_out' \<and> 0 \<le> d_in \<and> 0 \<le> d_out') \<and>
   (\<exists>m. MHAPyTorchSDPAWithoutFlash_init d_in d_out' num_heads' context_length' dropout'
           qkv_bias init = Inr m)
     = (num_heads' \<noteq> 0 \<and> num_heads' dvd d_out' \<and> 0 \<le> d_in \<and> 0 \<le> d_out' \<and>
        0 \<le> context_length')"
  by (auto simp: MHA_init_def MultiHeadAttentionCombinedQKV_init_def
        MHAPyTorchScaledDotProduct_init_def MHAPyTorchSDPAWithoutFlash_init_def
        and_then_def assert_divisible_def Linear_init_def Dropout_init_def triu_ones_init_def
        mod_eq_0_iff_dvd)

section \<open>Properties of buffers and plain attributes\<close>

lemmas init_defs = and_then_def Linear_init_def Dropout_init_def triu_ones_init_def

lemmas ex_defs = with_ex_def without_ex_def bare_ex_def register_buffer_def set_attribute_def
  getattr_tensor_def getattr_child_def module_to_def keep_all_def

lemmas sd_defs = state_dict_def linear_state_def save_load_def load_state_dict_def loadable_def
  entry_or_def load_linear_def assign_where_def module_to_def getattr_tensor_def

text \<open>
  C5. The claim: with the same weights, dropout probability and mask contents, the forward
  pass of the class with the registered buffer equals that of the class with the plain
  attribute, for every input. After \<open>module.to(device)\<close> the registered mask has moved
  with the weights and the plain one has not: on an input of the new device the first
  class returns a result and \<open>masked_fill_\<close> of the second raises RuntimeError, though
  weights, dropout and the entries of the mask are the same.
\<close>

theorem forward_after_device_transfer:
  "children (module_to CUDA with_ex) = children (module_to CUDA without_ex) \<and>
   module.dropout (module_to CUDA with_ex) = module.dropout (module_to CUDA without_ex) \<and>
   map_option snd (getattr_tensor (module_to CUDA with_ex) ''mask'') =
     map_option snd (getattr_tensor (module_to CUDA without_ex) ''mask'') \<and>
   CausalAttentionWithBuffer_forward (module_to CUDA with_ex) keep_all CUDA [[[Fin 2]]]
     = Inr [[[Fin 2]]] \<and>
   CausalAttentionWithoutBuffers_forward (module_to CUDA without_ex) keep_all CUDA [[[Fin 2]]]
     = Inl RuntimeError"
  by (simp add: ex_defs CausalAttentionWithBuffer_forward_def
        CausalAttentionWithoutBuffers_forward_def causal_attention1_def eval_defs)

text \<open>
  C5, as the code has it. When the two modules have the same children (weights), the same
  device of the registered state, the same dropout probability and mode, and the attribute
  lookup of \<open>mask\<close> finds the same tensor on the same device in both, the two forward
  passes give the same result, or raise the same error, on every input and every draw of
  the dropout.
\<close>

theorem forward_buffer_or_attribute:
  assumes "children m1 = children m2" and "device m1 = device m2"
    and "module.dropout m1 = module.dropout m2" and "module.training m1 = module.training m2"
    and "getattr_tensor m1 ''mask'' = getattr_tensor m2 ''mask''"
  shows "CausalAttentionWithBuffer_forward m1 keep xdev x =
         CausalAttentionWithoutBuffers_forward m2 keep xdev x"
  unfolding CausalAttentionWithBuffer_forward_def CausalAttentionWithoutBuffers_forward_def
    getattr_child_def assms
  by (rule refl)

theorem forward_buffer_or_attribute_witness:
  "CausalAttentionWithBuffer_forward with_ex keep_all CPU [[[Fin 1], [Fin 2]]] =
   CausalAttentionWithoutBuffers_forward without_ex keep_all CPU [[[Fin 1], [Fin 2]]]"
  using forward_buffer_or_attribute[of with_ex without_ex keep_all CPU "[[[Fin 1], [Fin 2]]]"]
  by (simp add: ex_defs)

subsection \<open>What construction leaves\<close>

lemma Linear_init_shape:
  "Linear_init a b qb init name = Inr L \<Longrightarrow>
     linear_shape L = ((nat b, replicate (nat b) (nat a)), if qb then Some (nat b) else None)"
  by (auto simp: Linear_init_def linear_shape_def dims_def o_def map_replicate_const
           split: if_splits)

lemma and_then_Inr: "and_then r f = Inr y \<longleftrightarrow> (\<exists>v. r = Inr v \<and> f v = Inr y)"
  by (cases r) (simp_all add: and_then_def)

lemma With_init_form:
  assumes "CausalAttentionWithBuffer_init d_in d_out' ctx p qb init = Inr m"
  obtains Wq Wk Wv where
    "m = \<lparr>device = CPU, children = [(''W_query'', Wq), (''W_key'', Wk), (''W_value'', Wv)],
          buffers = [(''mask'', triu_ones (nat ctx))], attributes = [],
          d_out = d_out', dropout = p, training = True\<rparr>"
    "linear_shape Wq = ((nat d_out', replicate (nat d_out') (nat d_in)),
                        if qb then Some (nat d_out') else None)"
    "linear_shape Wk = ((nat d_out', replicate (nat d_out') (nat d_in)),
                        if qb then Some (nat d_out') else None)"
    "linear_shape Wv = ((nat d_out', replicate (nat d_out') (nat d_in)),
                        if qb then Some (nat d_out') else None)"
proof -
  from assms obtain Wq Wk Wv p' mk where
    a: "Linear_init d_in d_out' qb init ''W_query'' = Inr Wq"
       "Linear_init d_in d_out' qb init ''W_key'' = Inr Wk"
       "Linear_init d_in d_out' qb init ''W_value'' = Inr Wv"
       "Dropout_init p = Inr p'" "triu_ones_init ctx = Inr mk"
    and m: "m = register_buffer ''mask'' mk
             \<lparr>device = CPU, children = [(''W_query'', Wq), (''W_key'', Wk), (''W_value'', Wv)],
              buffers = [], attributes = [], d_out = d_out', dropout = p', training = True\<rparr>"
    unfolding CausalAttentionWithBuffer_init_def and_then_Inr by auto
  have "p' = p" "mk = triu_ones (nat ctx)"
    using a(4,5) by (auto simp: Dropout_init_def triu_ones_init_def split: if_splits)
  with m a(1-3) that show thesis
    by (simp add: register_buffer_def Linear_init_shape)
qed

lemma Without_init_form:
  assumes "CausalAttentionWithoutBuffers_init d_in d_out' ctx p qb init = Inr m"
  obtains Wq Wk Wv where
    "m = \<lparr>device = CPU, children = [(''W_query'', Wq), (''W_key'', Wk), (''W_value'', Wv)],
          buffers = [], attributes = [(''mask'', (CPU, triu_ones (nat ctx)))],
          d_out = d_out', dropout = p, training = True\<rparr>"
    "linear_shape Wq = ((nat d_out', replicate (nat d_out') (nat d_in)),
                        if qb then Some (nat d_out') else None)"
    "linear_shape Wk = ((nat d_out', replicate (nat d_out') (nat d_in)),
                        if qb then Some (nat d_out') else None)"
    "linear_shape Wv = ((nat d_out', replicate (nat d_out') (nat d_in)),
                        if qb then Some (nat d_out') else None)"
proof -
  from assms obtain Wq Wk Wv p' mk where
    a: "Linear_init d_in d_out' qb init ''W_query'' = Inr Wq"
       "Linear_init d_in d_out' qb init ''W_key'' = Inr Wk"
       "Linear_init d_in d_out' qb init ''W_value'' = Inr Wv"
       "Dropout_init p = Inr p'" "triu_ones_init ctx = Inr mk"
    and m: "m = set_attribute ''mask'' (CPU, mk)
             \<lparr>device = CPU, children = [(''W_query'', Wq), (''W_key'', Wk), (''W_value'', Wv)],
              buffers = [], attributes = [], d_out = d_out', dropout = p', training = True\<rparr>"
    unfolding CausalAttentionWithoutBuffers_init_def and_then_Inr by auto
  have "p' = p" "mk = triu_ones (nat ctx)"
    using a(4,5) by (auto simp: Dropout_init_def triu_ones_init_def split: if_splits)
  with m a(1-3) that show thesis
    by (simp add: set_attribute_def Linear_init_shape)
qed

lemma With_init_succeeds:
  assumes "0 \<le> d_in" "0 \<le> d_out'" "0 \<le> ctx" "0 \<le> p" "p \<le> 1"
  shows "\<exists>m. CausalAttentionWithBuffer_init d_in d_out' ctx p qb init = Inr m"
  using assms by (simp add: CausalAttentionWithBuffer_init_def init_defs)

lemma Without_init_succeeds:
  assumes "0 \<le> d_in" "0 \<le> d_out'" "0 \<le> ctx" "0 \<le> p" "p \<le> 1"
  shows "\<exists>m. CausalAttentionWithoutBuffers_init d_in d_out' ctx p qb init = Inr m"
  using assms by (simp add: CausalAttentionWithoutBuffers_init_def init_defs)

subsection \<open>Saving and loading\<close>

lemma dims_replace_value: "dims (replace_value c v M) = dims M"
  by (simp add: dims_def replace_value_def)

lemma linear_shape_dims:
  "linear_shape A = linear_shape B \<Longrightarrow> dims (weight A) = dims (weight B)"
  by (simp add: linear_shape_def)

lemma linear_shape_bias:
  "linear_shape A = (s, if qb then Some n else None) \<Longrightarrow>
     (qb \<longrightarrow> (\<exists>b. linear.bias A = Some b \<and> length b = n)) \<and> (\<not> qb \<longrightarrow> linear.bias A = None)"
  by (cases "linear.bias A") (auto simp: linear_shape_def split: if_splits)

lemma with_state_dict_mask:
  assumes "CausalAttentionWithBuffer_init d_in d_out' ctx p qb init = Inr m"
  shows "''mask'' \<in> fst ` set (state_dict m)"
  using assms by (elim With_init_form) (simp add: state_dict_def)

lemma without_state_dict_mask:
  assumes "CausalAttentionWithoutBuffers_init d_in d_out' ctx p qb init = Inr m"
  shows "''mask'' \<notin> fst ` set (state_dict m)"
  using assms
  by (elim Without_init_form) (auto simp: state_dict_def linear_state_def split: option.splits)

lemma with_round_trip:
  assumes "CausalAttentionWithBuffer_init d_in d_out' ctx p qb init1 = Inr m"
    and "CausalAttentionWithBuffer_init d_in d_out' ctx p qb init2 = Inr fresh"
  shows "\<exists>m'. load_state_dict fresh
             (save_load (state_dict (assign_where ''mask'' c v (module_to dev m)))) = Inr m' \<and>
           map_option snd (getattr_tensor m' ''mask'') =
             map_option snd (getattr_tensor (assign_where ''mask'' c v (module_to dev m)) ''mask'') \<and>
           map_option snd (getattr_tensor m' ''mask'') =
             Some (replace_value c v (triu_ones (nat ctx)))"
proof -
  from assms(1) obtain Wq Wk Wv where m:
    "m = \<lparr>device = CPU, children = [(''W_query'', Wq), (''W_key'', Wk), (''W_value'', Wv)],
          buffers = [(''mask'', triu_ones (nat ctx))], attributes = [],
          d_out = d_out', dropout = p, training = True\<rparr>"
    and s: "linear_shape Wq = ((nat d_out', replicate (nat d_out') (nat d_in)),
                               if qb then Some (nat d_out') else None)"
    "linear_shape Wk = ((nat d_out', replicate (nat d_out') (nat d_in)),
                        if qb then Some (nat d_out') else None)"
    "linear_shape Wv = ((nat d_out', replicate (nat d_out') (nat d_in)),
                        if qb then Some (nat d_out') else None)"
    by (rule With_init_form)
  from assms(2) obtain Wq' Wk' Wv' where f:
    "fresh = \<lparr>device = CPU, children = [(''W_query'', Wq'), (''W_key'', Wk'), (''W_value'', Wv')],
          buffers = [(''mask'', triu_ones (nat ctx))], attributes = [],
          d_out = d_out', dropout = p, training = True\<rparr>"
    and s': "linear_shape Wq' = ((nat d_out', replicate (nat d_out') (nat d_in)),
                                 if qb then Some (nat d_out') else None)"
    "linear_shape Wk' = ((nat d_out', replicate (nat d_out') (nat d_in)),
                         if qb then Some (nat d_out') else None)"
    "linear_shape Wv' = ((nat d_out', replicate (nat d_out') (nat d_in)),
                         if qb then Some (nat d_out') else None)"
    by (rule With_init_form)
  have d: "dims (weight Wq) = dims (weight Wq')" "dims (weight Wk) = dims (weight Wk')"
    "dims (weight Wv) = dims (weight Wv')"
    using s s' by (simp_all add: linear_shape_dims)
  note b = linear_shape_bias[OF s(1)] linear_shape_bias[OF s(2)] linear_shape_bias[OF s(3)]
    linear_shape_bias[OF s'(1)] linear_shape_bias[OF s'(2)] linear_shape_bias[OF s'(3)]
  show ?thesis
  proof (cases qb)
    case True
    with b obtain b1 b2 b3 b4 b5 b6 where
      "linear.bias Wq = Some b1" "linear.bias Wk = Some b2" "linear.bias Wv = Some b3"
      "linear.bias Wq' = Some b4" "linear.bias Wk' = Some b5" "linear.bias Wv' = Some b6"
      "length b1 = nat d_out'" "length b2 = nat d_out'" "length b3 = nat d_out'"
      "length b4 = nat d_out'" "length b5 = nat d_out'" "length b6 = nat d_out'"
      by auto
    then show ?thesis
      using d by (simp add: m f sd_defs dims_replace_value) (simp add: dims_def)
  next
    case False
    with b have "linear.bias Wq = None" "linear.bias Wk = None" "linear.bias Wv = None"
      "linear.bias Wq' = None" "linear.bias Wk' = None" "linear.bias Wv' = None"
      by auto
    then show ?thesis
      using d by (simp add: m f sd_defs dims_replace_value)
  qed
qed

lemma without_round_trip:
  assumes "CausalAttentionWithoutBuffers_init d_in d_out' ctx p qb init1 = Inr m"
    and "CausalAttentionWithoutBuffers_init d_in d_out' ctx p qb init2 = Inr fresh"
  shows "\<exists>m'. load_state_dict fresh
             (save_load (state_dict (assign_where ''mask'' c v (module_to dev m)))) = Inr m' \<and>
           getattr_tensor m' ''mask'' = getattr_tensor fresh ''mask'' \<and>
           getattr_tensor m' ''mask'' = Some (CPU, triu_ones (nat ctx)) \<and>
           getattr_tensor (assign_where ''mask'' c v (module_to dev m)) ''mask'' =
             Some (CPU, replace_value c v (triu_ones (nat ctx)))"
proof -
  from assms(1) obtain Wq Wk Wv where m:
    "m = \<lparr>device = CPU, children = [(''W_query'', Wq), (''W_key'', Wk), (''W_value'', Wv)],
          buffers = [], attributes = [(''mask'', (CPU, triu_ones (nat ctx)))],
          d_out = d_out', dropout = p, training = True\<rparr>"
    and s: "linear_shape Wq = ((nat d_out', replicate (nat d_out') (nat d_in)),
                               if qb then Some (nat d_out') else None)"
    "linear_shape Wk = ((nat d_out', replicate (nat d_out') (nat d_in)),
                        if qb then Some (nat d_out') else None)"
    "linear_shape Wv = ((nat d_out', replicate (nat d_out') (nat d_in)),
                        if qb then Some (nat d_out') else None)"
    by (rule Without_init_form)
  from assms(2) obtain Wq' Wk' Wv' where f:
    "fresh = \<lparr>device = CPU, children = [(''W_query'', Wq'), (''W_key'', Wk'), (''W_value'', Wv')],
          buffers = [], attributes = [(''mask'', (CPU, triu_ones (nat ctx)))],
          d_out = d_out', dropout = p, training = True\<rparr>"
    and s': "linear_shape Wq' = ((nat d_out', replicate (nat d_out') (nat d_in)),
                                 if qb then Some (nat d_out') else None)"
    "linear_shape Wk' = ((nat d_out', replicate (nat d_out') (nat d_in)),
                         if qb then Some (nat d_out') else None)"
    "linear_shape Wv' = ((nat d_out', replicate (nat d_out') (nat d_in)),
                         if qb then Some (nat d_out') else None)"
    by (rule Without_init_form)
  have d: "dims (weight Wq) = dims (weight Wq')" "dims (weight Wk) = dims (weight Wk')"
    "dims (weight Wv) = dims (weight Wv')"
    using s s' by (simp_all add: linear_shape_dims)
  note b = linear_shape_bias[OF s(1)] linear_shape_bias[OF s(2)] linear_shape_bias[OF s(3)]
    linear_shape_bias[OF s'(1)] linear_shape_bias[OF s'(2)] linear_shape_bias[OF s'(3)]
  show ?thesis
  proof (cases qb)
    case True
    with b obtain b1 b2 b3 b4 b5 b6 where
      "linear.bias Wq = Some b1" "linear.bias Wk = Some b2" "linear.bias Wv = Some b3"
      "linear.bias Wq' = Some b4" "linear.bias Wk' = Some b5" "linear.bias Wv' = Some b6"
      "length b1 = nat d_out'" "length b2 = nat d_out'" "length b3 = nat d_out'"
      "length b4 = nat d_out'" "length b5 = nat d_out'" "length b6 = nat d_out'"
      by auto
    then show ?thesis
      using d by (simp add: m f sd_defs) (simp add: dims_def)
  next
    case False
    with b have "linear.bias Wq = None" "linear.bias Wk = None" "linear.bias Wv = None"
      "linear.bias Wq' = None" "linear.bias Wk' = None" "linear.bias Wv' = None"
      by auto
    then show ?thesis
      using d by (simp add: m f sd_defs)
  qed
qed

text \<open>
  C6. For sizes that are not negative and a dropout probability in \<open>[0, 1]\<close> the four
  constructions below succeed (\<open>m\<close> and \<open>fresh\<close> with the buffer, \<open>m0\<close> and \<open>fresh0\<close>
  without, the fresh modules with other initial weights), and:
  the \<open>state_dict\<close> of the class with the buffer has a \<open>mask\<close> entry; after the module was
  moved to any device and the entries \<open>c\<close> of its mask were overwritten by \<open>v\<close>, saving its
  \<open>state_dict\<close> and loading it into the fresh module succeeds and the fresh module's mask
  has the entries of the modified mask; the \<open>state_dict\<close> of the class without the buffer
  has no \<open>mask\<close> entry, and the same round trip leaves the fresh module's mask as
  construction made it, while the module that was saved holds the modified mask.
\<close>

theorem state_dict_round_trip:
  assumes "0 \<le> d_in" "0 \<le> d_out'" "0 \<le> context_length'" "0 \<le> dropout'" "dropout' \<le> 1"
  shows "\<exists>m fresh m0 fresh0.
     CausalAttentionWithBuffer_init d_in d_out' context_length' dropout' qkv_bias init1 = Inr m \<and>
     CausalAttentionWithBuffer_init d_in d_out' context_length' dropout' qkv_bias init2 = Inr fresh \<and>
     CausalAttentionWithoutBuffers_init d_in d_out' context_length' dropout' qkv_bias init1
       = Inr m0 \<and>
     CausalAttentionWithoutBuffers_init d_in d_out' context_length' dropout' qkv_bias init2
       = Inr fresh0 \<and>
     ''mask'' \<in> fst ` set (state_dict m) \<and>
     (\<exists>m'. load_state_dict fresh
             (save_load (state_dict (assign_where ''mask'' c v (module_to dev m)))) = Inr m' \<and>
           map_option snd (getattr_tensor m' ''mask'') =
             map_option snd (getattr_tensor (assign_where ''mask'' c v (module_to dev m)) ''mask'') \<and>
           map_option snd (getattr_tensor m' ''mask'') =
             Some (replace_value c v (triu_ones (nat context_length')))) \<and>
     ''mask'' \<notin> fst ` set (state_dict m0) \<and>
     (\<exists>m0'. load_state_dict fresh0
             (save_load (state_dict (assign_where ''mask'' c v (module_to dev m0)))) = Inr m0' \<and>
           getattr_tensor m0' ''mask'' = getattr_tensor fresh0 ''mask'' \<and>
           getattr_tensor m0' ''mask'' = Some (CPU, triu_ones (nat context_length')) \<and>
           getattr_tensor (assign_where ''mask'' c v (module_to dev m0)) ''mask'' =
             Some (CPU, replace_value c v (triu_ones (nat context_length'))))"
proof -
  obtain m fresh m0 fresh0 where i:
    "CausalAttentionWithBuffer_init d_in d_out' context_length' dropout' qkv_bias init1 = Inr m"
    "CausalAttentionWithBuffer_init d_in d_out' context_length' dropout' qkv_bias init2 = Inr fresh"
    "CausalAttentionWithoutBuffers_init d_in d_out' context_length' dropout' qkv_bias init1 = Inr m0"
    "CausalAttentionWithoutBuffers_init d_in d_out' context_length' dropout' qkv_bias init2
       = Inr fresh0"
    using With_init_succeeds[OF assms] Without_init_succeeds[OF assms] by metis
  show ?thesis
    using i with_state_dict_mask[OF i(1)] without_state_dict_mask[OF i(3)]
      with_round_trip[OF i(1,2)] without_round_trip[OF i(3,4)]
    by blast
qed

theorem state_dict_round_trip_witness:
  "\<exists>m fresh m0 fresh0.
     CausalAttentionWithBuffer_init 3 2 6 0 False zero_init = Inr m \<and>
     CausalAttentionWithBuffer_init 3 2 6 0 False one_init = Inr fresh \<and>
     CausalAttentionWithoutBuffers_init 3 2 6 0 False zero_init = Inr m0 \<and>
     CausalAttentionWithoutBuffers_init 3 2 6 0 False one_init = Inr fresh0 \<and>
     ''mask'' \<in> fst ` set (state_dict m) \<and>
     (\<exists>m'. load_state_dict fresh
             (save_load (state_dict (assign_where ''mask'' (Fin 1) (Fin 2) (module_to CUDA m))))
               = Inr m' \<and>
           map_option snd (getattr_tensor m' ''mask'') =
             map_option snd
               (getattr_tensor (assign_where ''mask'' (Fin 1) (Fin 2) (module_to CUDA m)) ''mask'') \<and>
           map_option snd (getattr_tensor m' ''mask'') =
             Some (replace_value (Fin 1) (Fin 2) (triu_ones 6))) \<and>
     ''mask'' \<notin> fst ` set (state_dict m0) \<and>
     (\<exists>m0'. load_state_dict fresh0
             (save_load (state_dict (assign_where ''mask'' (Fin 1) (Fin 2) (module_to CUDA m0))))
               = Inr m0' \<and>
           getattr_tensor m0' ''mask'' = getattr_tensor fresh0 ''mask'' \<and>
           getattr_tensor m0' ''mask'' = Some (CPU, triu_ones 6) \<and>
           getattr_tensor (assign_where ''mask'' (Fin 1) (Fin 2) (module_to CUDA m0)) ''mask'' =
             Some (CPU, replace_value (Fin 1) (Fin 2) (triu_ones 6)))"
  using state_dict_round_trip[of 3 2 6 0 False zero_init one_init "Fin 1" "Fin 2" CUDA]
  by simp

section \<open>Properties of the passes on tensor objects\<close>

text \<open>Frame: a forward pass changes no object that existed before it; it allocates, and
  the one object it overwrites is the score tensor it allocated itself.\<close>

lemma CausalAttentionWithBuffer_frame:
  assumes "a < next_free h0"
  shows "cells (snd (CausalAttentionWithBuffer_forward_heap self a_mask keep a_x h0)) a = cells h0 a"
  using assms
  unfolding CausalAttentionWithBuffer_forward_heap_def
  by (auto simp: Let_def alloc_def write_cell_def Dropout_heap_def
      split: option.splits tval.splits sum.splits prod.splits if_splits)


text \<open>The passes on objects compute what the passes on values compute.\<close>

lemma collect_length: "collect rs = Inr vs \<Longrightarrow> length vs = length rs"
proof (induction rs arbitrary: vs)
  case Nil
  then show ?case by simp
next
  case (Cons r rs)
  then show ?case
    by (cases r; cases "collect rs") auto
qed

lemma collect_map_split:
  "collect (map (\<lambda>(bi, X). case g X of Inl e \<Rightarrow> Inl e | Inr S \<Rightarrow> Inr (r bi S X)) (enumerate n xs)) =
   (case collect (map g xs) of
      Inl e \<Rightarrow> Inl e
    | Inr Ss \<Rightarrow> Inr (map (\<lambda>(bi, (S, X)). r bi S X) (enumerate n (zip Ss xs))))"
proof (induction xs arbitrary: n)
  case Nil
  then show ?case by simp
next
  case (Cons x xs)
  show ?case
  proof (cases "g x")
    case (Inl e)
    then show ?thesis by simp
  next
    case (Inr S)
    then show ?thesis
      using Cons.IH[of "Suc n"]
      by (cases "collect (map g xs)") simp_all
  qed
qed

lemma CausalAttentionWithBuffer_heap_result:
  assumes "cells h0 a_mask = Some (TMat M)" and "cells h0 a_x = Some (T3 x)"
    and "getattr_tensor self ''mask'' = Some (xdev, M)" and "device self = xdev"
  shows "case CausalAttentionWithBuffer_forward_heap self a_mask keep a_x h0 of
           (Inl e, h) \<Rightarrow> CausalAttentionWithBuffer_forward self keep xdev x = Inl e
         | (Inr r, h) \<Rightarrow> (\<exists>y. cells h r = Some (T3 y) \<and>
                                CausalAttentionWithBuffer_forward self keep xdev x = Inr y)"
proof (cases "getattr_child self ''W_key''")
  case None
  then show ?thesis
    by (simp add: CausalAttentionWithBuffer_forward_heap_def CausalAttentionWithBuffer_forward_def)
next
  case (Some Wk)
  note Wk = this
  show ?thesis
  proof (cases "getattr_child self ''W_query''")
    case None
    then show ?thesis using Wk
      by (simp add: CausalAttentionWithBuffer_forward_heap_def CausalAttentionWithBuffer_forward_def)
  next
    case (Some Wq)
    note Wq = this
    show ?thesis
    proof (cases "getattr_child self ''W_value''")
      case None
      then show ?thesis using Wk Wq
        by (simp add: CausalAttentionWithBuffer_forward_heap_def CausalAttentionWithBuffer_forward_def)
    next
      case (Some Wv)
      note Wv = this
      show ?thesis
      proof (cases "linear_accepts Wk x \<and> linear_accepts Wq x \<and> linear_accepts Wv x")
        case False
        then show ?thesis using Wk Wq Wv assms
          by (auto simp: CausalAttentionWithBuffer_forward_heap_def CausalAttentionWithBuffer_forward_def)
      next
        case True
        define g where "g = (\<lambda>X. masked_fill (matmul_nt (Linear_forward Wq X) (Linear_forward Wk X))
                           (slice2 (length X) (length X) (to_bool M)) NInf)"
        define r where "r = (\<lambda>bi S X. matmul (out_features Wv)
              (Dropout_forward (module.dropout self) (module.training self) keep [bi]
                 (map softmax (div_scalar S (pow_half (out_features Wk)))))
              (Linear_forward Wv X))"
        have pure: "CausalAttentionWithBuffer_forward self keep xdev x =
              (case collect (map g x) of
                 Inl e \<Rightarrow> Inl e
               | Inr Ss \<Rightarrow> Inr (map (\<lambda>(bi, (S, X)). r bi S X) (enumerate 0 (zip Ss x))))"
        proof -
          have ca: "causal_attention1 Wq Wk Wv M (module.dropout self) (module.training self)
                      keep = (\<lambda>bi X. case g X of Inl e \<Rightarrow> Inl e | Inr S \<Rightarrow> Inr (r bi S X))"
            by (intro ext) (simp add: causal_attention1_def g_def r_def Let_def split: sum.splits)
          show ?thesis
            using Wk Wq Wv assms True
            by (simp add: CausalAttentionWithBuffer_forward_def ca collect_map_split)
        qed
        have scores: "map (\<lambda>(S, X). masked_fill S (slice2 (length X) (length X) (to_bool M)) NInf)
                 (zip (map (\<lambda>(q, k). matmul_nt q k)
                        (zip (map (Linear_forward Wq) x) (map (Linear_forward Wk) x))) x)
               = map g x"
          by (simp add: g_def zip_map1 zip_map2 zip_same_conv_map o_def split_def)
        show ?thesis
        proof (cases "collect (map g x)")
          case (Inl e)
          then show ?thesis
            using Wk Wq Wv assms True scores pure
            by (simp add: CausalAttentionWithBuffer_forward_heap_def Let_def alloc_def)
        next
          case (Inr filled)
          have len: "length filled = length x"
            using collect_length[OF Inr] by simp
          have res: "map (\<lambda>(W, V). matmul (out_features Wv) W V)
                 (zip (map (\<lambda>(bi, Wb). Dropout_forward (module.dropout self)
                              (module.training self) keep [bi] Wb)
                         (enumerate 0 (map (map softmax)
                            (map (\<lambda>S. div_scalar S (pow_half (out_features Wk))) filled))))
                      (map (Linear_forward Wv) x))
               = map (\<lambda>(bi, (S, X)). r bi S X) (enumerate 0 (zip filled x))"
            using len
            by (auto simp: list_eq_iff_nth_eq r_def nth_enumerate_eq)
          have idd: "module.dropout self = 0 \<or> \<not> module.training self \<Longrightarrow>
                 map (\<lambda>(bi, Wb). Dropout_forward (module.dropout self)
                              (module.training self) keep [bi] Wb) (enumerate 0 W) = W" for W
            by (auto simp: list_eq_iff_nth_eq nth_enumerate_eq Dropout_forward_def)
          show ?thesis
            using Wk Wq Wv assms True scores pure Inr res idd
            by (auto simp: CausalAttentionWithBuffer_forward_heap_def Let_def alloc_def
                  write_cell_def Dropout_heap_def split: prod.splits)
        qed
      qed
    qed
  qed
qed


lemma MHA_frame:
  assumes "a < next_free h0"
  shows "cells (snd (MHA_forward_heap self a_mask keep a_x h0)) a = cells h0 a"
  using assms
  unfolding MHA_forward_heap_def
  by (auto simp: Let_def alloc_def write_cell_def Dropout_heap4_def
      split: option.splits tval.splits sum.splits prod.splits if_splits)

lemma MHA_heap_result:
  assumes "cells h0 a_mask = Some (TMat (MHA.mask self))" and "cells h0 a_x = Some (T3 x)"
  shows "case MHA_forward_heap self a_mask keep a_x h0 of
           (Inl e, h) \<Rightarrow> MHA_forward self keep x = Inl e
         | (Inr r, h) \<Rightarrow> (\<exists>y. cells h r = Some (T3 y) \<and> MHA_forward self keep x = Inr y)"
proof (cases "MHA_checks self x")
  case False
  then show ?thesis
    using assms by (simp add: MHA_forward_heap_def MHA_forward_def)
next
  case True
  define H where "H = nat (MHA.num_heads self)"
  define hdim where "hdim = nat (MHA.head_dim self)"
  define g where "g = (\<lambda>X. collect (map (\<lambda>S. masked_fill S
        (slice2 (length X) (length X) (to_bool (MHA.mask self))) NInf)
        (map (\<lambda>(q, k). matmul_nt q k)
           (zip (split_heads H hdim (Linear_forward (MHA.W_query self) X))
                (split_heads H hdim (Linear_forward (MHA.W_key self) X))))))"
  define r where "r = (\<lambda>(bi::nat) Ss X. Linear_forward (MHA.out_proj self)
        (combine_heads (length X)
           (map (\<lambda>(S, V). matmul hdim S V)
              (zip Ss (split_heads H hdim (Linear_forward (MHA.W_value self) X))))))"
  have f1: "MHA_forward1 self keep = (\<lambda>bi X. case g X of Inl e \<Rightarrow> Inl e | Inr S \<Rightarrow> Inr (r bi S X))"
    by (intro ext) (simp add: MHA_forward1_def g_def r_def H_def hdim_def Let_def split: sum.splits)
  have pure: "MHA_forward self keep x =
        (case collect (map g x) of
           Inl e \<Rightarrow> Inl e
         | Inr Ss \<Rightarrow> Inr (map (\<lambda>(bi, (S, X)). r bi S X) (enumerate 0 (zip Ss x))))"
    using True by (simp add: MHA_forward_def f1 collect_map_split)
  have scores: "map (\<lambda>(Ss, X). collect (map (\<lambda>S. masked_fill S
                          (slice2 (length X) (length X) (to_bool (MHA.mask self))) NInf) Ss))
                 (zip (map (\<lambda>(qs, ks). map (\<lambda>(q, k). matmul_nt q k) (zip qs ks))
                         (zip (map (split_heads H hdim) (map (Linear_forward (MHA.W_query self)) x))
                              (map (split_heads H hdim) (map (Linear_forward (MHA.W_key self)) x))))
                      x)
               = map g x"
    by (simp add: g_def zip_map1 zip_map2 zip_same_conv_map o_def split_def)
  show ?thesis
  proof (cases "collect (map g x)")
    case (Inl e)
    then show ?thesis
      using assms True scores pure
      by (simp add: MHA_forward_heap_def Let_def alloc_def H_def hdim_def)
  next
    case (Inr filled)
    have len: "length filled = length x"
      using collect_length[OF Inr] by simp
    have res: "map (Linear_forward (MHA.out_proj self))
                 (map (\<lambda>(C, X). combine_heads (length X) C)
                    (zip (map (\<lambda>(Ss, Vs). map (\<lambda>(S, V). matmul hdim S V) (zip Ss Vs))
                            (zip filled (map (split_heads H hdim)
                                           (map (Linear_forward (MHA.W_value self)) x))))
                         x))
               = map (\<lambda>(bi, (S, X)). r bi S X) (enumerate 0 (zip filled x))"
      using len
      by (auto simp: list_eq_iff_nth_eq r_def nth_enumerate_eq)
    show ?thesis
      using assms True scores pure Inr res
      by (auto simp: MHA_forward_heap_def Let_def alloc_def H_def hdim_def
            write_cell_def Dropout_heap4_def split: prod.splits)
  qed
qed


lemma linear_state_keys:
  "k \<in> fst ` set (linear_state name L) \<Longrightarrow> k = name @ ''.weight'' \<or> k = name @ ''.bias''"
  by (auto simp: linear_state_def split: option.splits)

lemma mask_not_parameter_key: "''mask'' \<notin> fst ` set (linear_state name L)"
proof
  assume "''mask'' \<in> fst ` set (linear_state name L)"
  then have "''mask'' = name @ ''.weight'' \<or> ''mask'' = name @ ''.bias''"
    by (rule linear_state_keys)
  then have "length ''mask'' = length (name @ ''.weight'') \<or> length ''mask'' = length (name @ ''.bias'')"
    by metis
  then show False by simp
qed

lemma mask_not_in_named_parameters: "''mask'' \<notin> fst ` set (named_parameters m)"
  using mask_not_parameter_key by (auto simp: named_parameters_def)

lemma mask_not_in_MHA_named_parameters: "''mask'' \<notin> fst ` set (MHA_named_parameters m)"
  using mask_not_parameter_key by (auto simp: MHA_named_parameters_def)

lemma exp_sum_nz: "exp a + exp b \<noteq> (0::real)"
  using exp_gt_zero[of a] exp_gt_zero[of b] by linarith

text \<open>
  C7. The mask is state that neither the forward pass nor training changes. For the
  forward passes of \<open>CausalAttentionWithBuffer\<close> and of \<open>MHA\<close> on tensor objects: whatever
  the input and whether the pass returns or raises, the mask buffer, an object that
  existed before the pass, holds afterwards what it held before (the in-place
  \<open>masked_fill_\<close> overwrites the score tensor, which the pass allocated). And \<open>mask\<close> is
  not among the parameters of either class, so a training step, which replaces the values
  of parameters, leaves the buffers as they are.
\<close>

theorem forward_and_training_leave_mask:
  assumes "a_mask < next_free h"
  shows "cells (snd (CausalAttentionWithBuffer_forward_heap self a_mask keep a_x h)) a_mask
           = cells h a_mask \<and>
         cells (snd (MHA_forward_heap mha a_mask keep a_x h)) a_mask = cells h a_mask \<and>
         ''mask'' \<notin> fst ` set (named_parameters self) \<and>
         buffers (optimizer_step upd self) = buffers self \<and>
         ''mask'' \<notin> fst ` set (MHA_named_parameters mha) \<and>
         MHA_named_buffers (MHA_optimizer_step upd mha) = MHA_named_buffers mha"
  using CausalAttentionWithBuffer_frame[OF assms] MHA_frame[OF assms]
  by (simp add: mask_not_in_named_parameters mask_not_in_MHA_named_parameters
        optimizer_step_def MHA_optimizer_step_def MHA_named_buffers_def)

lemmas heap_eval = heap_ex_def CausalAttentionWithBuffer_forward_heap_def MHA_forward_heap_def
  alloc_def write_cell_def Dropout_heap_def Dropout_heap4_def

theorem forward_and_training_leave_mask_witness:
  "(0::nat) < next_free heap_ex \<and>
   cells (snd (CausalAttentionWithBuffer_forward_heap with_ex 0 keep_all 1 heap_ex)) 0
     = cells heap_ex 0 \<and>
   cells (snd (MHA_forward_heap mha_ex 0 keep_all 1 heap_ex)) 0 = cells heap_ex 0 \<and>
   ''mask'' \<notin> fst ` set (named_parameters with_ex) \<and>
   buffers (optimizer_step no_update with_ex) = buffers with_ex \<and>
   ''mask'' \<notin> fst ` set (MHA_named_parameters mha_ex) \<and>
   MHA_named_buffers (MHA_optimizer_step no_update mha_ex) = MHA_named_buffers mha_ex \<and>
   cells heap_ex 0 = Some (TMat (triu_ones 2))"
  using forward_and_training_leave_mask[of 0 heap_ex with_ex keep_all 1 mha_ex no_update]
  by (simp add: heap_ex_def)

text \<open>On the example store the passes return (the result is the tenth and the twelfth
  object) and the score tensor, the object at address \<open>5\<close>, holds the filled scores.\<close>

lemma masked_fill_writes_the_scores:
  "fst (CausalAttentionWithBuffer_forward_heap with_ex 0 keep_all 1 heap_ex) = Inr 9 \<and>
   cells (snd (CausalAttentionWithBuffer_forward_heap with_ex 0 keep_all 1 heap_ex)) 5
     = Some (T3 [[[Fin 1, NInf], [Fin 2, Fin 4]]]) \<and>
   fst (MHA_forward_heap mha_ex 0 keep_all 1 heap_ex) = Inr 11 \<and>
   cells (snd (MHA_forward_heap mha_ex 0 keep_all 1 heap_ex)) 5
     = Some (T4 [[[[Fin 1, NInf], [Fin 2, Fin 4]]]])"
  by (simp add: heap_eval ex_defs mha_ex_def eval_defs exp_sum_nz)

section \<open>Properties of the normalization layers\<close>

subsection \<open>Views of the entries of a tensor\<close>

lemma concat_concat_map: "concat (concat xss) = concat (map concat xss)"
  by (induction xss) simp_all

lemma index_bound:
  assumes "i < m" and "k < L"
  shows "i * L + k < m * (L::nat)"
proof -
  have "Suc i * L \<le> m * L"
    using assms(1) by (intro mult_le_mono1) simp
  then show ?thesis using assms(2) by simp
qed

lemma concat_uniform_length:
  assumes "\<And>j. j < m \<Longrightarrow> length (f j) = L"
  shows "length (concat (map f [0..<m])) = m * L"
  using assms by (induction m) simp_all

lemma concat_uniform_nth:
  assumes "\<And>j. j < m \<Longrightarrow> length (f j) = L" and "i < m" and "k < L"
  shows "concat (map f [0..<m]) ! (i * L + k) = f i ! k"
  using assms
proof (induction m)
  case 0
  then show ?case by simp
next
  case (Suc m)
  have len: "length (concat (map f [0..<m])) = m * L"
    using Suc.prems(1) by (intro concat_uniform_length) simp
  show ?case
  proof (cases "i < m")
    case True
    have "i * L + k < m * L"
      using True Suc.prems(3) by (rule index_bound)
    moreover have "concat (map f [0..<m]) ! (i * L + k) = f i ! k"
      using Suc.IH[OF _ True Suc.prems(3)] Suc.prems(1) by simp
    ultimately show ?thesis
      using len by (simp add: nth_append)
  next
    case False
    then have "i = m" using Suc.prems(2) by simp
    then show ?thesis using len by (simp add: nth_append)
  qed
qed

lemma take_drop_nth:
  assumes "i + n \<le> length d"
  shows "take n (drop i d) = map (\<lambda>k. d ! (i + k)) [0..<n]"
  using assms by (auto simp: list_eq_iff_nth_eq)

lemma enumerate_map_upt: "enumerate 0 (map g [0..<C]) = map (\<lambda>c. (c, g c)) [0..<C]"
  by (auto simp: list_eq_iff_nth_eq nth_enumerate_eq)

lemma broadcast_channel_view:
  "broadcast_channel f (map (\<lambda>b. map (\<lambda>c. r b c) [0..<C]) [0..<B]) v =
     map (\<lambda>b. map (\<lambda>c. map (\<lambda>e. f e (v ! c)) (r b c)) [0..<C]) [0..<B]"
  by (simp add: broadcast_channel_def enumerate_map_upt o_def)

lemma channel_values_view3:
  assumes "length d = B * C * n" and "c < C"
  shows "channel_values (view3 B C n d) c = channel_entries B C n d c"
proof -
  have bound: "(b * C + c) * n + n \<le> length d" if "b < B" for b
  proof -
    have "b * C + c < B * C" using that assms(2) by (rule index_bound)
    then have "Suc (b * C + c) * n \<le> B * C * n"
      by (intro mult_le_mono1) simp
    then show ?thesis using assms(1) by simp
  qed
  have "concat (map (\<lambda>b. take n (drop ((b * C + c) * n) d)) [0..<B]) =
        concat (map (\<lambda>b. map (\<lambda>k. d ! ((b * C + c) * n + k)) [0..<n]) [0..<B])"
    by (intro arg_cong[where f = concat] map_cong[OF refl]) (simp add: take_drop_nth bound)
  then show ?thesis
    using assms(2)
    by (simp add: channel_values_def view3_def channel_entries_def o_def)
qed

lemma batch_statistics_view3:
  assumes "length d = B * C * n"
  shows "batch_statistics (view3 B C n d) C =
           (map (\<lambda>c. mean_of (channel_entries B C n d c)) [0..<C],
            map (\<lambda>c. var_of (channel_entries B C n d c)) [0..<C])"
proof -
  have "map (\<lambda>c. h (channel_values (view3 B C n d) c)) [0..<C] =
        map (\<lambda>c. h (channel_entries B C n d c)) [0..<C]" for h :: "vec \<Rightarrow> fnum"
    by (intro map_cong[OF refl]) (simp add: channel_values_view3[OF assms])
  then show ?thesis
    by (simp add: batch_statistics_def Let_def var_of_def zip_map_map)
       (simp add: zip_same_conv_map o_def)
qed

lemma view3_rows:
  assumes "length d = B * C * n" and "b < B" and "c < C"
  shows "length (take n (drop ((b * C + c) * n) d)) = n"
proof -
  have "b * C + c < B * C" using assms(2,3) by (rule index_bound)
  then have "Suc (b * C + c) * n \<le> B * C * n"
    by (intro mult_le_mono1) simp
  then show ?thesis using assms(1) by simp
qed

lemma flatten_view3_nth:
  assumes "length d = B * C * n" and "b < B" and "c < C" and "k < n"
  shows "concat (concat (map (\<lambda>b. map (\<lambda>c. map (F c) (take n (drop ((b * C + c) * n) d)))
                                    [0..<C]) [0..<B])) ! ((b * C + c) * n + k)
           = F c (d ! ((b * C + c) * n + k))"
    and "length (concat (concat (map (\<lambda>b. map (\<lambda>c. map (F c) (take n (drop ((b * C + c) * n) d)))
                                    [0..<C]) [0..<B]))) = B * C * n"
proof -
  let ?row = "\<lambda>b c. map (F c) (take n (drop ((b * C + c) * n) d))"
  have rows: "length (?row b' c') = n" if "b' < B" "c' < C" for b' c'
    using view3_rows[OF assms(1) that] by simp
  have inner_len: "length (concat (map (?row b') [0..<C])) = C * n" if "b' < B" for b'
    by (rule concat_uniform_length) (rule rows[OF that])
  have cc: "concat (concat (map (\<lambda>b. map (?row b) [0..<C]) [0..<B]))
              = concat (map (\<lambda>b. concat (map (?row b) [0..<C])) [0..<B])"
    by (simp add: concat_concat_map o_def)
  have idx: "(b * C + c) * n + k = b * (C * n) + (c * n + k)"
    by (simp add: algebra_simps)
  have ck: "c * n + k < C * n" using assms(3,4) by (rule index_bound)
  have "concat (map (\<lambda>b. concat (map (?row b) [0..<C])) [0..<B]) ! (b * (C * n) + (c * n + k))
          = concat (map (?row b) [0..<C]) ! (c * n + k)"
  proof (rule concat_uniform_nth)
    show "length (concat (map (?row j) [0..<C])) = C * n" if "j < B" for j
      by (rule inner_len[OF that])
  qed (use assms(2) ck in simp_all)
  also have "\<dots> = ?row b c ! k"
  proof (rule concat_uniform_nth)
    show "length (?row b j) = n" if "j < C" for j
      by (rule rows[OF assms(2) that])
  qed (use assms in simp_all)
  also have "\<dots> = F c (d ! ((b * C + c) * n + k))"
    using view3_rows[OF assms(1-3)] assms(4) by simp
  finally show "concat (concat (map (\<lambda>b. map (?row b) [0..<C]) [0..<B])) ! ((b * C + c) * n + k)
           = F c (d ! ((b * C + c) * n + k))"
    by (simp add: cc idx)
  have "length (concat (map (\<lambda>b. concat (map (?row b) [0..<C])) [0..<B])) = B * (C * n)"
    by (rule concat_uniform_length) (rule inner_len)
  then show "length (concat (concat (map (\<lambda>b. map (?row b) [0..<C]) [0..<B]))) = B * C * n"
    by (simp add: cc)
qed


lemma BatchNorm_stats_result:
  assumes "track_running_stats self \<longrightarrow> exp_mean self = Some em \<and> exp_var self = Some ev \<and>
             length em = C \<and> length ev = C"
  shows "\<exists>self'. BatchNorm_stats self x3 C =
           Inr (if BatchNorm.training self \<or> \<not> track_running_stats self
                then batch_statistics x3 C else (em, ev), self')"
  using assms
  by (cases "batch_statistics x3 C") (auto simp: BatchNorm_stats_def)

lemma BatchNorm_affine_result:
  assumes "affine self \<longrightarrow> scale self = Some sc \<and> shift self = Some sh \<and>
             length sc = C \<and> length sh = C"
  shows "BatchNorm_affine self C x_norm =
           Inr (if affine self
                then broadcast_channel add32 (broadcast_channel (\<lambda>e g. mul32 g e) x_norm sc) sh
                else x_norm)"
  using assms by (auto simp: BatchNorm_affine_def)

subsection \<open>Layouts that view can merge\<close>

text \<open>Dimensions that satisfy the condition of the documentation one after the other
  satisfy it when those of size one are passed over, and the dimensions of a contiguous
  tensor satisfy it: \<open>view\<close> merges the dimensions after the second of every contiguous
  input.\<close>

lemma mergeable_tail: "mergeable (d # ds) \<Longrightarrow> mergeable ds"
  by (cases d; cases ds) auto

lemma mergeable_head: "mergeable ((n, s) # ds) \<Longrightarrow> mergeable ((m, s) # ds)"
  by (cases ds) auto

lemma mergeable_filter_tail:
  "mergeable ((n, s) # ds) \<Longrightarrow> mergeable ((n, s) # filter (\<lambda>(n, s). n \<noteq> 1) ds)"
proof (induction ds arbitrary: n s)
  case Nil
  then show ?case by simp
next
  case (Cons d ds)
  obtain n' s' where d: "d = (n', s')" by (cases d)
  from Cons.prems d have s: "s = s' * n'" and tl: "mergeable ((n', s') # ds)" by simp_all
  have kept: "mergeable ((n', s') # filter (\<lambda>(n, s). n \<noteq> 1) ds)"
    by (rule Cons.IH[OF tl])
  show ?case
  proof (cases "n' = 1")
    case True
    then show ?thesis using s d mergeable_head[OF kept, of n] by simp
  next
    case False
    then show ?thesis using s d kept by simp
  qed
qed

lemma mergeable_filter: "mergeable ds \<Longrightarrow> mergeable (filter (\<lambda>(n, s). n \<noteq> 1) ds)"
proof (induction ds)
  case Nil
  then show ?case by simp
next
  case (Cons d ds)
  obtain n s where d: "d = (n, s)" by (cases d)
  show ?case
  proof (cases "n = 1")
    case True
    then show ?thesis using Cons.IH[OF mergeable_tail[OF Cons.prems]] d by simp
  next
    case False
    then show ?thesis using mergeable_filter_tail[of n s ds] Cons.prems d by simp
  qed
qed

lemma contiguous_mergeable: "0 \<notin> set ns \<Longrightarrow> mergeable (zip ns (contiguous_strides ns))"
proof (induction ns)
  case Nil
  then show ?case by simp
next
  case (Cons n ns)
  then show ?case by (cases ns) (simp_all add: max_def)
qed

lemma contiguous_view_merges:
  "view_merges rest (drop 2 (contiguous_strides (B # C # rest)))"
proof (cases "0 \<in> set rest")
  case True
  then show ?thesis by (simp add: view_merges_def prod_list_zero_iff)
next
  case False
  from mergeable_filter[OF contiguous_mergeable[OF this]] show ?thesis
    by (simp add: view_merges_def)
qed

text \<open>
  C8. The claim: for every input of shape \<open>(batch_size, channels, ...)\<close> the pass
  normalizes with the statistics its mode selects and returns a tensor of the shape of the
  input. For an empty batch the pass returns nothing: \<open>x.view(batch_size, channels, -1)\<close>
  cannot infer the last size of a tensor without entries and raises RuntimeError. The
  layer below is \<open>BatchNorm(3)\<close> as constructed, the input a tensor of shape \<open>(0, 3)\<close>.
\<close>

theorem BatchNorm_forward_empty_batch:
  "BatchNorm_init 3 (1 / 100000) (1 / 10) True True = Inr bn3_ex \<and>
   well_formed \<lparr>shape = [0, 3], data = [], strides = [3, 1]\<rparr> \<and>
   BatchNorm_forward bn3_ex \<lparr>shape = [0, 3], data = [], strides = [3, 1]\<rparr> = Inl RuntimeError"
  by (simp add: BatchNorm_init_def bn3_ex_def well_formed_def BatchNorm_forward_def
        numeral_3_eq_3)

text \<open>The same line raises on a batch with entries whose dimensions after the second do
  not lie in memory as one: here a batch of one image of one channel, transposed.\<close>

lemma BatchNorm_forward_transposed:
  "well_formed x_transposed \<and> BatchNorm_forward bn_ex x_transposed = Inl RuntimeError"
  by (simp add: x_transposed_def bn_ex_def well_formed_def BatchNorm_forward_def
        view_merges_def)

text \<open>On an input of two or more dimensions that passes the assertion and has entries in
  its first two dimensions, the pass raises whenever \<open>view\<close> cannot merge the dimensions
  after the second.\<close>

lemma BatchNorm_forward_view_raises:
  assumes "shape x = B # C # rest" and "channels self = int C"
    and "\<not> view_merges rest (drop 2 (strides x))"
  shows "BatchNorm_forward self x = Inl RuntimeError"
  using assms by (simp add: BatchNorm_forward_def)

text \<open>
  C8, as the code has it. For a well-formed input of shape \<open>(B, C, ...)\<close> with \<open>B > 0\<close> and
  \<open>C = channels > 0\<close> whose dimensions after the second \<open>view\<close> can merge (every contiguous
  input), and a layer holding the vectors its flags promise (running statistics \<open>em\<close>,
  \<open>ev\<close> when it tracks them, \<open>scale\<close> and \<open>shift\<close> when it is affine, each of \<open>C\<close>
  entries): the pass returns a tensor of the shape and the number of entries of the input,
  and its entry at position \<open>(b, c, k)\<close> is the input's entry there, normalized with the
  mean and variance of channel \<open>c\<close> and then scaled and shifted if the layer is affine. In
  training mode, or when the layer tracks no running statistics, mean and variance are
  those of the entries of channel \<open>c\<close> over the batch and the spatial dimensions, the
  variance computed as \<open>E[x\<^sup>2] - (E[x])\<^sup>2\<close>; in evaluation mode with tracking they are
  the stored \<open>exp_mean\<close> and \<open>exp_var\<close>. Every operation is the one of float32.
\<close>

theorem BatchNorm_forward_statistics:
  assumes "shape x = B # C # rest" and "well_formed x" and "channels self = int C"
    and "0 < B" and "0 < C" and "view_merges rest (drop 2 (strides x))"
    and "track_running_stats self \<longrightarrow> exp_mean self = Some em \<and> exp_var self = Some ev \<and>
             length em = C \<and> length ev = C"
    and "affine self \<longrightarrow> scale self = Some sc \<and> shift self = Some sh \<and>
             length sc = C \<and> length sh = C"
  shows "\<exists>y self'. BatchNorm_forward self x = Inr (y, self') \<and>
           shape y = shape x \<and> length (data y) = length (data x) \<and>
           (\<forall>b<B. \<forall>c<C. \<forall>k<prod_list rest.
              data y ! ((b * C + c) * prod_list rest + k) =
                normalized_entry self
                  (if BatchNorm.training self \<or> \<not> track_running_stats self
                   then map (\<lambda>c. mean_of (channel_entries B C (prod_list rest) (data x) c)) [0..<C]
                   else em)
                  (if BatchNorm.training self \<or> \<not> track_running_stats self
                   then map (\<lambda>c. var_of (channel_entries B C (prod_list rest) (data x) c)) [0..<C]
                   else ev)
                  c (data x ! ((b * C + c) * prod_list rest + k)))"
proof -
  define n where "n = prod_list rest"
  define d where "d = data x"
  define mean where "mean = (if BatchNorm.training self \<or> \<not> track_running_stats self
                   then map (\<lambda>c. mean_of (channel_entries B C n d c)) [0..<C] else em)"
  define var where "var = (if BatchNorm.training self \<or> \<not> track_running_stats self
                   then map (\<lambda>c. var_of (channel_entries B C n d c)) [0..<C] else ev)"
  define G where "G = (\<lambda>c e. let z = div32 (sub32 e (mean ! c))
                           (map (\<lambda>v. sqrt32 (add32 v (round32 (BatchNorm.eps self)))) var ! c)
                        in if affine self then add32 (mul32 (sc ! c) z) (sh ! c) else z)"
  have len: "length d = B * C * n"
    using assms(1,2) by (simp add: well_formed_def d_def n_def)
  have lenmv: "length mean = C" "length var = C"
    using assms(7) by (auto simp: mean_def var_def)
  obtain self' where stats:
    "BatchNorm_stats self (view3 B C n d) C = Inr ((mean, var), self')"
    using BatchNorm_stats_result[OF assms(7), of "view3 B C n d"]
    by (auto simp: mean_def var_def batch_statistics_view3[OF len])
  have norm: "broadcast_channel div32 (broadcast_channel sub32 (view3 B C n d) mean)
                (map (\<lambda>v. sqrt32 (add32 v (round32 (BatchNorm.eps self)))) var)
              = map (\<lambda>b. map (\<lambda>c. map (\<lambda>e. div32 (sub32 e (mean ! c))
                     (map (\<lambda>v. sqrt32 (add32 v (round32 (BatchNorm.eps self)))) var ! c))
                   (take n (drop ((b * C + c) * n) d))) [0..<C]) [0..<B]"
    by (simp add: view3_def broadcast_channel_view o_def)
  have out: "(if affine self
              then broadcast_channel add32 (broadcast_channel (\<lambda>e g. mul32 g e)
                     (broadcast_channel div32 (broadcast_channel sub32 (view3 B C n d) mean)
                        (map (\<lambda>v. sqrt32 (add32 v (round32 (BatchNorm.eps self)))) var)) sc) sh
              else broadcast_channel div32 (broadcast_channel sub32 (view3 B C n d) mean)
                        (map (\<lambda>v. sqrt32 (add32 v (round32 (BatchNorm.eps self)))) var))
           = map (\<lambda>b. map (\<lambda>c. map (G c) (take n (drop ((b * C + c) * n) d))) [0..<C]) [0..<B]"
    unfolding norm by (simp add: broadcast_channel_view o_def G_def Let_def)
  define y where "y = \<lparr>shape = shape x,
     data = concat (concat (map (\<lambda>b. map (\<lambda>c. map (G c) (take n (drop ((b * C + c) * n) d)))
                                        [0..<C]) [0..<B]))\<rparr>"
  have fw: "BatchNorm_forward self x = Inr (y, self')"
    using assms(1,3,4,5,6) stats BatchNorm_affine_result[OF assms(8)] out
    by (simp add: BatchNorm_forward_def Let_def and_then_def y_def n_def[symmetric] d_def[symmetric]
          split: if_splits)
  have ent: "data y ! ((b * C + c) * n + k) = normalized_entry self mean var c (d ! ((b * C + c) * n + k))"
    if "b < B" "c < C" "k < n" for b c k
  proof -
    have "data y ! ((b * C + c) * n + k) = G c (d ! ((b * C + c) * n + k))"
      unfolding y_def using flatten_view3_nth(1)[OF len that, of G] by simp
    also have "\<dots> = normalized_entry self mean var c (d ! ((b * C + c) * n + k))"
      using that(2) lenmv assms(8) by (simp add: G_def normalized_entry_def Let_def)
    finally show ?thesis .
  qed
  have "length (data y) = length d"
    unfolding y_def using flatten_view3_nth(2)[OF len, of 0 0 0 G] assms(4,5) len
    by (cases "n = 0") simp_all
  then show ?thesis
    using fw ent
    by (auto simp: y_def mean_def var_def n_def d_def intro!: exI[of _ y] exI[of _ self'])
qed

theorem BatchNorm_forward_statistics_witness:
  "\<exists>y self'. BatchNorm_forward bn_ex x_bn = Inr (y, self') \<and>
     shape y = shape x_bn \<and> length (data y) = length (data x_bn) \<and>
     (\<forall>b<2. \<forall>c<1. \<forall>k<prod_list [1].
        data y ! ((b * 1 + c) * prod_list [1] + k) =
          normalized_entry bn_ex
            (if BatchNorm.training bn_ex \<or> \<not> track_running_stats bn_ex
             then map (\<lambda>c. mean_of (channel_entries 2 1 (prod_list [1]) (data x_bn) c)) [0..<1]
             else [Fin 0])
            (if BatchNorm.training bn_ex \<or> \<not> track_running_stats bn_ex
             then map (\<lambda>c. var_of (channel_entries 2 1 (prod_list [1]) (data x_bn) c)) [0..<1]
             else [Fin 1])
            c (data x_bn ! ((b * 1 + c) * prod_list [1] + k)))"
  using BatchNorm_forward_statistics[of x_bn 2 1 "[1]" bn_ex "[Fin 0]" "[Fin 1]" "[Fin 1]" "[Fin 0]"]
  by (simp add: x_bn_def bn_ex_def well_formed_def view_merges_def)

text \<open>On this input the mean is \<open>2\<close> and the variance \<open>1\<close>; with \<open>eps = 3\<close> the pass returns
  \<open>(1 - 2) / sqrt (1 + 3)\<close> and \<open>(3 - 2) / sqrt (1 + 3)\<close>, and the running mean moves from
  \<open>0\<close> to \<open>1\<close>.\<close>

lemmas round_defs = round32_def exponent_def pow2_def round_even_def bits.simps
  add32_def sub32_def mul32_def div32_def sqrt32_def

lemma bn_ex_steps:
  "mean_of [Fin 1, Fin 3] = Fin 2 \<and> mean_of [Fin 1, Fin 9] = Fin 5 \<and>
   mul32 (Fin 1) (Fin 1) = Fin 1 \<and> mul32 (Fin 3) (Fin 3) = Fin 9 \<and>
   mul32 (Fin 2) (Fin 2) = Fin 4 \<and> sub32 (Fin 5) (Fin 4) = Fin 1 \<and>
   sqrt32 (add32 (Fin 1) (round32 3)) = Fin 2 \<and>
   div32 (sub32 (Fin 1) (Fin 2)) (Fin 2) = Fin (- (1 / 2)) \<and>
   div32 (sub32 (Fin 3) (Fin 2)) (Fin 2) = Fin (1 / 2) \<and>
   add32 (mul32 (Fin 1) (Fin (- (1 / 2)))) (Fin 0) = Fin (- (1 / 2)) \<and>
   add32 (mul32 (Fin 1) (Fin (1 / 2))) (Fin 0) = Fin (1 / 2) \<and>
   moving_average (1 / 2) [Fin 0] [Fin 2] = [Fin 1] \<and>
   moving_average (1 / 2) [Fin 1] [Fin 1] = [Fin 1]"
  by (simp add: mean_of_def sum32_def fsub_def moving_average_def round_defs)

lemma BatchNorm_forward_example:
  "BatchNorm_forward bn_ex x_bn =
     Inr (\<lparr>shape = [2, 1, 1], data = [Fin (- (1 / 2)), Fin (1 / 2)]\<rparr>,
          bn_ex\<lparr>exp_mean := Some [Fin 1], exp_var := Some [Fin 1]\<rparr>)"
  by (simp add: bn_ex_def x_bn_def BatchNorm_forward_def BatchNorm_stats_def BatchNorm_affine_def
        batch_statistics_def view3_def channel_values_def broadcast_channel_def
        and_then_def enumerate_eq_zip view_merges_def upt_rec bn_ex_steps)

subsection \<open>The rounding\<close>

text \<open>The exponent found by counting binary digits is the exponent of the number, and the
  rounded multiple of the spacing is a nearest one.\<close>

lemma bits_bounds: "0 < n \<Longrightarrow> 2 ^ (bits n - 1) \<le> n \<and> n < 2 ^ bits n"
proof (induction n rule: bits.induct)
  case (1 n)
  show ?case
  proof (cases "n div 2 = 0")
    case True
    with 1(2) have "n = 1" by (simp add: div_eq_0_iff) 
    then show ?thesis by (simp add: bits.simps)
  next
    case False
    then have h: "0 < n div 2" by simp
    from 1(1)[OF _ h] 1(2) have ih: "2 ^ (bits (n div 2) - 1) \<le> n div 2" "n div 2 < 2 ^ bits (n div 2)"
      by simp_all
    have pos: "0 < bits (n div 2)" using h by (simp add: bits.simps[of "n div 2"])
    have b: "bits n = Suc (bits (n div 2))" using 1(2) by (simp add: bits.simps[of n])
    have "(2::nat) ^ bits (n div 2) = 2 * 2 ^ (bits (n div 2) - 1)"
      using pos by (cases "bits (n div 2)") simp_all
    then have lo: "(2::nat) ^ bits (n div 2) \<le> n" using ih(1) by linarith
    have hi: "n < 2 * 2 ^ bits (n div 2)" using ih(2) by linarith
    show ?thesis using lo hi b by simp
  qed
qed

lemma real_pow2_le: "(2::nat) ^ k \<le> n \<Longrightarrow> (2::real) ^ k \<le> real n"
  by (metis of_nat_le_iff of_nat_numeral of_nat_power)

lemma real_le_pow2: "n \<le> (2::nat) ^ k \<Longrightarrow> real n \<le> (2::real) ^ k"
  by (metis of_nat_le_iff of_nat_numeral of_nat_power)

lemma exponent_bounds:
  assumes "0 < a"
  shows "pow2 (exponent a) \<le> a \<and> a < pow2 (exponent a + 1)"
proof (cases "1 \<le> a")
  case True
  define n where "n = nat \<lfloor>a\<rfloor>"
  have n: "0 < n" "real n \<le> a" "a < real n + 1"
    using True by (simp_all add: n_def)
  from bits_bounds[OF n(1)] have b: "2 ^ (bits n - 1) \<le> n" "n < 2 ^ bits n" by simp_all
  have pos: "0 < bits n" using n(1) by (simp add: bits.simps[of n])
  have e: "exponent a = int (bits n) - 1" using True by (simp add: exponent_def n_def)
  have lo: "2 ^ (bits n - 1) \<le> a" using real_pow2_le[OF b(1)] n(2) by linarith
  have "n + 1 \<le> 2 ^ bits n" using b(2) by simp
  then have "real (n + 1) \<le> 2 ^ bits n" by (rule real_le_pow2)
  then have hi: "a < 2 ^ bits n" using n(3) by simp
  have "nat (int (bits n) - 1) = bits n - 1" by simp
  then show ?thesis using lo hi pos by (simp add: e pow2_def)
next
  case False
  define q where "q = 1 / a"
  define m where "m = nat \<lceil>q\<rceil> - 1"
  have q1: "1 < q" using False assms by (simp add: q_def)
  then have c2: "2 \<le> \<lceil>q\<rceil>" by linarith
  have m: "0 < m" "real m < q" "q \<le> real m + 1"
    using c2 by (simp_all add: m_def) linarith+
  from bits_bounds[OF m(1)] have b: "2 ^ (bits m - 1) \<le> m" "m < 2 ^ bits m" by simp_all
  have pos: "0 < bits m" using m(1) by (simp add: bits.simps[of m])
  have e: "exponent a = - int (bits m)" using False by (simp add: exponent_def m_def q_def)
  have "m + 1 \<le> 2 ^ bits m" using b(2) by simp
  then have "real (m + 1) \<le> 2 ^ bits m" by (rule real_le_pow2)
  then have "q \<le> 2 ^ bits m" using m(3) by simp
  then have lo: "1 / 2 ^ bits m \<le> a" using assms by (simp add: q_def field_simps)
  have "2 ^ (bits m - 1) < q" using real_pow2_le[OF b(1)] m(2) by linarith
  then have hi: "a < 1 / 2 ^ (bits m - 1)" using assms by (simp add: q_def field_simps)
  have n1: "nat (int (bits m) - 1) = bits m - 1" by simp
  show ?thesis
  proof (cases "bits m = 1")
    case True
    then show ?thesis using lo hi by (simp add: e pow2_def)
  next
    case False
    then have "1 < bits m" using pos by simp
    then show ?thesis using lo hi n1 by (simp add: e pow2_def)
  qed
qed

lemma round_even_nearest: "\<bar>real_of_int (round_even q) - q\<bar> \<le> 1 / 2"
  by (simp add: round_even_def Let_def)

subsection \<open>The variance in float32\<close>

text \<open>Over the reals the mean of the squares is never less than the square of the
  mean.\<close>

lemma sum_sq_dev:
  "sum_list (map (\<lambda>r. (r - m) * (r - m)) rs) =
     sum_list (map (\<lambda>r. r * r) rs) - 2 * m * sum_list rs + real (length rs) * (m * m)"
  for m :: real
  by (induction rs) (simp_all add: algebra_simps)

lemma mean_sq_ge_sq_mean:
  assumes "rs \<noteq> []"
  shows "(sum_list rs / real (length rs)) * (sum_list rs / real (length rs))
           \<le> sum_list (map (\<lambda>r. r * r) rs) / real (length rs)" (is "?m * ?m \<le> _")
proof -
  have n: "0 < real (length rs)" using assms by simp
  have "0 \<le> sum_list (map (\<lambda>r. (r - ?m) * (r - ?m)) rs)"
    by (rule sum_list_nonneg) auto
  also have "\<dots> = sum_list (map (\<lambda>r. r * r) rs) - 2 * ?m * sum_list rs + real (length rs) * (?m * ?m)"
    by (rule sum_sq_dev)
  also have "\<dots> = sum_list (map (\<lambda>r. r * r) rs) - real (length rs) * (?m * ?m)"
    using n by (simp add: field_simps)
  finally have "real (length rs) * (?m * ?m) \<le> sum_list (map (\<lambda>r. r * r) rs)" by simp
  then show ?thesis using n by (simp add: field_simps)
qed

text \<open>In float32 each of the two means is rounded before they are subtracted. The
  numbers \<open>4097\<close> and \<open>4097.5\<close> are float32 numbers. Their squares round to \<open>16785408\<close> and
  \<open>16789506\<close>, the sum of these to \<open>33574912\<close>, so the mean of the squares is
  \<open>16787456\<close>; their mean is \<open>4097.25\<close>, whose square \<open>16787457.5625\<close> rounds to
  \<open>16787458\<close>. The difference is \<open>-2\<close>, and with \<open>eps = 1e-5\<close> added it stays
  negative.\<close>

lemma not_a_number_32:
  "div32 x NaN = NaN" "mul32 x NaN = NaN" "add32 NaN x = NaN"
  by (cases x; simp add: div32_def mul32_def add32_def)+

lemma float32_steps:
  "round32 4097 = Fin 4097 \<and> round32 (8195 / 2) = Fin (8195 / 2) \<and>
   mul32 (Fin 4097) (Fin 4097) = Fin 16785408 \<and>
   mul32 (Fin (8195 / 2)) (Fin (8195 / 2)) = Fin 16789506 \<and>
   add32 (Fin 16785408) (Fin 16789506) = Fin 33574912 \<and>
   mean_of [Fin 16785408, Fin 16789506] = Fin 16787456 \<and>
   mean_of [Fin 4097, Fin (8195 / 2)] = Fin (16389 / 4) \<and>
   mul32 (Fin (16389 / 4)) (Fin (16389 / 4)) = Fin 16787458 \<and>
   sub32 (Fin 16787456) (Fin 16787458) = Fin (- 2) \<and>
   add32 (Fin (- 2)) (round32 (1 / 100000)) = Fin (- (4194283 / 2097152)) \<and>
   sqrt32 (Fin (- (4194283 / 2097152))) = NaN"
  by (simp add: mean_of_def sum32_def fsub_def round_defs)

lemma group_statistics_close:
  "group_statistics [Fin 4097, Fin (8195 / 2)] = (Fin (16389 / 4), Fin (- 2))"
  by (simp add: group_statistics_def float32_steps)

lemma batch_statistics_close:
  "batch_statistics (view3 2 1 1 (data x_close_batch)) 1 = ([Fin (16389 / 4)], [Fin (- 2)])"
  by (simp add: x_close_batch_def batch_statistics_def view3_def channel_values_def upt_rec
        float32_steps)

text \<open>A group without entries and a group with an infinite entry have no variance: the
  mean of nothing is \<open>0 / 0\<close>, and \<open>inf - inf\<close> is not a number. A tensor of shape \<open>(1, 0)\<close>
  passes the assertion of \<open>LayerNorm([0])\<close>.\<close>

lemma group_statistics_not_a_number:
  "normalized_shape ln_empty
     = map int (shape_suffix (length (normalized_shape ln_empty)) [1, 0]) \<and>
   LayerNorm_groups ln_empty \<lparr>shape = [1, 0], data = []\<rparr> = [[]] \<and>
   group_statistics [] = (NaN, NaN) \<and>
   group_statistics [Fin 1, PInf] = (PInf, NaN)"
  by (simp add: ln_empty_def shape_suffix_def LayerNorm_groups_def groups_def
        group_statistics_def mean_of_def sum32_def fsub_def Let_def round_defs)

text \<open>
  C10. The claim: for every input that passes the shape assertion the variance
  \<open>E[x\<^sup>2] - (E[x])\<^sup>2\<close> is not negative, so with \<open>eps > 0\<close> the divisor
  \<open>sqrt (var + eps)\<close> is positive. On the float32 numbers \<open>4097\<close> and \<open>4097.5\<close> the
  variance both layers compute is \<open>-2\<close>, where the variance of the two numbers is \<open>1/16\<close>:
  the two means are rounded to the spacing \<open>2\<close> of float32 near \<open>2\<^sup>2\<^sup>4\<close> before they are
  subtracted. With the \<open>eps = 1e-5\<close> of the constructors \<open>var + eps\<close> is negative, its
  square root is not a number, and neither is any entry the pass returns. The layers are
  \<open>LayerNorm([2])\<close> on the row \<open>(4097, 4097.5)\<close> and \<open>BatchNorm(1)\<close>, as constructed, on the
  contiguous batch of the same two entries.
\<close>

theorem variance_negative_in_float32:
  "map fround (data x_close) = data x_close \<and> well_formed x_close \<and>
   well_formed x_close_batch \<and> data x_close_batch = data x_close \<and>
   group_statistics [Fin 4097, Fin (8195 / 2)] = (Fin (16389 / 4), Fin (- 2)) \<and>
   sqrt32 (add32 (Fin (- 2)) (round32 (LayerNorm.eps ln2_ex))) = NaN \<and>
   LayerNorm_forward ln2_ex x_close = Inr \<lparr>shape = [1, 2], data = [NaN, NaN]\<rparr> \<and>
   BatchNorm_init 1 (1 / 100000) (1 / 10) True True = Inr bn1_ex \<and>
   strides x_close_batch = contiguous_strides (shape x_close_batch) \<and>
   batch_statistics (view3 2 1 1 (data x_close_batch)) 1 = ([Fin (16389 / 4)], [Fin (- 2)]) \<and>
   (\<exists>self'. BatchNorm_forward bn1_ex x_close_batch =
              Inr (\<lparr>shape = [2, 1], data = [NaN, NaN]\<rparr>, self'))"
proof -
  have ln: "LayerNorm_forward ln2_ex x_close = Inr \<lparr>shape = [1, 2], data = [NaN, NaN]\<rparr>"
    by (simp add: ln2_ex_def x_close_def shape_suffix_def LayerNorm_forward_def
          LayerNorm_groups_def groups_def LayerNorm_group_def LayerNorm_affine_def
          group_statistics_close and_then_def enumerate_eq_zip upt_rec float32_steps
          not_a_number_32)
  have init: "BatchNorm_init 1 (1 / 100000) (1 / 10) True True = Inr bn1_ex"
    by (simp add: BatchNorm_init_def bn1_ex_def)
  have lay: "strides x_close_batch = contiguous_strides (shape x_close_batch)"
    by (simp add: x_close_batch_def)
  have bn: "\<exists>self'. BatchNorm_forward bn1_ex x_close_batch =
              Inr (\<lparr>shape = [2, 1], data = [NaN, NaN]\<rparr>, self')"
    using batch_statistics_close
    by (simp add: bn1_ex_def x_close_batch_def BatchNorm_forward_def BatchNorm_stats_def
          BatchNorm_affine_def view3_def broadcast_channel_def view_merges_def
          and_then_def enumerate_eq_zip upt_rec float32_steps not_a_number_32)
  have inp: "map fround (data x_close) = data x_close" "well_formed x_close"
    "well_formed x_close_batch" "data x_close_batch = data x_close"
    by (simp_all add: x_close_def x_close_batch_def well_formed_def float32_steps)
  have dv: "sqrt32 (add32 (Fin (- 2)) (round32 (LayerNorm.eps ln2_ex))) = NaN"
    by (simp add: ln2_ex_def float32_steps)
  show ?thesis
    using inp group_statistics_close dv ln init lay batch_statistics_close bn by simp
qed

section \<open>Causality of the classes that multiply the attention weights\<close>

text \<open>
  The two classes of the buffers notebook and MultiHeadAttentionCombinedQKV multiply the
  softmax weights with the values. On finite numbers, with dropout that does nothing, each
  of them returns at position \<open>i\<close> the attention row of the tokens \<open>0..i\<close>, so a later
  token has no influence on it. Finite values are computed as exact reals here.
\<close>

subsection \<open>Finite numbers\<close>

lemma fsum_Fin: "fsum (map Fin rs) = Fin (sum_list rs)"
  by (induction rs) (simp_all add: fsum_def)

lemma finite_vec: "list_all is_fin xs \<Longrightarrow> xs = map Fin (map fin_val xs)"
proof (induction xs)
  case Nil
  then show ?case by simp
next
  case (Cons x xs)
  then show ?case by (cases x) simp_all
qed

lemma is_fin_conv: "is_fin x \<longleftrightarrow> (\<exists>r. x = Fin r)"
  by (cases x) simp_all

lemma fsum_Fin_map: "fsum (map (\<lambda>x. Fin (f x)) xs) = Fin (sum_list (map f xs))"
  by (induction xs) (simp_all add: fsum_def)

lemma dot_finite:
  assumes "list_all is_fin a" and "list_all is_fin b"
  shows "is_fin (dot a b)"
proof -
  have "a = map Fin (map fin_val a)" "b = map Fin (map fin_val b)"
    using assms finite_vec by auto
  then obtain ra rb where ab: "a = map Fin ra" "b = map Fin rb" by blast
  have "map2 fmul (map Fin ra) (map Fin rb) = map (\<lambda>p. Fin (fst p * snd p)) (zip ra rb)"
    by (simp add: zip_map_map split_def)
  then show ?thesis
    unfolding dot_def ab by (simp only: fsum_Fin_map is_fin.simps)
qed

lemma fadd_finite: "is_fin x \<Longrightarrow> is_fin y \<Longrightarrow> is_fin (fadd x y)"
  by (cases x; cases y) simp_all

lemma fdiv_finite: "is_fin x \<Longrightarrow> 0 < cr \<Longrightarrow> is_fin (fdiv x (Fin cr))"
  by (cases x) simp_all

lemma Linear_row_finite:
  assumes "linear_finite L" and "list_all is_fin row"
  shows "list_all is_fin (Linear_row L row)" and "length (Linear_row L row) = out_features L"
proof -
  have d: "list_all is_fin (map (dot row) (weight L))"
    using assms by (auto simp: linear_finite_def list_all_iff intro!: dot_finite)
  show "list_all is_fin (Linear_row L row)"
  proof (cases "linear.bias L")
    case None
    then show ?thesis using d by (simp add: Linear_row_def)
  next
    case (Some b)
    then have "list_all is_fin b" using assms(1) by (simp add: linear_finite_def)
    then show ?thesis
      using d Some
      by (auto simp: Linear_row_def list_all_iff set_zip intro!: fadd_finite)
  qed
  show "length (Linear_row L row) = out_features L"
    using assms(1)
    by (auto simp: Linear_row_def linear_finite_def out_features_def split: option.splits)
qed

lemma Linear_forward_finite:
  assumes "linear_finite L" and "list_all (list_all is_fin) X"
  shows "list_all (list_all is_fin) (Linear_forward L X)"
    and "\<And>v. v \<in> set (Linear_forward L X) \<Longrightarrow> length v = out_features L"
  using assms Linear_row_finite[OF assms(1)]
  by (auto simp: Linear_forward_def list_all_iff)

subsection \<open>A masked position weighs nothing\<close>

lemma fsum_append_zeros: "fsum (xs @ replicate m (Fin 0)) = fsum xs"
proof -
  have "foldr fadd (replicate m (Fin 0)) (Fin 0) = Fin 0"
    by (induction m) simp_all
  then show ?thesis by (simp add: fsum_def)
qed

lemma softmax_masked_tail:
  assumes "list_all is_fin a" and "a \<noteq> []"
  shows "softmax (a @ replicate m NInf) = softmax a @ replicate m (Fin 0)"
    and "list_all is_fin (softmax a)"
proof -
  obtain ra where a: "a = map Fin ra"
    using assms(1) finite_vec by blast
  have ne: "ra \<noteq> []" using assms(2) a by auto
  have pos: "0 < sum_list (map exp ra)"
  proof (cases ra)
    case Nil
    then show ?thesis using ne by simp
  next
    case (Cons r rs)
    have "0 \<le> sum_list (map exp rs)" by (rule sum_list_nonneg) auto
    then show ?thesis using Cons by (simp add: add_pos_nonneg)
  qed
  have s: "fsum (map fexp (map Fin ra @ replicate m NInf)) = Fin (sum_list (map exp ra))"
    by (simp add: o_def fsum_append_zeros fsum_Fin_map)
  have s0: "fsum (map fexp (map Fin ra)) = Fin (sum_list (map exp ra))"
    by (simp add: o_def fsum_Fin_map)
  show "softmax (a @ replicate m NInf) = softmax a @ replicate m (Fin 0)"
    unfolding softmax_def Let_def a s s0 using pos by simp
  show "list_all is_fin (softmax a)"
    unfolding softmax_def Let_def a s0 using pos by (simp add: list_all_iff)
qed

lemma dot_zero_tail:
  assumes "list_all is_fin w" and "list_all is_fin col" and "length col = length w + m"
  shows "dot (w @ replicate m (Fin 0)) col = dot w (take (length w) col)"
proof -
  define c1 where "c1 = take (length w) col"
  define c2 where "c2 = drop (length w) col"
  have col: "col = c1 @ c2" by (simp add: c1_def c2_def)
  have l1: "length c1 = length w" and l2: "length c2 = m"
    using assms(3) by (simp_all add: c1_def c2_def)
  have "list_all is_fin c2" using assms(2) col by simp
  then obtain r2 where c2: "c2 = map Fin r2" using finite_vec by blast
  have "map2 fmul (replicate m (Fin 0)) c2 = replicate m (Fin 0)"
    using l2 unfolding c2 by (auto simp: list_eq_iff_nth_eq)
  then have "map2 fmul (w @ replicate m (Fin 0)) (c1 @ c2) = map2 fmul w c1 @ replicate m (Fin 0)"
    using l1 by simp
  then show ?thesis
    unfolding col dot_def using l1 by (simp add: fsum_append_zeros)
qed

lemma triu_mask_slice:
  assumes "n \<le> ctx"
  shows "slice2 n n (to_bool (triu_ones ctx)) = map (\<lambda>i. map (\<lambda>j. i < j) [0..<n]) [0..<n]"
proof -
  have t: "take n [0..<ctx] = [0..<n]" using assms by (simp add: take_upt)
  have "to_bool (triu_ones ctx) = map (\<lambda>i. map (\<lambda>j. i < j) [0..<ctx]) [0..<ctx]"
    by (simp add: to_bool_def triu_ones_def o_def)
  then show ?thesis
    by (simp add: slice2_def take_map t o_def)
qed

lemma masked_fill_triu:
  assumes "length S = n" and "\<And>i. i < n \<Longrightarrow> length (S ! i) = n" and "n \<le> ctx"
  shows "masked_fill S (slice2 n n (to_bool (triu_ones ctx))) NInf =
           Inr (map (\<lambda>i. map (\<lambda>j. if i < j then NInf else S ! i ! j) [0..<n]) [0..<n])"
proof -
  let ?M = "map (\<lambda>i. map (\<lambda>j. i < j) [0..<n]) [0..<n]"
  have rows: "\<And>srow. srow \<in> set S \<Longrightarrow> length srow = n"
    using assms(1,2) by (metis in_set_conv_nth)
  have bc: "mask_broadcastable S ?M"
    using assms(1) rows by (auto simp: mask_broadcastable_def list_all_iff)
  have at: "mask_at ?M i j = (i < j)" if "i < n" "j < n" for i j
    using that by (auto simp: mask_at_def Let_def)
  have "map (\<lambda>(i, srow). map (\<lambda>(j, s). if mask_at ?M i j then NInf else s) (enumerate 0 srow))
            (enumerate 0 S)
        = map (\<lambda>i. map (\<lambda>j. if i < j then NInf else S ! i ! j) [0..<n]) [0..<n]"
    using assms(1,2) at
    by (auto simp: list_eq_iff_nth_eq nth_enumerate_eq)
  then show ?thesis
    using bc by (simp add: masked_fill_def triu_mask_slice[OF assms(3)])
qed

lemma masked_row:
  assumes "i < n" and "length K = n" and "0 < cr"
  shows "map (\<lambda>s. fdiv s (Fin cr)) (map (\<lambda>j. if i < j then NInf else dot q (K ! j)) [0..<n])
         = map (\<lambda>k. fdiv (dot q k) (Fin cr)) (take (Suc i) K) @ replicate (n - Suc i) NInf"
  using assms by (auto simp: list_eq_iff_nth_eq nth_append)

lemma columns_take: "columns m (take k V) = map (take k) (columns m V)"
  by (simp add: columns_def take_map o_def)

lemma weighted_row:
  assumes Z: "list_all is_fin Z" "Z \<noteq> []"
    and V: "list_all (list_all is_fin) V" "\<And>v. v \<in> set V \<Longrightarrow> length v = m"
    and len: "length V = length Z + r"
  shows "map (dot (softmax Z @ replicate r (Fin 0))) (columns m V)
         = map (dot (softmax Z)) (columns m (take (length Z) V))"
proof -
  have w: "list_all is_fin (softmax Z)" by (rule softmax_masked_tail(2)[OF Z])
  have lw: "length (softmax Z) = length Z" by (simp add: softmax_def Let_def)
  have "dot (softmax Z @ replicate r (Fin 0)) col = dot (softmax Z) (take (length Z) col)"
    if "col \<in> set (columns m V)" for col
  proof -
    from that have "\<exists>j<m. col = map (\<lambda>row. row ! j) V"
      by (auto simp: columns_def)
    then obtain j where j: "j < m" and col: "col = map (\<lambda>row. row ! j) V"
      by blast
    have "list_all is_fin col"
      using V j unfolding col by (auto simp: list_all_iff)
    moreover have "length col = length (softmax Z) + r" using len lw col by simp
    ultimately show ?thesis using dot_zero_tail[OF w] lw by simp
  qed
  then show ?thesis by (simp add: columns_take)
qed

text \<open>One head: masked scores, scaling by a positive number, softmax and the product
  with the values give the attention rows.\<close>

lemma masked_attention_rows:
  assumes lens: "length Q = n" "length K = n" "length V = n"
    and Qfin: "list_all (list_all is_fin) Q"
    and Kfin: "list_all (list_all is_fin) K"
    and Vfin: "list_all (list_all is_fin) V"
    and Vlen: "\<And>v. v \<in> set V \<Longrightarrow> length v = m"
    and cr: "0 < cr"
    and len: "n \<le> ctx"
  shows "\<exists>S'. masked_fill (matmul_nt Q K) (slice2 n n (to_bool (triu_ones ctx))) NInf = Inr S' \<and>
              matmul m (map softmax (div_scalar S' (Fin cr))) V = causal_rows (Fin cr) m Q K V"
proof -
  define S where "S = matmul_nt Q K"
  have lS: "length S = n" by (simp add: S_def matmul_nt_def lens)
  have Srow: "length (S ! i) = n" if "i < n" for i
    using that lens by (simp add: S_def matmul_nt_def)
  have Sij: "S ! i ! j = dot (Q ! i) (K ! j)" if "i < n" "j < n" for i j
    using that lens by (simp add: S_def matmul_nt_def)
  have mf: "masked_fill S (slice2 n n (to_bool (triu_ones ctx))) NInf =
              Inr (map (\<lambda>i. map (\<lambda>j. if i < j then NInf else S ! i ! j) [0..<n]) [0..<n])"
    using len by (intro masked_fill_triu lS Srow)
  have row: "map (dot (softmax (map (\<lambda>s. fdiv s (Fin cr))
                 (map (\<lambda>j. if i < j then NInf else S ! i ! j) [0..<n])))) (columns m V)
             = attention_row (Fin cr) m (Q ! i) (take (Suc i) K) (take (Suc i) V)"
    if i: "i < n" for i
  proof -
    define Z where "Z = map (\<lambda>k. fdiv (dot (Q ! i) k) (Fin cr)) (take (Suc i) K)"
    have lZ: "length Z = Suc i" using i lens by (simp add: Z_def)
    have Qi: "list_all is_fin (Q ! i)"
      using Qfin i lens by (simp add: list_all_length)
    have Zfin: "list_all is_fin Z"
      unfolding Z_def list_all_iff
      using Kfin Qi cr by (auto simp: list_all_iff dest!: in_set_takeD intro!: fdiv_finite dot_finite)
    have Zne: "Z \<noteq> []" using lZ by auto
    have "map (\<lambda>s. fdiv s (Fin cr)) (map (\<lambda>j. if i < j then NInf else S ! i ! j) [0..<n])
          = map (\<lambda>s. fdiv s (Fin cr))
              (map (\<lambda>j. if i < j then NInf else dot (Q ! i) (K ! j)) [0..<n])"
      by (simp add: Sij[OF i])
    also have "\<dots> = Z @ replicate (n - Suc i) NInf"
      unfolding Z_def by (rule masked_row[OF i lens(2) cr])
    finally have "map (\<lambda>s. fdiv s (Fin cr))
                    (map (\<lambda>j. if i < j then NInf else S ! i ! j) [0..<n])
                  = Z @ replicate (n - Suc i) NInf" .
    moreover have "softmax (Z @ replicate (n - Suc i) NInf)
                   = softmax Z @ replicate (n - Suc i) (Fin 0)"
      by (rule softmax_masked_tail(1)[OF Zfin Zne])
    moreover have "map (dot (softmax Z @ replicate (n - Suc i) (Fin 0))) (columns m V)
                   = map (dot (softmax Z)) (columns m (take (Suc i) V))"
    proof -
      have "length V = length Z + (n - Suc i)" using i lens lZ by simp
      from weighted_row[OF Zfin Zne Vfin Vlen this] show ?thesis
        unfolding lZ by blast
    qed
    ultimately have "map (dot (softmax (map (\<lambda>s. fdiv s (Fin cr))
                 (map (\<lambda>j. if i < j then NInf else S ! i ! j) [0..<n])))) (columns m V)
             = map (dot (softmax Z)) (columns m (take (Suc i) V))"
      by (simp only:)
    then show ?thesis
      unfolding attention_row_def Z_def .
  qed
  have "matmul m (map softmax (div_scalar
             (map (\<lambda>i. map (\<lambda>j. if i < j then NInf else S ! i ! j) [0..<n]) [0..<n])
             (Fin cr))) V
         = causal_rows (Fin cr) m Q K V"
    using row by (simp add: matmul_def div_scalar_def o_def causal_rows_def lens)
  then show ?thesis
    using mf unfolding S_def by blast
qed

lemma causal_rows_nth:
  "i < length Q \<Longrightarrow>
   causal_rows c m Q K V ! i = attention_row c m (Q ! i) (take (Suc i) K) (take (Suc i) V)"
  by (simp add: causal_rows_def del: take_Suc_conv_app_nth)

lemma collect_map_Inr:
  "(\<And>x. x \<in> set xs \<Longrightarrow> f x = Inr (g x)) \<Longrightarrow> collect (map f xs) = Inr (map g xs)"
  by (induction xs) simp_all

subsection \<open>CausalAttentionWithoutBuffers and CausalAttentionWithBuffer\<close>

lemma causal_attention1_rows:
  assumes Lq: "linear_finite Wq" and Lk: "linear_finite Wk" and Lv: "linear_finite Wv"
    and X: "list_all (list_all is_fin) X"
    and pos: "0 < out_features Wk"
    and drop: "p = 0 \<or> \<not> train"
    and len: "length X \<le> ctx"
  shows "causal_attention1 Wq Wk Wv (triu_ones ctx) p train keep bi X =
           Inr (attention_rows Wq Wk Wv X)"
proof -
  have cr: "0 < sqrt (real (out_features Wk))" using pos by simp
  have lens: "length (Linear_forward Wq X) = length X" "length (Linear_forward Wk X) = length X"
    "length (Linear_forward Wv X) = length X"
    by (simp_all add: Linear_forward_def)
  from masked_attention_rows[OF lens Linear_forward_finite(1)[OF Lq X]
      Linear_forward_finite(1)[OF Lk X] Linear_forward_finite(1)[OF Lv X]
      Linear_forward_finite(2)[OF Lv X] cr len]
  obtain S' where
    "masked_fill (matmul_nt (Linear_forward Wq X) (Linear_forward Wk X))
       (slice2 (length X) (length X) (to_bool (triu_ones ctx))) NInf = Inr S'"
    "matmul (out_features Wv) (map softmax (div_scalar S' (Fin (sqrt (real (out_features Wk))))))
       (Linear_forward Wv X) = attention_rows Wq Wk Wv X"
    unfolding attention_rows_def pow_half_def by blast
  then show ?thesis
    using drop
    by (simp add: causal_attention1_def Let_def Dropout_forward_def pow_half_def)
qed

lemma attention_rows_causal:
  assumes "i < length X" and "i < length X'" and "take (Suc i) X = take (Suc i) X'"
  shows "attention_rows Wq Wk Wv X ! i = attention_rows Wq Wk Wv X' ! i"
proof -
  have "X ! i = X' ! i"
    using assms by (metis lessI nth_take)
  then show ?thesis
    using assms
    by (simp add: attention_rows_def causal_rows_def Linear_forward_def take_map
        del: take_Suc_conv_app_nth)
qed

lemma causal_attention_batch:
  assumes Lq: "linear_finite Wq" and Lk: "linear_finite Wk" and Lv: "linear_finite Wv"
    and x: "\<And>X. X \<in> set x \<Longrightarrow> list_all (list_all is_fin) X \<and> length X \<le> ctx"
    and pos: "0 < out_features Wk"
    and drop: "p = 0 \<or> \<not> train"
  shows "collect (map (\<lambda>(bi, X). causal_attention1 Wq Wk Wv (triu_ones ctx) p train keep bi X)
                      (enumerate 0 x))
         = Inr (map (attention_rows Wq Wk Wv) x)"
proof -
  have "collect (map (\<lambda>(bi, X). causal_attention1 Wq Wk Wv (triu_ones ctx) p train keep bi X)
                      (enumerate 0 x))
        = Inr (map (\<lambda>(bi, X). attention_rows Wq Wk Wv X) (enumerate 0 x))"
  proof (rule collect_map_Inr)
    fix e assume "e \<in> set (enumerate 0 x)"
    then have "fst e < length x" and "snd e = x ! fst e"
      by (simp_all add: in_set_enumerate_eq)
    then have "snd e \<in> set x" by simp
    from x[OF this] show "(case e of (bi, X) \<Rightarrow>
            causal_attention1 Wq Wk Wv (triu_ones ctx) p train keep bi X)
          = Inr (case e of (bi, X) \<Rightarrow> attention_rows Wq Wk Wv X)"
      using causal_attention1_rows[OF Lq Lk Lv _ pos drop]
      by (cases e) simp
  qed
  moreover have "map (\<lambda>(bi, X). attention_rows Wq Wk Wv X) (enumerate 0 x)
                 = map (attention_rows Wq Wk Wv) x"
    by (simp add: list_eq_iff_nth_eq nth_enumerate_eq)
  ultimately show ?thesis by simp
qed

lemma CausalAttentionWithBuffer_causal_rows:
  assumes "getattr_child self ''W_query'' = Some Wq" and "getattr_child self ''W_key'' = Some Wk"
    and "getattr_child self ''W_value'' = Some Wv"
    and "getattr_tensor self ''mask'' = Some (xdev, triu_ones ctx)"
    and "device self = xdev"
    and "linear_accepts Wq x" and "linear_accepts Wk x" and "linear_accepts Wv x"
    and "linear_finite Wq" and "linear_finite Wk" and "linear_finite Wv"
    and "\<And>X. X \<in> set x \<Longrightarrow> list_all (list_all is_fin) X \<and> length X \<le> ctx"
    and "0 < out_features Wk"
    and "module.dropout self = 0 \<or> \<not> module.training self"
  shows "CausalAttentionWithBuffer_forward self keep xdev x = Inr (map (attention_rows Wq Wk Wv) x)"
  using assms(1-8) causal_attention_batch[OF assms(9-14)]
  by (simp add: CausalAttentionWithBuffer_forward_def)

lemma CausalAttentionWithoutBuffers_causal_rows:
  assumes "getattr_child self ''W_query'' = Some Wq" and "getattr_child self ''W_key'' = Some Wk"
    and "getattr_child self ''W_value'' = Some Wv"
    and "getattr_tensor self ''mask'' = Some (xdev, triu_ones ctx)"
    and "device self = xdev"
    and "linear_accepts Wq x" and "linear_accepts Wk x" and "linear_accepts Wv x"
    and "linear_finite Wq" and "linear_finite Wk" and "linear_finite Wv"
    and "\<And>X. X \<in> set x \<Longrightarrow> list_all (list_all is_fin) X \<and> length X \<le> ctx"
    and "0 < out_features Wk"
    and "module.dropout self = 0 \<or> \<not> module.training self"
  shows "CausalAttentionWithoutBuffers_forward self keep xdev x =
           Inr (map (attention_rows Wq Wk Wv) x)"
  using assms(1-8) causal_attention_batch[OF assms(9-14)]
  by (simp add: CausalAttentionWithoutBuffers_forward_def)

text \<open>Two inputs that agree on the tokens \<open>0..i\<close> give the same row \<open>i\<close>; an instance
  with a second token that differs.\<close>

lemma causal_attention1_causal:
  assumes "linear_finite Wq" and "linear_finite Wk" and "linear_finite Wv"
    and "0 < out_features Wk"
    and "p = 0 \<or> \<not> train"
    and "list_all (list_all is_fin) X" and "length X \<le> ctx"
    and "list_all (list_all is_fin) X'" and "length X' \<le> ctx"
    and "i < length X" and "i < length X'" and "take (Suc i) X = take (Suc i) X'"
  shows "\<exists>Y Y'. causal_attention1 Wq Wk Wv (triu_ones ctx) p train keep bi X = Inr Y \<and>
                causal_attention1 Wq Wk Wv (triu_ones ctx) p train keep bi X' = Inr Y' \<and>
                Y ! i = Y' ! i"
  using causal_attention1_rows[OF assms(1-3) assms(6) assms(4,5) assms(7)]
    causal_attention1_rows[OF assms(1-3) assms(8) assms(4,5) assms(9)]
    attention_rows_causal[OF assms(10-12)]
  by simp

lemma causal_attention1_causal_example:
  "\<exists>Y Y'. causal_attention1 lin1 lin1 lin1 (triu_ones 2) 0 True keep_all 0 [[Fin 1], [Fin 1]] = Inr Y \<and>
          causal_attention1 lin1 lin1 lin1 (triu_ones 2) 0 True keep_all 0 [[Fin 1], [Fin (- 1)]] = Inr Y' \<and>
          Y ! 0 = Y' ! 0"
  by (rule causal_attention1_causal)
     (simp_all add: lin1_def linear_finite_def out_features_def)

subsection \<open>MultiHeadAttentionCombinedQKV\<close>

lemma zip_map_same: "zip (map f xs) (map g xs) = map (\<lambda>x. (f x, g x)) xs"
  by (induction xs) simp_all

lemma qkv_part_nth:
  "h < H \<Longrightarrow> qkv_part part H hdim M ! h = map (\<lambda>row. take hdim (drop ((part * H + h) * hdim) row)) M"
  by (simp add: qkv_part_def)

lemma qkv_part_finite:
  assumes "list_all (list_all is_fin) M" and "h < H"
  shows "list_all (list_all is_fin) (qkv_part part H hdim M ! h)"
  using assms
  by (auto simp: qkv_part_nth list_all_iff dest!: in_set_takeD in_set_dropD)

lemma qkv_part_row_length:
  assumes "\<And>row. row \<in> set M \<Longrightarrow> length row = 3 * H * hdim" and "h < H"
    and "v \<in> set (qkv_part 2 H hdim M ! h)"
  shows "length v = hdim"
proof -
  from assms(2,3) obtain row where row: "row \<in> set M"
    and v: "v = take hdim (drop ((2 * H + h) * hdim) row)"
    by (auto simp: qkv_part_nth)
  have "(2 * H + h) * hdim + hdim = (2 * H + Suc h) * hdim" by (simp add: algebra_simps)
  also have "\<dots> \<le> (3 * H) * hdim"
    using assms(2) by (intro mult_le_mono1) simp
  finally have "(2 * H + h) * hdim + hdim \<le> length row"
    using assms(1)[OF row] by simp
  then show ?thesis unfolding v by simp
qed

lemma MultiHeadAttentionCombinedQKV_forward1_rows:
  assumes fin: "linear_finite (MultiHeadAttentionCombinedQKV.qkv self)"
    and out: "out_features (MultiHeadAttentionCombinedQKV.qkv self) =
                3 * nat (MultiHeadAttentionCombinedQKV.num_heads self) *
                  nat (MultiHeadAttentionCombinedQKV.head_dim self)"
    and hd: "0 < MultiHeadAttentionCombinedQKV.head_dim self"
    and emb: "nat (MultiHeadAttentionCombinedQKV.num_heads self) *
                nat (MultiHeadAttentionCombinedQKV.head_dim self) =
              in_features (MultiHeadAttentionCombinedQKV.qkv self)"
    and prj: "in_features (MultiHeadAttentionCombinedQKV.proj self) =
              in_features (MultiHeadAttentionCombinedQKV.qkv self)"
    and mask: "MultiHeadAttentionCombinedQKV.mask self = triu_ones ctx"
    and drop: "MultiHeadAttentionCombinedQKV.dropout self = 0 \<or>
               \<not> MultiHeadAttentionCombinedQKV.training self"
    and X: "list_all (list_all is_fin) X"
    and len: "length X \<le> ctx"
  shows "MultiHeadAttentionCombinedQKV_forward1 self keep bi X =
           Inr (MultiHeadAttentionCombinedQKV_rows self X)"
proof -
  define H where "H = nat (MultiHeadAttentionCombinedQKV.num_heads self)"
  define hdim where "hdim = nat (MultiHeadAttentionCombinedQKV.head_dim self)"
  define M where "M = Linear_forward (MultiHeadAttentionCombinedQKV.qkv self) X"
  define n where "n = length X"
  define cr where "cr = real hdim powr (- (1 / 2))"
  define B where "B = slice2 n n (to_bool (triu_ones ctx))"
  define Qs where "Qs = qkv_part 0 H hdim M"
  define Ks where "Ks = qkv_part 1 H hdim M"
  define Vs where "Vs = qkv_part 2 H hdim M"
  define Sm where "Sm h = projr (masked_fill (matmul_nt (Qs ! h) (Ks ! h)) B NInf)" for h
  have hpos: "0 < hdim" using hd by (simp add: hdim_def)
  then have cr: "0 < cr" by (simp add: cr_def)
  have pmh: "pow_minus_half hdim = Inr (Fin cr)"
    using hpos by (simp add: pow_minus_half_def cr_def)
  have Mfin: "list_all (list_all is_fin) M"
    unfolding M_def by (rule Linear_forward_finite(1)[OF fin X])
  have Mrow: "length row = 3 * H * hdim" if "row \<in> set M" for row
    using Linear_forward_finite(2)[OF fin X] that out by (simp add: M_def H_def hdim_def)
  have lM: "length M = n" by (simp add: M_def n_def Linear_forward_def)
  have lparts: "length Qs = H" "length Ks = H" "length Vs = H"
    by (simp_all add: Qs_def Ks_def Vs_def qkv_part_def)
  have lhead: "length (Qs ! h) = n" "length (Ks ! h) = n" "length (Vs ! h) = n" if "h < H" for h
    using that lM by (simp_all add: Qs_def Ks_def Vs_def qkv_part_nth)
  have head: "masked_fill (matmul_nt (Qs ! h) (Ks ! h)) B NInf = Inr (Sm h) \<and>
              matmul hdim (map softmax (div_scalar (Sm h) (Fin cr))) (Vs ! h)
                = causal_rows (Fin cr) hdim (Qs ! h) (Ks ! h) (Vs ! h)"
    if h: "h < H" for h
  proof -
    have "\<exists>S'. masked_fill (matmul_nt (Qs ! h) (Ks ! h)) (slice2 n n (to_bool (triu_ones ctx))) NInf
                 = Inr S' \<and>
               matmul hdim (map softmax (div_scalar S' (Fin cr))) (Vs ! h)
                 = causal_rows (Fin cr) hdim (Qs ! h) (Ks ! h) (Vs ! h)"
    proof (rule masked_attention_rows[OF lhead[OF h] _ _ _ _ cr])
      show "list_all (list_all is_fin) (Qs ! h)" "list_all (list_all is_fin) (Ks ! h)"
        "list_all (list_all is_fin) (Vs ! h)"
        unfolding Qs_def Ks_def Vs_def by (rule qkv_part_finite[OF Mfin h])+
      show "length v = hdim" if "v \<in> set (Vs ! h)" for v
        using that qkv_part_row_length[of M H hdim h v] Mrow h unfolding Vs_def by blast
      show "n \<le> ctx" using len by (simp add: n_def)
    qed
    then show ?thesis unfolding Sm_def B_def by auto
  qed
  have parts: "Qs = map (\<lambda>h. Qs ! h) [0..<H]" "Ks = map (\<lambda>h. Ks ! h) [0..<H]"
    "Vs = map (\<lambda>h. Vs ! h) [0..<H]"
    using lparts by (simp_all add: list_eq_iff_nth_eq)
  have "map (\<lambda>(q, k). matmul_nt q k) (zip Qs Ks) = map (\<lambda>h. matmul_nt (Qs ! h) (Ks ! h)) [0..<H]"
    using lparts by (simp add: list_eq_iff_nth_eq)
  then have "collect (map (\<lambda>S. masked_fill S B NInf) (map (\<lambda>(q, k). matmul_nt q k) (zip Qs Ks)))
             = collect (map (\<lambda>h. masked_fill (matmul_nt (Qs ! h) (Ks ! h)) B NInf) [0..<H])"
    by (simp add: o_def)
  also have "\<dots> = Inr (map Sm [0..<H])"
    by (rule collect_map_Inr) (simp add: head)
  finally have scores: "MultiHeadAttentionCombinedQKV_scores1 self X = Inr (map Sm [0..<H])"
    unfolding MultiHeadAttentionCombinedQKV_scores1_def Let_def mask
      H_def[symmetric] hdim_def[symmetric] M_def[symmetric] n_def[symmetric]
      Qs_def[symmetric] Ks_def[symmetric] B_def[symmetric] .
  have scaled: "MultiHeadAttentionCombinedQKV_scaled1 self X =
                  Inr (map (\<lambda>h. div_scalar (Sm h) (Fin cr)) [0..<H])"
    unfolding MultiHeadAttentionCombinedQKV_scaled1_def scores hdim_def[symmetric] pmh
    by (simp add: o_def)
  define Ws where "Ws = map (\<lambda>h. map softmax (div_scalar (Sm h) (Fin cr))) [0..<H]"
  have dropW: "map (\<lambda>(h, W). Dropout_forward (MultiHeadAttentionCombinedQKV.dropout self)
                     (MultiHeadAttentionCombinedQKV.training self) keep [bi, h] W)
                   (enumerate 0 Ws) = Ws"
    using drop by (auto simp: Dropout_forward_def list_eq_iff_nth_eq nth_enumerate_eq)
  have ctxv: "map (\<lambda>(W, V). matmul hdim W V) (zip Ws Vs)
              = map (\<lambda>h. causal_rows (Fin cr) hdim (Qs ! h) (Ks ! h) (Vs ! h)) [0..<H]"
    using lparts head by (simp add: Ws_def list_eq_iff_nth_eq)
  have "MultiHeadAttentionCombinedQKV_forward1 self keep bi X =
          Inr (Linear_forward (MultiHeadAttentionCombinedQKV.proj self)
                 (combine_heads n (map (\<lambda>(W, V). matmul hdim W V) (zip Ws Vs))))"
    unfolding MultiHeadAttentionCombinedQKV_forward1_def Let_def scaled
      H_def[symmetric] hdim_def[symmetric] M_def[symmetric] n_def[symmetric] Vs_def[symmetric]
    using emb prj dropW
    by (simp add: o_def Ws_def H_def hdim_def)
  then show ?thesis
    unfolding ctxv MultiHeadAttentionCombinedQKV_rows_def Let_def
      H_def[symmetric] hdim_def[symmetric] M_def[symmetric] n_def[symmetric]
      Qs_def[symmetric] Ks_def[symmetric] Vs_def[symmetric] cr_def[symmetric] .
qed

lemma MultiHeadAttentionCombinedQKV_rows_causal:
  assumes i: "i < length X" and i': "i < length X'" and eq: "take (Suc i) X = take (Suc i) X'"
  shows "MultiHeadAttentionCombinedQKV_rows self X ! i =
         MultiHeadAttentionCombinedQKV_rows self X' ! i"
proof -
  define H where "H = nat (MultiHeadAttentionCombinedQKV.num_heads self)"
  define hdim where "hdim = nat (MultiHeadAttentionCombinedQKV.head_dim self)"
  define R where "R Y h =
      causal_rows (Fin (real hdim powr (- (1 / 2)))) hdim
        (qkv_part 0 H hdim (Linear_forward (MultiHeadAttentionCombinedQKV.qkv self) Y) ! h)
        (qkv_part 1 H hdim (Linear_forward (MultiHeadAttentionCombinedQKV.qkv self) Y) ! h)
        (qkv_part 2 H hdim (Linear_forward (MultiHeadAttentionCombinedQKV.qkv self) Y) ! h)"
    for Y h
  have xi: "X ! i = X' ! i"
    using i i' eq by (metis lessI nth_take)
  have key: "R X h ! i = R X' h ! i" if "h < H" for h
    using that i i' xi eq
    by (simp add: R_def qkv_part_nth causal_rows_nth Linear_forward_def take_map
        del: take_Suc_conv_app_nth)
  have rows: "MultiHeadAttentionCombinedQKV_rows self Y ! i =
          Linear_row (MultiHeadAttentionCombinedQKV.proj self) (concat (map (\<lambda>h. R Y h ! i) [0..<H]))"
    if "i < length Y" for Y
    using that
    by (simp add: MultiHeadAttentionCombinedQKV_rows_def Let_def combine_heads_def
        Linear_forward_def R_def H_def hdim_def o_def)
  have "map (\<lambda>h. R X h ! i) [0..<H] = map (\<lambda>h. R X' h ! i) [0..<H]"
    by (simp add: key)
  then show ?thesis
    unfolding rows[OF i] rows[OF i'] by (rule arg_cong)
qed

lemma MultiHeadAttentionCombinedQKV_forward1_causal:
  assumes "linear_finite (MultiHeadAttentionCombinedQKV.qkv self)"
    and "out_features (MultiHeadAttentionCombinedQKV.qkv self) =
           3 * nat (MultiHeadAttentionCombinedQKV.num_heads self) *
             nat (MultiHeadAttentionCombinedQKV.head_dim self)"
    and "0 < MultiHeadAttentionCombinedQKV.head_dim self"
    and "nat (MultiHeadAttentionCombinedQKV.num_heads self) *
           nat (MultiHeadAttentionCombinedQKV.head_dim self) =
         in_features (MultiHeadAttentionCombinedQKV.qkv self)"
    and "in_features (MultiHeadAttentionCombinedQKV.proj self) =
         in_features (MultiHeadAttentionCombinedQKV.qkv self)"
    and "MultiHeadAttentionCombinedQKV.mask self = triu_ones ctx"
    and "MultiHeadAttentionCombinedQKV.dropout self = 0 \<or>
         \<not> MultiHeadAttentionCombinedQKV.training self"
    and "list_all (list_all is_fin) X" and "length X \<le> ctx"
    and "list_all (list_all is_fin) X'" and "length X' \<le> ctx"
    and "i < length X" and "i < length X'" and "take (Suc i) X = take (Suc i) X'"
  shows "\<exists>Y Y'. MultiHeadAttentionCombinedQKV_forward1 self keep bi X = Inr Y \<and>
                MultiHeadAttentionCombinedQKV_forward1 self keep bi X' = Inr Y' \<and>
                Y ! i = Y' ! i"
  using MultiHeadAttentionCombinedQKV_forward1_rows[OF assms(1-7) assms(8,9)]
    MultiHeadAttentionCombinedQKV_forward1_rows[OF assms(1-7) assms(10,11)]
    MultiHeadAttentionCombinedQKV_rows_causal[OF assms(12-14)]
  by simp

lemma MultiHeadAttentionCombinedQKV_forward1_causal_example:
  "\<exists>Y Y'. MultiHeadAttentionCombinedQKV_forward1 qkv_ex keep_all 0
             [[Fin 1, Fin 1, Fin 1, Fin 1], [Fin 1, Fin 1, Fin 1, Fin 1]] = Inr Y \<and>
          MultiHeadAttentionCombinedQKV_forward1 qkv_ex keep_all 0
             [[Fin 1, Fin 1, Fin 1, Fin 1], [Fin 0, Fin 2, Fin 0, Fin (- 1)]] = Inr Y' \<and>
          Y ! 0 = Y' ! 0"
  by (rule MultiHeadAttentionCombinedQKV_forward1_causal[where ctx = 2])
     (simp_all add: qkv_ex_def identity_rows_def linear_finite_def out_features_def upt_rec)

text \<open>The divisor \<open>keys.shape[-1]**-0.5\<close> of this class is positive for a head of
  positive dimension \<open>n\<close>, and dividing a finite score by it multiplies the score by
  \<open>sqrt n\<close>.\<close>

lemma pow_minus_half_multiplies:
  assumes "0 < n"
  shows "\<exists>c. pow_minus_half n = Inr (Fin c) \<and> 0 < c \<and>
             (\<forall>a. fdiv (Fin a) (Fin c) = Fin (a * sqrt (real n)))"
proof -
  have c: "real n powr (- (1 / 2)) = 1 / sqrt (real n)"
    using assms by (simp add: powr_minus powr_half_sqrt field_simps)
  have "0 < sqrt (real n)" using assms by simp
  then show ?thesis
    using assms by (simp add: pow_minus_half_def c)
qed

end
